theory Spec2Isabelle
  imports Main "HOL-Library.Word" "HOL-Library.Sublist"
begin

section \<open>Beacon operation pool handlers (beacon-chain/rpc/eth/beacon/handlers_pool.go)\<close>

text \<open>
  A shallow embedding of the HTTP handlers of \<^verbatim>\<open>handlers_pool.go\<close>. A handler is a
  function from the collaborators it calls and the request to the list of side effects it
  performs, in program order: calls on the operation feed, the broadcaster and the pools,
  and writes to the response. Collaborators whose code is outside this file (converters,
  validators, the chain, the broadcaster) are fields of an environment record giving the
  result of each call. Logging and tracing spans are not effects of the model.
\<close>

subsection \<open>Consensus objects\<close>

type_synonym bytes = "8 word list"
type_synonym uint64 = "64 word"

record AttestationData =
  Slot :: uint64
  CommitteeIndex :: uint64
  BeaconBlockRoot :: bytes

text \<open>\<^verbatim>\<open>eth.Attestation\<close>; \<^verbatim>\<open>eth.AttestationElectra\<close> has the same fields and the committee bits.\<close>

record Attestation =
  AggregationBits :: "bool list"
  Data :: AttestationData
  Signature :: bytes

record AttestationElectra = Attestation +
  CommitteeBits :: "bool list"

text \<open>The interface \<^verbatim>\<open>eth.Att\<close> with its two implementations.\<close>

datatype Att = Att_Phase0 Attestation | Att_Electra AttestationElectra

record VoluntaryExit =
  Epoch :: uint64
  ValidatorIndex :: uint64

record SignedVoluntaryExit =
  Exit :: VoluntaryExit
  ExitSignature :: bytes

record SignedBLSToExecutionChange =
  ChangeValidatorIndex :: uint64
  FromBlsPubkey :: bytes
  ToExecutionAddress :: bytes
  ChangeSignature :: bytes

record IndexedAttestation =
  AttestingIndices :: "uint64 list"
  IndexedData :: AttestationData
  IndexedSignature :: bytes

record AttesterSlashing =
  Attestation_1 :: IndexedAttestation
  Attestation_2 :: IndexedAttestation

record AttesterSlashingElectra =
  AttestationElectra_1 :: IndexedAttestation
  AttestationElectra_2 :: IndexedAttestation

text \<open>The interface \<^verbatim>\<open>eth.AttSlashing\<close> with its two implementations.\<close>

datatype AttSlashing =
  AttSlashing_Phase0 AttesterSlashing | AttSlashing_Electra AttesterSlashingElectra

fun FirstAttestation :: "AttSlashing \<Rightarrow> IndexedAttestation" where
  "FirstAttestation (AttSlashing_Phase0 s) = Attestation_1 s"
| "FirstAttestation (AttSlashing_Electra s) = AttestationElectra_1 s"

record BeaconBlockHeader =
  HeaderSlot :: uint64
  ProposerIndex :: uint64

record SignedBeaconBlockHeader =
  Header :: BeaconBlockHeader
  HeaderSignature :: bytes

record ProposerSlashing =
  Header_1 :: SignedBeaconBlockHeader
  Header_2 :: SignedBeaconBlockHeader

text \<open>
  The head state. The handlers read its fork version; everything else in it is seen only
  by the validation functions of the environment (\<open>StateRoot\<close> stands for that content).
\<close>

record BeaconState =
  Version :: int
  StateRoot :: nat

subsection \<open>Fork versions\<close>

text \<open>
  Modelled from the spec: the package \<^verbatim>\<open>runtime/version\<close> is not part of the sources.
  The forks are numbered in the canonical order Phase0, Altair, Bellatrix, Capella, Deneb,
  Electra, and named by their lower-case names.
\<close>

definition version_Phase0 :: int where "version_Phase0 = 0"
definition version_Altair :: int where "version_Altair = 1"
definition version_Bellatrix :: int where "version_Bellatrix = 2"
definition version_Capella :: int where "version_Capella = 3"
definition version_Deneb :: int where "version_Deneb = 4"
definition version_Electra :: int where "version_Electra = 5"

definition version_names :: "(string \<times> int) list" where
  "version_names =
     [(''phase0'', 0), (''altair'', 1), (''bellatrix'', 2),
      (''capella'', 3), (''deneb'', 4), (''electra'', 5)]"

text \<open>
  Modelled from the spec: \<^verbatim>\<open>version.FromString\<close> fails with \<open>UnknownVersion\<close> on a name
  that is not recognised.
\<close>

definition version_FromString :: "string \<Rightarrow> string + int" where
  "version_FromString name =
     (case map_of version_names name of
        None \<Rightarrow> Inl ''UnknownVersion''
      | Some v \<Rightarrow> Inr v)"

text \<open>Modelled from the spec: \<^verbatim>\<open>version.String\<close> names a fork.\<close>

definition version_String :: "int \<Rightarrow> string" where
  "version_String v =
     (case map_of (map (\<lambda>(n, k). (k, n)) version_names) v of
        None \<Rightarrow> ''unknown version''
      | Some n \<Rightarrow> n)"

subsection \<open>Requests, responses and effects\<close>

text \<open>
  A \<^verbatim>\<open>context.Context\<close> is the background context or a child of another context: a
  cancellable child (numbered), or the child that \<^verbatim>\<open>trace.StartSpan\<close> returns.
\<close>

datatype Context = Background | WithCancel Context nat | WithSpan Context string

definition StartSpan :: "Context \<Rightarrow> string \<Rightarrow> Context" where
  "StartSpan ctx name = WithSpan ctx name"

text \<open>\<open>descends c a\<close>: \<open>c\<close> is \<open>a\<close> or derived from it, so cancelling \<open>a\<close> closes \<open>c\<close>'s Done channel.\<close>

fun descends :: "Context \<Rightarrow> Context \<Rightarrow> bool" where
  "descends Background a = (a = Background)"
| "descends (WithCancel p n) a = (a = WithCancel p n \<or> descends p a)"
| "descends (WithSpan p s) a = (a = WithSpan p s \<or> descends p a)"

text \<open>
  The outcome of \<^verbatim>\<open>json.NewDecoder(r.Body).Decode\<close>: \<^verbatim>\<open>io.EOF\<close> on an empty body,
  another error, or the decoded value.
\<close>

datatype 'a body = Body_EOF | Body_Invalid string | Body_Json 'a

text \<open>
  A \<^verbatim>\<open>json.RawMessage\<close>: a JSON array of items, or other JSON, for which
  \<^verbatim>\<open>json.Unmarshal\<close> into a slice gives the error.
\<close>

datatype 'j raw_message = Raw_Array "'j list" | Raw_Other string

record 'b Request =
  Context :: Context
  Headers :: "string \<rightharpoonup> string"
  Query :: "string \<rightharpoonup> string"
  Body :: "'b body"

text \<open>\<^verbatim>\<open>Header.Get\<close> and \<^verbatim>\<open>URL.Query().Get\<close>: the empty string when the key is absent.\<close>

definition Get :: "(string \<rightharpoonup> string) \<Rightarrow> string \<Rightarrow> string" where
  "Get h k = (case h k of None \<Rightarrow> [] | Some v \<Rightarrow> v)"

definition api_VersionHeader :: string where
  "api_VersionHeader = ''Eth-Consensus-Version''"

definition StatusBadRequest :: nat where "StatusBadRequest = 400"
definition StatusInternalServerError :: nat where "StatusInternalServerError = 500"

record IndexedVerificationFailure =
  Index :: nat
  Message :: string

record IndexedVerificationFailureError =
  Code :: nat
  ErrorMessage :: string
  Failures :: "IndexedVerificationFailure list"

text \<open>The external structs, tagged by the conversion that made them.\<close>

datatype json_struct =
    structs_Attestation Attestation
  | structs_AttestationElectra AttestationElectra
  | structs_AttesterSlashing AttesterSlashing
  | structs_AttesterSlashingElectra AttesterSlashingElectra

record Response =
  RespVersion :: string
  RespData :: "json_struct list"

datatype Event =
    UnaggregatedAttReceived Att
  | BLSToExecutionChangeReceived SignedBLSToExecutionChange
  | AttesterSlashingReceived AttSlashing
  | ProposerSlashingReceived ProposerSlashing

datatype Message =
    Msg_Exit SignedVoluntaryExit
  | Msg_BLSChange SignedBLSToExecutionChange
  | Msg_AttSlashing AttSlashing
  | Msg_ProposerSlashing ProposerSlashing

datatype effect =
    Feed_Send Event
  | Broadcaster_BroadcastAttestation uint64 Att
  | Broadcaster_Broadcast Message
  | AttestationsPool_SaveAggregatedAttestation Att
  | AttestationsPool_SaveUnaggregatedAttestation Att
  | VoluntaryExitsPool_InsertVoluntaryExit SignedVoluntaryExit
  | BLSChangesPool_InsertBLSToExecChange SignedBLSToExecutionChange
  | SlashingsPool_InsertAttesterSlashing BeaconState AttSlashing
  | SlashingsPool_InsertProposerSlashing BeaconState ProposerSlashing
  | httputil_HandleError string nat
  | httputil_WriteError IndexedVerificationFailureError
  | httputil_WriteJson Response
  | Header_Set string string
  | go_broadcastBLSChanges Context "SignedBLSToExecutionChange option list"
  | time_NewTicker nat

subsection \<open>\<^verbatim>\<open>strconv.Itoa\<close> and \<^verbatim>\<open>strings.Join\<close>\<close>

definition digit :: "nat \<Rightarrow> char" where
  "digit d = ''0123456789'' ! d"

fun Itoa :: "nat \<Rightarrow> string" where
  "Itoa n = (if n < 10 then [digit n] else Itoa (n div 10) @ [digit (n mod 10)])"

declare Itoa.simps [simp del]

fun Join :: "string list \<Rightarrow> string \<Rightarrow> string" where
  "Join [] sep = []"
| "Join [x] sep = x"
| "Join (x # y # ys) sep = x @ sep @ Join (y # ys) sep"

subsection \<open>Attestation submission\<close>

text \<open>
  The collaborators of the attestation handlers. \<open>HeadValidatorsIndices\<close> and
  \<open>BroadcastAttestation\<close> depend on the chain and the network: their first argument is
  the iteration of the broadcast loop that makes the call, so the same attestation can
  succeed in one iteration and fail in another.
\<close>

record 'j att_env =
  Attestation_ToConsensus :: "'j \<Rightarrow> string + Attestation"
  AttestationElectra_ToConsensus :: "'j \<Rightarrow> string + AttestationElectra"
  SignatureFromBytes :: "bytes \<Rightarrow> string option"
  IsAggregated :: "Att \<Rightarrow> bool"
  ToEpoch :: "uint64 \<Rightarrow> uint64"
  HeadValidatorsIndices :: "nat \<Rightarrow> uint64 \<Rightarrow> string + uint64 list"
  GetCommitteeIndex :: "AttestationElectra \<Rightarrow> string + uint64"
  ComputeSubnetFromCommitteeAndSlot :: "uint64 \<Rightarrow> uint64 \<Rightarrow> uint64 \<Rightarrow> uint64"
  BroadcastAttestation :: "nat \<Rightarrow> uint64 \<Rightarrow> Att \<Rightarrow> string option"

text \<open>The first loop of \<^verbatim>\<open>handleAttestations\<close>: conversion and signature parsing, by index.\<close>

fun handleAttestations_validate ::
  "'j att_env \<Rightarrow> nat \<Rightarrow> 'j list \<Rightarrow> IndexedVerificationFailure list \<times> Attestation list" where
  "handleAttestations_validate env i [] = ([], [])"
| "handleAttestations_validate env i (sourceAtt # rest) =
     (let (attFailures, validAttestations) = handleAttestations_validate env (Suc i) rest in
      case Attestation_ToConsensus env sourceAtt of
        Inl err \<Rightarrow>
          (\<lparr>Index = i,
            Message = ''Could not convert request attestation to consensus attestation: '' @ err\<rparr>
             # attFailures, validAttestations)
      | Inr att \<Rightarrow>
          (case SignatureFromBytes env (Signature att) of
             Some err \<Rightarrow>
               (\<lparr>Index = i, Message = ''Incorrect attestation signature: '' @ err\<rparr>
                  # attFailures, validAttestations)
           | None \<Rightarrow> (attFailures, att # validAttestations)))"

text \<open>
  The body of the second loop of \<^verbatim>\<open>handleAttestations\<close> for the attestation at index
  \<open>i\<close> of \<open>validAttestations\<close>: what it appends to \<open>failedBroadcasts\<close> and its effects.
\<close>

definition handleAttestations_item ::
  "'j att_env \<Rightarrow> nat \<Rightarrow> Attestation \<Rightarrow> string list \<times> effect list" where
  "handleAttestations_item env i att =
     (let notify =
            (if \<not> IsAggregated env (Att_Phase0 att)
             then [Feed_Send (UnaggregatedAttReceived (Att_Phase0 att))] else []);
          wantedEpoch = ToEpoch env (Slot (Data att))
      in case HeadValidatorsIndices env i wantedEpoch of
           Inl err \<Rightarrow> ([Itoa i], notify)
         | Inr vals \<Rightarrow>
             (let subnet = ComputeSubnetFromCommitteeAndSlot env (of_nat (length vals))
                             (CommitteeIndex (Data att)) (Slot (Data att))
              in case BroadcastAttestation env i subnet (Att_Phase0 att) of
                   Some err \<Rightarrow>
                     ([Itoa i], notify @ [Broadcaster_BroadcastAttestation subnet (Att_Phase0 att)])
                 | None \<Rightarrow>
                     ([], notify @ [Broadcaster_BroadcastAttestation subnet (Att_Phase0 att)]
                        @ (if IsAggregated env (Att_Phase0 att)
                           then [AttestationsPool_SaveAggregatedAttestation (Att_Phase0 att)]
                           else [AttestationsPool_SaveUnaggregatedAttestation (Att_Phase0 att)]))))"

fun handleAttestations_process ::
  "'j att_env \<Rightarrow> nat \<Rightarrow> Attestation list \<Rightarrow> string list \<times> effect list" where
  "handleAttestations_process env i [] = ([], [])"
| "handleAttestations_process env i (att # rest) =
     (let (failed, effs) = handleAttestations_item env i att;
          (failedBroadcasts, effs') = handleAttestations_process env (Suc i) rest
      in (failed @ failedBroadcasts, effs @ effs'))"

text \<open>
  \<^verbatim>\<open>handleAttestations\<close> returns the error, or \<open>attFailures\<close> and \<open>failedBroadcasts\<close>,
  together with the effects it had.
\<close>

definition handleAttestations ::
  "'j att_env \<Rightarrow> 'j raw_message \<Rightarrow>
     (string + IndexedVerificationFailure list \<times> string list) \<times> effect list" where
  "handleAttestations env data =
     (case data of
        Raw_Other err \<Rightarrow> (Inl (''failed to unmarshal attestation: '' @ err), [])
      | Raw_Array sourceAttestations \<Rightarrow>
          if length sourceAttestations = 0 then (Inl ''no data submitted'', [])
          else
            (let (attFailures, validAttestations) =
                   handleAttestations_validate env 0 sourceAttestations;
                 (failedBroadcasts, effs) = handleAttestations_process env 0 validAttestations
             in (Inr (attFailures, failedBroadcasts), effs)))"

text \<open>The same for \<^verbatim>\<open>handleAttestationsElectra\<close>.\<close>

fun handleAttestationsElectra_validate ::
  "'j att_env \<Rightarrow> nat \<Rightarrow> 'j list \<Rightarrow> IndexedVerificationFailure list \<times> AttestationElectra list"
  where
  "handleAttestationsElectra_validate env i [] = ([], [])"
| "handleAttestationsElectra_validate env i (sourceAtt # rest) =
     (let (attFailures, validAttestations) = handleAttestationsElectra_validate env (Suc i) rest in
      case AttestationElectra_ToConsensus env sourceAtt of
        Inl err \<Rightarrow>
          (\<lparr>Index = i,
            Message = ''Could not convert request attestation to consensus attestation: '' @ err\<rparr>
             # attFailures, validAttestations)
      | Inr att \<Rightarrow>
          (case SignatureFromBytes env (Signature att) of
             Some err \<Rightarrow>
               (\<lparr>Index = i, Message = ''Incorrect attestation signature: '' @ err\<rparr>
                  # attFailures, validAttestations)
           | None \<Rightarrow> (attFailures, att # validAttestations)))"

text \<open>
  An iteration of the second loop either goes on to the next attestation, with what it
  appended to \<open>failedBroadcasts\<close>, or returns the error of \<^verbatim>\<open>GetCommitteeIndex\<close>.
\<close>

datatype item_result = Next "string list" | Return string

definition handleAttestationsElectra_item ::
  "'j att_env \<Rightarrow> nat \<Rightarrow> AttestationElectra \<Rightarrow> item_result \<times> effect list" where
  "handleAttestationsElectra_item env i att =
     (let notify =
            (if \<not> IsAggregated env (Att_Electra att)
             then [Feed_Send (UnaggregatedAttReceived (Att_Electra att))] else []);
          wantedEpoch = ToEpoch env (Slot (Data att))
      in case HeadValidatorsIndices env i wantedEpoch of
           Inl err \<Rightarrow> (Next [Itoa i], notify)
         | Inr vals \<Rightarrow>
             (case GetCommitteeIndex env att of
                Inl err \<Rightarrow>
                  (Return (''failed to retrieve attestation committee index: '' @ err), notify)
              | Inr committeeIndex \<Rightarrow>
                  (let subnet = ComputeSubnetFromCommitteeAndSlot env (of_nat (length vals))
                                  committeeIndex (Slot (Data att))
                   in case BroadcastAttestation env i subnet (Att_Electra att) of
                        Some err \<Rightarrow>
                          (Next [Itoa i],
                           notify @ [Broadcaster_BroadcastAttestation subnet (Att_Electra att)])
                      | None \<Rightarrow>
                          (Next [],
                           notify @ [Broadcaster_BroadcastAttestation subnet (Att_Electra att)]
                             @ (if IsAggregated env (Att_Electra att)
                                then [AttestationsPool_SaveAggregatedAttestation (Att_Electra att)]
                                else [AttestationsPool_SaveUnaggregatedAttestation
                                        (Att_Electra att)])))))"

fun handleAttestationsElectra_process ::
  "'j att_env \<Rightarrow> nat \<Rightarrow> AttestationElectra list \<Rightarrow> (string + string list) \<times> effect list"
  where
  "handleAttestationsElectra_process env i [] = (Inr [], [])"
| "handleAttestationsElectra_process env i (att # rest) =
     (case handleAttestationsElectra_item env i att of
        (Return err, effs) \<Rightarrow> (Inl err, effs)
      | (Next failed, effs) \<Rightarrow>
          (case handleAttestationsElectra_process env (Suc i) rest of
             (Inl err, effs') \<Rightarrow> (Inl err, effs @ effs')
           | (Inr failedBroadcasts, effs') \<Rightarrow> (Inr (failed @ failedBroadcasts), effs @ effs')))"

definition handleAttestationsElectra ::
  "'j att_env \<Rightarrow> 'j raw_message \<Rightarrow>
     (string + IndexedVerificationFailure list \<times> string list) \<times> effect list" where
  "handleAttestationsElectra env data =
     (case data of
        Raw_Other err \<Rightarrow> (Inl (''failed to unmarshal attestation: '' @ err), [])
      | Raw_Array sourceAttestations \<Rightarrow>
          if length sourceAttestations = 0 then (Inl ''no data submitted'', [])
          else
            (let (attFailures, validAttestations) =
                   handleAttestationsElectra_validate env 0 sourceAttestations
             in case handleAttestationsElectra_process env 0 validAttestations of
                  (Inl err, effs) \<Rightarrow> (Inl err, effs)
                | (Inr failedBroadcasts, effs) \<Rightarrow> (Inr (attFailures, failedBroadcasts), effs)))"

text \<open>The response that both submission handlers write after the attestations were handled.\<close>

definition attestations_response ::
  "IndexedVerificationFailure list \<Rightarrow> string list \<Rightarrow> effect list" where
  "attestations_response attFailures failedBroadcasts =
     (if length failedBroadcasts > 0 then
        [httputil_HandleError
           (''Attestations at index '' @ Join failedBroadcasts '', '' @ '' could not be broadcasted'')
           StatusInternalServerError]
      else if length attFailures > 0 then
        [httputil_WriteError
           \<lparr>Code = StatusBadRequest,
            ErrorMessage = ''One or more attestations failed validation'',
            Failures = attFailures\<rparr>]
      else [])"

definition SubmitAttestations :: "'j att_env \<Rightarrow> 'j raw_message Request \<Rightarrow> effect list" where
  "SubmitAttestations env r =
     (case Body r of
        Body_EOF \<Rightarrow> [httputil_HandleError ''No data submitted'' StatusBadRequest]
      | Body_Invalid err \<Rightarrow>
          [httputil_HandleError (''Could not decode request body: '' @ err) StatusBadRequest]
      | Body_Json data \<Rightarrow>
          (case handleAttestations env data of
             (Inl err, effs) \<Rightarrow> effs @ [httputil_HandleError err StatusBadRequest]
           | (Inr (attFailures, failedBroadcasts), effs) \<Rightarrow>
               effs @ attestations_response attFailures failedBroadcasts))"

definition SubmitAttestationsV2 :: "'j att_env \<Rightarrow> 'j raw_message Request \<Rightarrow> effect list" where
  "SubmitAttestationsV2 env r =
     (let versionHeader = Get (Headers r) api_VersionHeader in
      if versionHeader = [] then
        [httputil_HandleError (api_VersionHeader @ '' header is required'') StatusBadRequest]
      else
        case version_FromString versionHeader of
          Inl err \<Rightarrow> [httputil_HandleError (''Invalid version: '' @ err) StatusBadRequest]
        | Inr v \<Rightarrow>
            (case Body r of
               Body_EOF \<Rightarrow> [httputil_HandleError ''No data submitted'' StatusBadRequest]
             | Body_Invalid err \<Rightarrow>
                 [httputil_HandleError (''Could not decode request body: '' @ err)
                    StatusBadRequest]
             | Body_Json data \<Rightarrow>
                 (case (if v \<ge> version_Electra then handleAttestationsElectra env data
                        else handleAttestations env data) of
                    (Inl err, effs) \<Rightarrow>
                      effs @ [httputil_HandleError (''Failed to handle attestations: '' @ err)
                                StatusBadRequest]
                  | (Inr (attFailures, failedBroadcasts), effs) \<Rightarrow>
                      effs @ attestations_response attFailures failedBroadcasts)))"

subsection \<open>Voluntary exits and slashings\<close>

record Validator =
  PublicKey :: bytes
  ExitEpoch :: uint64

text \<open>
  The error of \<^verbatim>\<open>ValidatorAtIndexReadOnly\<close>: \<^verbatim>\<open>consensus_types.ErrOutOfBounds\<close> or another
  error, with its text.
\<close>

datatype lookup_error = ErrOutOfBounds string | ErrOther string

fun Error :: "lookup_error \<Rightarrow> string" where
  "Error (ErrOutOfBounds msg) = msg"
| "Error (ErrOther msg) = msg"

text \<open>
  The collaborators of the single-operation handlers. A pool insertion and a broadcast
  are effects of the handler whatever they return; the environment gives what they return.
\<close>

record 'j op_env =
  HeadState :: "string + BeaconState"
  ProcessSlotsIfPossible :: "BeaconState \<Rightarrow> uint64 \<Rightarrow> string + BeaconState"
  EpochStart :: "uint64 \<Rightarrow> string + uint64"
  ValidatorAtIndexReadOnly :: "BeaconState \<Rightarrow> uint64 \<Rightarrow> lookup_error + Validator"
  SignedVoluntaryExit_ToConsensus :: "'j \<Rightarrow> string + SignedVoluntaryExit"
  VerifyExitAndSignature :: "Validator \<Rightarrow> BeaconState \<Rightarrow> SignedVoluntaryExit \<Rightarrow> string option"
  AttesterSlashing_ToConsensus :: "'j \<Rightarrow> string + AttesterSlashing"
  AttesterSlashingElectra_ToConsensus :: "'j \<Rightarrow> string + AttesterSlashingElectra"
  VerifyAttesterSlashing :: "BeaconState \<Rightarrow> AttSlashing \<Rightarrow> string option"
  InsertAttesterSlashing :: "BeaconState \<Rightarrow> AttSlashing \<Rightarrow> string option"
  ProposerSlashing_ToConsensus :: "'j \<Rightarrow> string + ProposerSlashing"
  VerifyProposerSlashing :: "BeaconState \<Rightarrow> ProposerSlashing \<Rightarrow> string option"
  InsertProposerSlashing :: "BeaconState \<Rightarrow> ProposerSlashing \<Rightarrow> string option"
  DisableBroadcastSlashings :: bool
  Broadcast :: "Message \<Rightarrow> string option"

definition SubmitVoluntaryExit :: "'j op_env \<Rightarrow> 'j Request \<Rightarrow> effect list" where
  "SubmitVoluntaryExit env r =
     (case Body r of
        Body_EOF \<Rightarrow> [httputil_HandleError ''No data submitted'' StatusBadRequest]
      | Body_Invalid err \<Rightarrow>
          [httputil_HandleError (''Could not decode request body: '' @ err) StatusBadRequest]
      | Body_Json req \<Rightarrow>
     (case SignedVoluntaryExit_ToConsensus env req of
        Inl err \<Rightarrow>
          [httputil_HandleError (''Could not convert request exit to consensus exit: '' @ err)
             StatusBadRequest]
      | Inr exit \<Rightarrow>
     (case HeadState env of
        Inl err \<Rightarrow>
          [httputil_HandleError (''Could not get head state: '' @ err) StatusInternalServerError]
      | Inr headState \<Rightarrow>
     (case EpochStart env (Epoch (Exit exit)) of
        Inl err \<Rightarrow>
          [httputil_HandleError (''Could not get epoch start: '' @ err) StatusInternalServerError]
      | Inr epochStart \<Rightarrow>
     (case ProcessSlotsIfPossible env headState epochStart of
        Inl err \<Rightarrow>
          [httputil_HandleError (''Could not process slots: '' @ err) StatusInternalServerError]
      | Inr headState' \<Rightarrow>
     (case ValidatorAtIndexReadOnly env headState' (ValidatorIndex (Exit exit)) of
        Inl (ErrOutOfBounds msg) \<Rightarrow>
          [httputil_HandleError (''Could not get validator: '' @ msg) StatusBadRequest]
      | Inl (ErrOther msg) \<Rightarrow>
          [httputil_HandleError (''Could not get validator: '' @ msg) StatusInternalServerError]
      | Inr val \<Rightarrow>
     (case VerifyExitAndSignature env val headState' exit of
        Some err \<Rightarrow> [httputil_HandleError (''Invalid exit: '' @ err) StatusBadRequest]
      | None \<Rightarrow>
          [VoluntaryExitsPool_InsertVoluntaryExit exit, Broadcaster_Broadcast (Msg_Exit exit)]
            @ (case Broadcast env (Msg_Exit exit) of
                 Some err \<Rightarrow>
                   [httputil_HandleError (''Could not broadcast exit: '' @ err)
                      StatusInternalServerError]
               | None \<Rightarrow> []))))))))"

definition submitAttesterSlashing :: "'j op_env \<Rightarrow> AttSlashing \<Rightarrow> effect list" where
  "submitAttesterSlashing env slashing =
     (case HeadState env of
        Inl err \<Rightarrow>
          [httputil_HandleError (''Could not get head state: '' @ err) StatusInternalServerError]
      | Inr headState \<Rightarrow>
     (case ProcessSlotsIfPossible env headState (Slot (IndexedData (FirstAttestation slashing))) of
        Inl err \<Rightarrow>
          [httputil_HandleError (''Could not process slots: '' @ err) StatusInternalServerError]
      | Inr headState' \<Rightarrow>
     (case VerifyAttesterSlashing env headState' slashing of
        Some err \<Rightarrow>
          [httputil_HandleError (''Invalid attester slashing: '' @ err) StatusBadRequest]
      | None \<Rightarrow>
          SlashingsPool_InsertAttesterSlashing headState' slashing #
          (case InsertAttesterSlashing env headState' slashing of
             Some err \<Rightarrow>
               [httputil_HandleError (''Could not insert attester slashing into pool: '' @ err)
                  StatusInternalServerError]
           | None \<Rightarrow>
               Feed_Send (AttesterSlashingReceived slashing) #
               (if \<not> DisableBroadcastSlashings env then
                  Broadcaster_Broadcast (Msg_AttSlashing slashing) #
                  (case Broadcast env (Msg_AttSlashing slashing) of
                     Some err \<Rightarrow>
                       [httputil_HandleError (''Could not broadcast slashing object: '' @ err)
                          StatusInternalServerError]
                   | None \<Rightarrow> [])
                else [])))))"

definition SubmitAttesterSlashings :: "'j op_env \<Rightarrow> 'j Request \<Rightarrow> effect list" where
  "SubmitAttesterSlashings env r =
     (case Body r of
        Body_EOF \<Rightarrow> [httputil_HandleError ''No data submitted'' StatusBadRequest]
      | Body_Invalid err \<Rightarrow>
          [httputil_HandleError (''Could not decode request body: '' @ err) StatusBadRequest]
      | Body_Json req \<Rightarrow>
          (case AttesterSlashing_ToConsensus env req of
             Inl err \<Rightarrow>
               [httputil_HandleError
                  (''Could not convert request slashing to consensus slashing: '' @ err)
                  StatusBadRequest]
           | Inr slashing \<Rightarrow> submitAttesterSlashing env (AttSlashing_Phase0 slashing)))"

text \<open>
  In \<^verbatim>\<open>SubmitAttesterSlashingsV2\<close> the branch for an empty version header writes the
  error and does not return: the handler goes on with \<^verbatim>\<open>version.FromString\<close>.
\<close>

definition SubmitAttesterSlashingsV2 :: "'j op_env \<Rightarrow> 'j Request \<Rightarrow> effect list" where
  "SubmitAttesterSlashingsV2 env r =
     (let versionHeader = Get (Headers r) api_VersionHeader in
      (if versionHeader = [] then
         [httputil_HandleError (api_VersionHeader @ '' header is required'') StatusBadRequest]
       else []) @
      (case version_FromString versionHeader of
         Inl err \<Rightarrow> [httputil_HandleError (''Invalid version: '' @ err) StatusBadRequest]
       | Inr v \<Rightarrow>
           if v \<ge> version_Electra then
             (case Body r of
                Body_EOF \<Rightarrow> [httputil_HandleError ''No data submitted'' StatusBadRequest]
              | Body_Invalid err \<Rightarrow>
                  [httputil_HandleError (''Could not decode request body: '' @ err)
                     StatusBadRequest]
              | Body_Json req \<Rightarrow>
                  (case AttesterSlashingElectra_ToConsensus env req of
                     Inl err \<Rightarrow>
                       [httputil_HandleError
                          (''Could not convert request slashing to consensus slashing: '' @ err)
                          StatusBadRequest]
                   | Inr slashing \<Rightarrow> submitAttesterSlashing env (AttSlashing_Electra slashing)))
           else
             (case Body r of
                Body_EOF \<Rightarrow> [httputil_HandleError ''No data submitted'' StatusBadRequest]
              | Body_Invalid err \<Rightarrow>
                  [httputil_HandleError (''Could not decode request body: '' @ err)
                     StatusBadRequest]
              | Body_Json req \<Rightarrow>
                  (case AttesterSlashing_ToConsensus env req of
                     Inl err \<Rightarrow>
                       [httputil_HandleError
                          (''Could not convert request slashing to consensus slashing: '' @ err)
                          StatusBadRequest]
                   | Inr slashing \<Rightarrow> submitAttesterSlashing env (AttSlashing_Phase0 slashing)))))"

definition SubmitProposerSlashing :: "'j op_env \<Rightarrow> 'j Request \<Rightarrow> effect list" where
  "SubmitProposerSlashing env r =
     (case Body r of
        Body_EOF \<Rightarrow> [httputil_HandleError ''No data submitted'' StatusBadRequest]
      | Body_Invalid err \<Rightarrow>
          [httputil_HandleError (''Could not decode request body: '' @ err) StatusBadRequest]
      | Body_Json req \<Rightarrow>
     (case ProposerSlashing_ToConsensus env req of
        Inl err \<Rightarrow>
          [httputil_HandleError
             (''Could not convert request slashing to consensus slashing: '' @ err)
             StatusBadRequest]
      | Inr slashing \<Rightarrow>
     (case HeadState env of
        Inl err \<Rightarrow>
          [httputil_HandleError (''Could not get head state: '' @ err) StatusInternalServerError]
      | Inr headState \<Rightarrow>
     (case ProcessSlotsIfPossible env headState (HeaderSlot (Header (Header_1 slashing))) of
        Inl err \<Rightarrow>
          [httputil_HandleError (''Could not process slots: '' @ err) StatusInternalServerError]
      | Inr headState' \<Rightarrow>
     (case VerifyProposerSlashing env headState' slashing of
        Some err \<Rightarrow>
          [httputil_HandleError (''Invalid proposer slashing: '' @ err) StatusBadRequest]
      | None \<Rightarrow>
          SlashingsPool_InsertProposerSlashing headState' slashing #
          (case InsertProposerSlashing env headState' slashing of
             Some err \<Rightarrow>
               [httputil_HandleError (''Could not insert proposer slashing into pool: '' @ err)
                  StatusInternalServerError]
           | None \<Rightarrow>
               Feed_Send (ProposerSlashingReceived slashing) #
               (if \<not> DisableBroadcastSlashings env then
                  Broadcaster_Broadcast (Msg_ProposerSlashing slashing) #
                  (case Broadcast env (Msg_ProposerSlashing slashing) of
                     Some err \<Rightarrow>
                       [httputil_HandleError (''Could not broadcast slashing object: '' @ err)
                          StatusInternalServerError]
                   | None \<Rightarrow> [])
                else [])))))))"

subsection \<open>BLS-to-execution changes\<close>

text \<open>
  The head state changes while the deferred loop runs, so \<open>HeadStateReadOnly\<close> takes the
  time of the call: 0 for the call of the handler, \<open>k\<close> for the call of the \<open>k\<close>-th round of
  the loop that the handler starts.
\<close>

record 'j bls_env =
  HeadStateReadOnly :: "nat \<Rightarrow> string + BeaconState"
  SignedBLSToExecutionChange_ToConsensus :: "'j \<Rightarrow> string + SignedBLSToExecutionChange"
  ValidateBLSToExecutionChange :: "BeaconState \<Rightarrow> SignedBLSToExecutionChange \<Rightarrow> string option"
  VerifyBLSChangeSignature :: "BeaconState \<Rightarrow> SignedBLSToExecutionChange \<Rightarrow> string option"

definition broadcastBLSChangesRateLimit :: nat where
  "broadcastBLSChangesRateLimit = 128"

text \<open>
  The loop of \<^verbatim>\<open>SubmitBLSToExecutionChanges\<close> over the request: the failures, the changes
  to broadcast (pointers, none of them nil) and the effects.
\<close>

fun SubmitBLSToExecutionChanges_loop ::
  "'j bls_env \<Rightarrow> BeaconState \<Rightarrow> nat \<Rightarrow> 'j list \<Rightarrow>
     IndexedVerificationFailure list \<times> SignedBLSToExecutionChange option list \<times> effect list"
  where
  "SubmitBLSToExecutionChanges_loop env st i [] = ([], [], [])"
| "SubmitBLSToExecutionChanges_loop env st i (change # rest) =
     (let (failures, toBroadcast, effs) = SubmitBLSToExecutionChanges_loop env st (Suc i) rest in
      case SignedBLSToExecutionChange_ToConsensus env change of
        Inl err \<Rightarrow>
          (\<lparr>Index = i, Message = ''Unable to decode SignedBLSToExecutionChange: '' @ err\<rparr>
             # failures, toBroadcast, effs)
      | Inr sbls \<Rightarrow>
          (case ValidateBLSToExecutionChange env st sbls of
             Some err \<Rightarrow>
               (\<lparr>Index = i,
                 Message = ''Could not validate SignedBLSToExecutionChange: '' @ err\<rparr>
                  # failures, toBroadcast, effs)
           | None \<Rightarrow>
               (case VerifyBLSChangeSignature env st sbls of
                  Some err \<Rightarrow>
                    (\<lparr>Index = i, Message = ''Could not validate signature: '' @ err\<rparr>
                       # failures, toBroadcast, effs)
                | None \<Rightarrow>
                    (failures,
                     (if Version st \<ge> version_Capella then Some sbls # toBroadcast
                      else toBroadcast),
                     Feed_Send (BLSToExecutionChangeReceived sbls)
                       # BLSChangesPool_InsertBLSToExecChange sbls # effs))))"

text \<open>
  The handler starts \<^verbatim>\<open>broadcastBLSChanges\<close> as a goroutine, with the context of its own
  span, and goes on to write the response.
\<close>

definition SubmitBLSToExecutionChanges :: "'j bls_env \<Rightarrow> 'j list Request \<Rightarrow> effect list" where
  "SubmitBLSToExecutionChanges env r =
     (let ctx = StartSpan (Context r) ''beacon.SubmitBLSToExecutionChanges'' in
      case HeadStateReadOnly env 0 of
        Inl err \<Rightarrow>
          [httputil_HandleError (''Could not get head state: '' @ err) StatusInternalServerError]
      | Inr st \<Rightarrow>
          (case Body r of
             Body_EOF \<Rightarrow> [httputil_HandleError ''No data submitted'' StatusBadRequest]
           | Body_Invalid err \<Rightarrow>
               [httputil_HandleError (''Could not decode request body: '' @ err) StatusBadRequest]
           | Body_Json req \<Rightarrow>
               if length req = 0 then [httputil_HandleError ''No data submitted'' StatusBadRequest]
               else
                 (let (failures, toBroadcast, effs) =
                        SubmitBLSToExecutionChanges_loop env st 0 req
                  in effs @ [go_broadcastBLSChanges ctx toBroadcast]
                       @ (if length failures > 0 then
                            [httputil_WriteError
                               \<lparr>Code = StatusBadRequest,
                                ErrorMessage = ''One or more BLSToExecutionChange failed validation'',
                                Failures = failures\<rparr>]
                          else []))))"

text \<open>The body of the loop of \<^verbatim>\<open>broadcastBLSBatch\<close> for one element of the slice.\<close>

definition broadcastBLSBatch_item ::
  "'j bls_env \<Rightarrow> BeaconState \<Rightarrow> SignedBLSToExecutionChange option \<Rightarrow> effect list" where
  "broadcastBLSBatch_item env st ch =
     (case ch of
        None \<Rightarrow> []
      | Some c \<Rightarrow>
          (case ValidateBLSToExecutionChange env st c of
             Some err \<Rightarrow> []
           | None \<Rightarrow> [Broadcaster_Broadcast (Msg_BLSChange c)]))"

text \<open>
  \<^verbatim>\<open>broadcastBLSBatch\<close> at time \<open>t\<close>: its effects and the slice it leaves behind the
  pointer. When the head state cannot be read it returns at once and leaves the slice as
  it is.
\<close>

definition broadcastBLSBatch ::
  "'j bls_env \<Rightarrow> nat \<Rightarrow> SignedBLSToExecutionChange option list \<Rightarrow>
     effect list \<times> SignedBLSToExecutionChange option list" where
  "broadcastBLSBatch env t ptr =
     (let limit = (if length ptr < broadcastBLSChangesRateLimit then length ptr
                   else broadcastBLSChangesRateLimit)
      in case HeadStateReadOnly env t of
           Inl err \<Rightarrow> ([], ptr)
         | Inr st \<Rightarrow>
             (concat (map (broadcastBLSBatch_item env st) (take limit ptr)), drop limit ptr))"

text \<open>
  What the goroutine sees while it waits in \<^verbatim>\<open>select\<close>: a context was cancelled, or the
  ticker fired. The loop ends when its own context is done, that is when the cancelled
  context is the loop's context or one it derives from; it takes no notice of another
  context. With no event left the goroutine stays blocked in \<^verbatim>\<open>select\<close>.
\<close>

datatype sched_event = Cancelled Context | Tick

datatype loop_status = Returned | Blocked

fun broadcastBLSChanges_loop ::
  "'j bls_env \<Rightarrow> Context \<Rightarrow> nat \<Rightarrow> SignedBLSToExecutionChange option list \<Rightarrow>
     sched_event list \<Rightarrow> effect list \<times> SignedBLSToExecutionChange option list \<times> loop_status"
  where
  "broadcastBLSChanges_loop env ctx t changes [] = ([], changes, Blocked)"
| "broadcastBLSChanges_loop env ctx t changes (Cancelled c # sched) =
     (if descends ctx c then ([], changes, Returned)
      else broadcastBLSChanges_loop env ctx t changes sched)"
| "broadcastBLSChanges_loop env ctx t changes (Tick # sched) =
     (let (effs, changes') = broadcastBLSBatch env t changes in
      if length changes' = 0 then (effs, changes', Returned)
      else (let (effs', changes'', status) =
                  broadcastBLSChanges_loop env ctx (Suc t) changes' sched
            in (effs @ effs', changes'', status)))"

definition ticker_period_ms :: nat where
  "ticker_period_ms = 500"

definition broadcastBLSChanges ::
  "'j bls_env \<Rightarrow> Context \<Rightarrow> SignedBLSToExecutionChange option list \<Rightarrow>
     sched_event list \<Rightarrow> effect list \<times> SignedBLSToExecutionChange option list \<times> loop_status"
  where
  "broadcastBLSChanges env ctx changes sched =
     (let (effs, changes') = broadcastBLSBatch env 1 changes in
      if length changes' = 0 then (effs, changes', Returned)
      else (let (effs', changes'', status) = broadcastBLSChanges_loop env ctx 2 changes' sched
            in (effs @ [time_NewTicker ticker_period_ms] @ effs', changes'', status)))"

subsection \<open>Listing attestations and attester slashings\<close>

text \<open>
  \<open>json_Marshal\<close> gives the error of \<^verbatim>\<open>json.Marshal\<close>, if any; the data of a response is
  the list of structs that was marshalled.
\<close>

record list_env =
  ChainInfoFetcher_HeadStateReadOnly :: "string + BeaconState"
  AggregatedAttestations :: "Att list"
  UnaggregatedAttestations :: "string + Att list"
  PendingAttesterSlashings :: "BeaconState \<Rightarrow> bool \<Rightarrow> AttSlashing list"
  ParseUint :: "string \<Rightarrow> string + uint64"
  json_Marshal :: "json_struct list \<Rightarrow> string option"

text \<open>
  Modelled from the spec: \<^verbatim>\<open>shared.UintFromQuery\<close> is not part of the sources. For a
  parameter that is not required, an absent value gives the empty raw string and 0; a
  present value that does not parse is answered with a 400.
\<close>

definition UintFromQuery ::
  "list_env \<Rightarrow> 'b Request \<Rightarrow> string \<Rightarrow> effect list + string \<times> uint64" where
  "UintFromQuery env r name =
     (let raw = Get (Query r) name in
      if raw = [] then Inr (raw, 0)
      else case ParseUint env raw of
             Inl err \<Rightarrow>
               Inl [httputil_HandleError (name @ '' is invalid: '' @ err) StatusBadRequest]
           | Inr v \<Rightarrow> Inr (raw, v))"

definition shouldIncludeAttestation ::
  "AttestationData \<Rightarrow> string \<Rightarrow> uint64 \<Rightarrow> string \<Rightarrow> uint64 \<Rightarrow> bool" where
  "shouldIncludeAttestation data rawSlot slot rawCommitteeIndex committeeIndex =
     (let committeeIndexMatch =
            (if rawCommitteeIndex \<noteq> [] \<and> CommitteeIndex data \<noteq> committeeIndex then False
             else True);
          slotMatch = (if rawSlot \<noteq> [] \<and> Slot data \<noteq> slot then False else True)
      in committeeIndexMatch \<and> slotMatch)"

text \<open>What \<^verbatim>\<open>%T\<close> prints for a value of an interface.\<close>

fun Att_type :: "Att \<Rightarrow> string" where
  "Att_type (Att_Phase0 a) = ''*eth.Attestation''"
| "Att_type (Att_Electra a) = ''*eth.AttestationElectra''"

fun AttSlashing_type :: "AttSlashing \<Rightarrow> string" where
  "AttSlashing_type (AttSlashing_Phase0 s) = ''*eth.AttesterSlashing''"
| "AttSlashing_type (AttSlashing_Electra s) = ''*eth.AttesterSlashingElectra''"

text \<open>
  The loop of \<^verbatim>\<open>ListAttestationsV2\<close>: the filtered attestations, or the message of the
  error for the first attestation that is not of the type of the head state's fork.
\<close>

fun ListAttestationsV2_loop ::
  "BeaconState \<Rightarrow> string \<Rightarrow> uint64 \<Rightarrow> string \<Rightarrow> uint64 \<Rightarrow> Att list \<Rightarrow>
     string + json_struct list" where
  "ListAttestationsV2_loop headState rawSlot slot rawCommitteeIndex committeeIndex [] = Inr []"
| "ListAttestationsV2_loop headState rawSlot slot rawCommitteeIndex committeeIndex (att # rest) =
     (if Version headState \<ge> version_Electra then
        (case att of
           Att_Electra attElectra \<Rightarrow>
             (case ListAttestationsV2_loop headState rawSlot slot rawCommitteeIndex
                     committeeIndex rest of
                Inl err \<Rightarrow> Inl err
              | Inr filteredAtts \<Rightarrow>
                  if shouldIncludeAttestation (Data attElectra) rawSlot slot rawCommitteeIndex
                       committeeIndex
                  then Inr (structs_AttestationElectra attElectra # filteredAtts)
                  else Inr filteredAtts)
         | _ \<Rightarrow> Inl (''Unable to convert attestation of type '' @ Att_type att))
      else
        (case att of
           Att_Phase0 attOld \<Rightarrow>
             (case ListAttestationsV2_loop headState rawSlot slot rawCommitteeIndex
                     committeeIndex rest of
                Inl err \<Rightarrow> Inl err
              | Inr filteredAtts \<Rightarrow>
                  if shouldIncludeAttestation (Data attOld) rawSlot slot rawCommitteeIndex
                       committeeIndex
                  then Inr (structs_Attestation attOld # filteredAtts)
                  else Inr filteredAtts)
         | _ \<Rightarrow> Inl (''Unable to convert attestation of type '' @ Att_type att)))"

definition ListAttestationsV2 :: "list_env \<Rightarrow> 'b Request \<Rightarrow> effect list" where
  "ListAttestationsV2 env r =
     (case UintFromQuery env r ''slot'' of
        Inl effs \<Rightarrow> effs
      | Inr (rawSlot, slot) \<Rightarrow>
     (case UintFromQuery env r ''committee_index'' of
        Inl effs \<Rightarrow> effs
      | Inr (rawCommitteeIndex, committeeIndex) \<Rightarrow>
     (case ChainInfoFetcher_HeadStateReadOnly env of
        Inl err \<Rightarrow>
          [httputil_HandleError (''Could not get head state: '' @ err) StatusInternalServerError]
      | Inr headState \<Rightarrow>
     (case UnaggregatedAttestations env of
        Inl err \<Rightarrow>
          [httputil_HandleError (''Could not get unaggregated attestations: '' @ err)
             StatusInternalServerError]
      | Inr unaggAtts \<Rightarrow>
     (case ListAttestationsV2_loop headState rawSlot slot rawCommitteeIndex committeeIndex
             (AggregatedAttestations env @ unaggAtts) of
        Inl err \<Rightarrow> [httputil_HandleError err StatusInternalServerError]
      | Inr filteredAtts \<Rightarrow>
     (case json_Marshal env filteredAtts of
        Some err \<Rightarrow>
          [httputil_HandleError (''Could not marshal attestations: '' @ err)
             StatusInternalServerError]
      | None \<Rightarrow>
          [httputil_WriteJson
             \<lparr>RespVersion = version_String (Version headState), RespData = filteredAtts\<rparr>]))))))"

fun GetAttesterSlashingsV2_loop :: "BeaconState \<Rightarrow> AttSlashing list \<Rightarrow> string + json_struct list"
  where
  "GetAttesterSlashingsV2_loop headState [] = Inr []"
| "GetAttesterSlashingsV2_loop headState (slashing # rest) =
     (if Version headState \<ge> version_Electra then
        (case slashing of
           AttSlashing_Electra a \<Rightarrow>
             (case GetAttesterSlashingsV2_loop headState rest of
                Inl err \<Rightarrow> Inl err
              | Inr attStructs \<Rightarrow> Inr (structs_AttesterSlashingElectra a # attStructs))
         | _ \<Rightarrow>
             Inl (''Unable to convert slashing of type '' @ AttSlashing_type slashing
                    @ '' to an Electra slashing''))
      else
        (case slashing of
           AttSlashing_Phase0 a \<Rightarrow>
             (case GetAttesterSlashingsV2_loop headState rest of
                Inl err \<Rightarrow> Inl err
              | Inr attStructs \<Rightarrow> Inr (structs_AttesterSlashing a # attStructs))
         | _ \<Rightarrow>
             Inl (''Unable to convert slashing of type '' @ AttSlashing_type slashing
                    @ '' to a Phase0 slashing'')))"

definition GetAttesterSlashingsV2 :: "list_env \<Rightarrow> 'b Request \<Rightarrow> effect list" where
  "GetAttesterSlashingsV2 env r =
     (case ChainInfoFetcher_HeadStateReadOnly env of
        Inl err \<Rightarrow>
          [httputil_HandleError (''Could not get head state: '' @ err) StatusInternalServerError]
      | Inr headState \<Rightarrow>
     (case GetAttesterSlashingsV2_loop headState (PendingAttesterSlashings env headState True) of
        Inl err \<Rightarrow> [httputil_HandleError err StatusInternalServerError]
      | Inr attStructs \<Rightarrow>
     (case json_Marshal env attStructs of
        Some err \<Rightarrow>
          [httputil_HandleError (''Failed to marshal slashing: '' @ err)
             StatusInternalServerError]
      | None \<Rightarrow>
          [Header_Set api_VersionHeader (version_String (Version headState)),
           httputil_WriteJson
             \<lparr>RespVersion = version_String (Version headState), RespData = attStructs\<rparr>])))"

section \<open>Notions used to state the properties\<close>

subsection \<open>Attestation batches\<close>

text \<open>
  \<open>phaseA env sourceAtt\<close> is the attestation that the first loop of \<^verbatim>\<open>handleAttestations\<close>
  keeps for a submitted item, if it keeps one: the item converts and its signature parses.
  \<open>broadcast_ok env i att\<close> says that iteration \<open>i\<close> of the second loop takes neither of the
  two branches that append to \<open>failedBroadcasts\<close>. \<open>saved\<close> lists the attestations that a
  sequence of effects hands to the attestations pool.
\<close>

definition phaseA :: "'j att_env \<Rightarrow> 'j \<Rightarrow> Attestation option" where
  "phaseA env sourceAtt =
     (case Attestation_ToConsensus env sourceAtt of
        Inl err \<Rightarrow> None
      | Inr att \<Rightarrow> (case SignatureFromBytes env (Signature att) of Some err \<Rightarrow> None | None \<Rightarrow> Some att))"

definition broadcast_ok :: "'j att_env \<Rightarrow> nat \<Rightarrow> Attestation \<Rightarrow> bool" where
  "broadcast_ok env i att =
     (case HeadValidatorsIndices env i (ToEpoch env (Slot (Data att))) of
        Inl err \<Rightarrow> False
      | Inr vals \<Rightarrow>
          BroadcastAttestation env i
            (ComputeSubnetFromCommitteeAndSlot env (of_nat (length vals))
               (CommitteeIndex (Data att)) (Slot (Data att)))
            (Att_Phase0 att) = None)"

fun saved :: "effect list \<Rightarrow> Att list" where
  "saved [] = []"
| "saved (AttestationsPool_SaveAggregatedAttestation a # effs) = a # saved effs"
| "saved (AttestationsPool_SaveUnaggregatedAttestation a # effs) = a # saved effs"
| "saved (e # effs) = saved effs"

fun is_response :: "effect \<Rightarrow> bool" where
  "is_response (httputil_HandleError msg code) = True"
| "is_response (httputil_WriteError e) = True"
| "is_response (httputil_WriteJson resp) = True"
| "is_response e = False"

definition phaseA_electra :: "'j att_env \<Rightarrow> 'j \<Rightarrow> AttestationElectra option" where
  "phaseA_electra env sourceAtt =
     (case AttestationElectra_ToConsensus env sourceAtt of
        Inl err \<Rightarrow> None
      | Inr att \<Rightarrow> (case SignatureFromBytes env (Signature att) of Some err \<Rightarrow> None | None \<Rightarrow> Some att))"

definition broadcast_ok_electra :: "'j att_env \<Rightarrow> nat \<Rightarrow> AttestationElectra \<Rightarrow> bool" where
  "broadcast_ok_electra env i att =
     (case HeadValidatorsIndices env i (ToEpoch env (Slot (Data att))) of
        Inl err \<Rightarrow> False
      | Inr vals \<Rightarrow>
          (case GetCommitteeIndex env att of
             Inl err \<Rightarrow> False
           | Inr committeeIndex \<Rightarrow>
               BroadcastAttestation env i
                 (ComputeSubnetFromCommitteeAndSlot env (of_nat (length vals))
                    committeeIndex (Slot (Data att)))
                 (Att_Electra att) = None))"

text \<open>
  \<open>kept f i srcs\<close> lists what the first loop keeps of the submitted items \<open>srcs\<close>, each
  with the position of its item in the submitted batch (counted from \<open>i\<close>); \<open>f\<close> is
  \<open>phaseA env\<close> or \<open>phaseA_electra env\<close>.
\<close>

definition kept :: "('j \<Rightarrow> 'a option) \<Rightarrow> nat \<Rightarrow> 'j list \<Rightarrow> (nat \<times> 'a) list" where
  "kept f i srcs = List.map_filter (\<lambda>(k, s). map_option (Pair k) (f s)) (enumerate i srcs)"

subsection \<open>Example collaborators\<close>

text \<open>
  In the example environment the wire item \<open>0\<close> does not convert, every other item \<open>n\<close>
  converts to an unaggregated attestation of slot \<open>n\<close>, and the broadcaster fails in the
  first iteration of the broadcast loop only.
\<close>

definition example_att :: "nat \<Rightarrow> Attestation" where
  "example_att n =
     \<lparr>AggregationBits = [True],
      Data = \<lparr>Slot = of_nat n, CommitteeIndex = 0, BeaconBlockRoot = []\<rparr>,
      Signature = [of_nat n]\<rparr>"

definition example_att_electra :: "nat \<Rightarrow> AttestationElectra" where
  "example_att_electra n =
     \<lparr>AggregationBits = [True],
      Data = \<lparr>Slot = of_nat n, CommitteeIndex = 0, BeaconBlockRoot = []\<rparr>,
      Signature = [of_nat n], CommitteeBits = [True]\<rparr>"

definition example_env :: "nat att_env" where
  "example_env =
     \<lparr>Attestation_ToConsensus = (\<lambda>j. if j = 0 then Inl ''invalid'' else Inr (example_att j)),
      AttestationElectra_ToConsensus =
        (\<lambda>j. if j = 0 then Inl ''invalid'' else Inr (example_att_electra j)),
      SignatureFromBytes = (\<lambda>b. if b = [] then Some ''empty'' else None),
      IsAggregated = (\<lambda>a. False),
      ToEpoch = (\<lambda>s. s div 32),
      HeadValidatorsIndices = (\<lambda>i e. Inr []),
      GetCommitteeIndex = (\<lambda>a. Inr 0),
      ComputeSubnetFromCommitteeAndSlot = (\<lambda>n c s. 0),
      BroadcastAttestation = (\<lambda>i subnet a. if i = 0 then Some ''no peers'' else None)\<rparr>"

definition example_request :: "'b body \<Rightarrow> 'b Request" where
  "example_request b =
     \<lparr>Context = WithCancel Background 1, Headers = Map.empty, Query = Map.empty, Body = b\<rparr>"

definition example_request_version :: "string \<Rightarrow> 'b body \<Rightarrow> 'b Request" where
  "example_request_version name b =
     \<lparr>Context = WithCancel Background 1, Headers = [api_VersionHeader \<mapsto> name],
      Query = Map.empty, Body = b\<rparr>"

text \<open>
  The example environment in which \<^verbatim>\<open>GetCommitteeIndex\<close> fails for the attestation of
  slot 9.
\<close>

definition example_env_committee :: "nat att_env" where
  "example_env_committee =
     example_env\<lparr>GetCommitteeIndex :=
       (\<lambda>a. if Slot (Data a) = 9 then Inl ''exactly 1 committee index must be set''
            else Inr 0)\<rparr>"

subsection \<open>The order of side effects\<close>

text \<open>
  The kind of step that an effect is: a publication on the operation feed, a call of the
  broadcaster, a call that hands an operation to a pool, a write to the response, the
  start of the deferred loop, the creation of its ticker.
\<close>

datatype step = Notify | Broadcasts | PoolInsert | Respond | Spawn | Timer

fun step_of :: "effect \<Rightarrow> step" where
  "step_of (Feed_Send ev) = Notify"
| "step_of (Broadcaster_BroadcastAttestation subnet att) = Broadcasts"
| "step_of (Broadcaster_Broadcast msg) = Broadcasts"
| "step_of (AttestationsPool_SaveAggregatedAttestation att) = PoolInsert"
| "step_of (AttestationsPool_SaveUnaggregatedAttestation att) = PoolInsert"
| "step_of (VoluntaryExitsPool_InsertVoluntaryExit exit) = PoolInsert"
| "step_of (BLSChangesPool_InsertBLSToExecChange change) = PoolInsert"
| "step_of (SlashingsPool_InsertAttesterSlashing st slashing) = PoolInsert"
| "step_of (SlashingsPool_InsertProposerSlashing st slashing) = PoolInsert"
| "step_of (httputil_HandleError msg code) = Respond"
| "step_of (httputil_WriteError e) = Respond"
| "step_of (httputil_WriteJson resp) = Respond"
| "step_of (Header_Set k v) = Respond"
| "step_of (go_broadcastBLSChanges ctx changes) = Spawn"
| "step_of (time_NewTicker period) = Timer"

subsection \<open>Example collaborators of the single-operation handlers\<close>

text \<open>
  In this environment every conversion and every verification succeeds, the pools accept
  the operation and the broadcaster succeeds.
\<close>

definition example_exit :: SignedVoluntaryExit where
  "example_exit = \<lparr>Exit = \<lparr>Epoch = 10, ValidatorIndex = 3\<rparr>, ExitSignature = [1]\<rparr>"

definition example_indexed :: "nat \<Rightarrow> IndexedAttestation" where
  "example_indexed n =
     \<lparr>AttestingIndices = [3],
      IndexedData = \<lparr>Slot = 5, CommitteeIndex = 0, BeaconBlockRoot = [of_nat n]\<rparr>,
      IndexedSignature = [1]\<rparr>"

definition example_slashing :: AttesterSlashing where
  "example_slashing = \<lparr>Attestation_1 = example_indexed 1, Attestation_2 = example_indexed 2\<rparr>"

definition example_slashing_electra :: AttesterSlashingElectra where
  "example_slashing_electra =
     \<lparr>AttestationElectra_1 = example_indexed 1, AttestationElectra_2 = example_indexed 2\<rparr>"

definition example_header :: "nat \<Rightarrow> SignedBeaconBlockHeader" where
  "example_header n =
     \<lparr>Header = \<lparr>HeaderSlot = 5, ProposerIndex = 3\<rparr>, HeaderSignature = [of_nat n]\<rparr>"

definition example_proposer_slashing :: ProposerSlashing where
  "example_proposer_slashing = \<lparr>Header_1 = example_header 1, Header_2 = example_header 2\<rparr>"

definition example_state :: BeaconState where
  "example_state = \<lparr>Version = 4, StateRoot = 0\<rparr>"

definition example_op_env :: "nat op_env" where
  "example_op_env =
     \<lparr>HeadState = Inr example_state,
      ProcessSlotsIfPossible = (\<lambda>st slot. Inr st),
      EpochStart = (\<lambda>epoch. Inr (epoch * 32)),
      ValidatorAtIndexReadOnly = (\<lambda>st i. Inr \<lparr>PublicKey = [], ExitEpoch = 0\<rparr>),
      SignedVoluntaryExit_ToConsensus = (\<lambda>j. Inr example_exit),
      VerifyExitAndSignature = (\<lambda>val st exit. None),
      AttesterSlashing_ToConsensus = (\<lambda>j. Inr example_slashing),
      AttesterSlashingElectra_ToConsensus = (\<lambda>j. Inr example_slashing_electra),
      VerifyAttesterSlashing = (\<lambda>st slashing. None),
      InsertAttesterSlashing = (\<lambda>st slashing. None),
      ProposerSlashing_ToConsensus = (\<lambda>j. Inr example_proposer_slashing),
      VerifyProposerSlashing = (\<lambda>st slashing. None),
      InsertProposerSlashing = (\<lambda>st slashing. None),
      DisableBroadcastSlashings = False,
      Broadcast = (\<lambda>msg. None)\<rparr>"

subsection \<open>BLS-to-execution changes\<close>

text \<open>
  \<open>bls_accept env st change\<close> is the consensus object of a submitted change that passes the
  three checks of the handler's loop against the state \<open>st\<close>, if it passes them.
  \<open>is_cancel_of ctx ev\<close> says that the event \<open>ev\<close> closes the Done channel of \<open>ctx\<close>.
\<close>

definition bls_accept :: "'j bls_env \<Rightarrow> BeaconState \<Rightarrow> 'j \<Rightarrow> SignedBLSToExecutionChange option" where
  "bls_accept env st change =
     (case SignedBLSToExecutionChange_ToConsensus env change of
        Inl err \<Rightarrow> None
      | Inr sbls \<Rightarrow>
          if ValidateBLSToExecutionChange env st sbls = None
             \<and> VerifyBLSChangeSignature env st sbls = None
          then Some sbls else None)"

definition is_cancel_of :: "Context \<Rightarrow> sched_event \<Rightarrow> bool" where
  "is_cancel_of ctx ev = (case ev of Cancelled c \<Rightarrow> descends ctx c | Tick \<Rightarrow> False)"

text \<open>
  Examples: a change for validator \<open>n\<close>; head states at Bellatrix and at Capella; a chain
  whose head is at Bellatrix when the handler reads it and at Capella afterwards; a chain
  whose head state cannot be read at time 1; the context of the handler's span for a request
  whose context is \<open>WithCancel Background 1\<close>. In the example environment every change
  converts and verifies, and re-validation rejects the change of validator 13.
\<close>

definition example_change :: "nat \<Rightarrow> SignedBLSToExecutionChange" where
  "example_change n =
     \<lparr>ChangeValidatorIndex = of_nat n, FromBlsPubkey = [1], ToExecutionAddress = [2],
      ChangeSignature = [3]\<rparr>"

definition example_bellatrix :: BeaconState where
  "example_bellatrix = \<lparr>Version = 2, StateRoot = 0\<rparr>"

definition example_capella :: BeaconState where
  "example_capella = \<lparr>Version = 3, StateRoot = 0\<rparr>"

definition example_span :: Context where
  "example_span = WithSpan (WithCancel Background 1) ''beacon.SubmitBLSToExecutionChanges''"

definition example_head_fork :: "nat \<Rightarrow> string + BeaconState" where
  "example_head_fork t = (if t = 0 then Inr example_bellatrix else Inr example_capella)"

definition example_head_down :: "nat \<Rightarrow> string + BeaconState" where
  "example_head_down t = (if t = 1 then Inl ''head state unavailable'' else Inr example_capella)"

definition example_bls_env :: "(nat \<Rightarrow> string + BeaconState) \<Rightarrow> nat bls_env" where
  "example_bls_env head =
     \<lparr>HeadStateReadOnly = head,
      SignedBLSToExecutionChange_ToConsensus = (\<lambda>j. Inr (example_change j)),
      ValidateBLSToExecutionChange =
        (\<lambda>st change. if ChangeValidatorIndex change = 13 then Some ''already changed'' else None),
      VerifyBLSChangeSignature = (\<lambda>st change. None)\<rparr>"

subsection \<open>Variants in list responses\<close>

text \<open>
  The variant of an external struct, of an attestation and of an attester slashing, and the
  variant that belongs to a fork version: the Electra variant from Electra on, the base
  variant before.
\<close>

datatype variant = Base | Electra

fun struct_variant :: "json_struct \<Rightarrow> variant" where
  "struct_variant (structs_Attestation a) = Base"
| "struct_variant (structs_AttestationElectra a) = Electra"
| "struct_variant (structs_AttesterSlashing s) = Base"
| "struct_variant (structs_AttesterSlashingElectra s) = Electra"

fun Att_variant :: "Att \<Rightarrow> variant" where
  "Att_variant (Att_Phase0 a) = Base"
| "Att_variant (Att_Electra a) = Electra"

fun AttSlashing_variant :: "AttSlashing \<Rightarrow> variant" where
  "AttSlashing_variant (AttSlashing_Phase0 s) = Base"
| "AttSlashing_variant (AttSlashing_Electra s) = Electra"

definition fork_variant :: "int \<Rightarrow> variant" where
  "fork_variant v = (if v \<ge> version_Electra then Electra else Base)"

text \<open>
  An example environment for the list handlers: the head state is at Deneb, the pools hold
  the given unaggregated attestations and attester slashings, and marshalling succeeds.
\<close>

definition example_deneb :: BeaconState where
  "example_deneb = \<lparr>Version = 4, StateRoot = 0\<rparr>"

definition example_list_env :: "Att list \<Rightarrow> AttSlashing list \<Rightarrow> list_env" where
  "example_list_env unaggAtts slashings =
     \<lparr>ChainInfoFetcher_HeadStateReadOnly = Inr example_deneb,
      AggregatedAttestations = [],
      UnaggregatedAttestations = Inr unaggAtts,
      PendingAttesterSlashings = (\<lambda>st noLimit. slashings),
      ParseUint = (\<lambda>raw. Inl ''invalid syntax''),
      json_Marshal = (\<lambda>structs. None)\<rparr>"

section \<open>Lemmas\<close>

subsection \<open>The loops of the attestation handlers\<close>

lemma saved_append: "saved (xs @ ys) = saved xs @ saved ys"
  by (induction xs rule: saved.induct) auto

lemma validate_snd:
  "snd (handleAttestations_validate env i srcs) = List.map_filter (phaseA env) srcs"
  by (induction srcs arbitrary: i)
     (auto simp: List.map_filter_simps phaseA_def split_beta split: sum.splits option.splits)

lemma item_failed:
  "fst (handleAttestations_item env i att) = (if broadcast_ok env i att then [] else [Itoa i])"
  by (auto simp: handleAttestations_item_def broadcast_ok_def Let_def split: sum.splits option.splits)

lemma item_saved:
  "saved (snd (handleAttestations_item env i att)) = (if broadcast_ok env i att then [Att_Phase0 att] else [])"
  by (auto simp: handleAttestations_item_def broadcast_ok_def Let_def saved_append split: sum.splits option.splits)

lemma item_no_response:
  "e \<in> set (snd (handleAttestations_item env i att)) \<Longrightarrow> \<not> is_response e"
  by (auto simp: handleAttestations_item_def Let_def split: sum.splits option.splits if_splits)

lemma process_failed:
  "fst (handleAttestations_process env i atts) =
     map (Itoa \<circ> fst) (filter (\<lambda>(j, att). \<not> broadcast_ok env j att) (enumerate i atts))"
  by (induction atts arbitrary: i) (auto simp: item_failed split_beta)

lemma process_saved:
  "saved (snd (handleAttestations_process env i atts)) =
     map (Att_Phase0 \<circ> snd) (filter (\<lambda>(j, att). broadcast_ok env j att) (enumerate i atts))"
proof (induction atts arbitrary: i)
  case Nil
  then show ?case by simp
next
  case (Cons a atts)
  have "saved (snd (handleAttestations_process env i (a # atts))) =
          saved (snd (handleAttestations_item env i a)) @ saved (snd (handleAttestations_process env (Suc i) atts))"
    by (simp add: saved_append split_beta)
  then show ?case by (simp add: Cons.IH item_saved)
qed

lemma process_no_response:
  "e \<in> set (snd (handleAttestations_process env i atts)) \<Longrightarrow> \<not> is_response e"
proof (induction atts arbitrary: i)
  case Nil
  then show ?case by simp
next
  case (Cons a atts)
  then show ?case
    by (auto simp: split_beta dest: item_no_response)
qed

lemma validate_electra_snd:
  "snd (handleAttestationsElectra_validate env i srcs) = List.map_filter (phaseA_electra env) srcs"
  by (induction srcs arbitrary: i)
     (auto simp: List.map_filter_simps phaseA_electra_def split_beta split: sum.splits option.splits)

lemma item_electra_failed:
  "handleAttestationsElectra_item env i att = (Next failed, effs) \<Longrightarrow>
     failed = (if broadcast_ok_electra env i att then [] else [Itoa i])"
  by (auto simp: handleAttestationsElectra_item_def broadcast_ok_electra_def Let_def
           split: sum.splits option.splits)

lemma item_electra_saved:
  "handleAttestationsElectra_item env i att = (Next failed, effs) \<Longrightarrow>
     saved effs = (if broadcast_ok_electra env i att then [Att_Electra att] else [])"
  by (auto simp: handleAttestationsElectra_item_def broadcast_ok_electra_def Let_def saved_append
           split: sum.splits option.splits)

lemma item_electra_no_response:
  "handleAttestationsElectra_item env i att = (res, effs) \<Longrightarrow> e \<in> set effs \<Longrightarrow> \<not> is_response e"
  by (auto simp: handleAttestationsElectra_item_def Let_def split: sum.splits option.splits if_splits)

lemma process_electra_failed:
  "handleAttestationsElectra_process env i atts = (Inr failedBroadcasts, effs) \<Longrightarrow>
     failedBroadcasts =
       map (Itoa \<circ> fst) (filter (\<lambda>(j, att). \<not> broadcast_ok_electra env j att) (enumerate i atts))"
proof (induction atts arbitrary: i failedBroadcasts effs)
  case Nil
  then show ?case by simp
next
  case (Cons a atts)
  from Cons.prems obtain failed effs1 rest effs2 where
    item: "handleAttestationsElectra_item env i a = (Next failed, effs1)" and
    tl: "handleAttestationsElectra_process env (Suc i) atts = (Inr rest, effs2)" and
    fb: "failedBroadcasts = failed @ rest"
    by (auto split: prod.splits item_result.splits sum.splits)
  show ?case
    using item_electra_failed[OF item] Cons.IH[OF tl] fb by simp
qed

lemma process_electra_saved:
  "handleAttestationsElectra_process env i atts = (Inr failedBroadcasts, effs) \<Longrightarrow>
     saved effs =
       map (Att_Electra \<circ> snd) (filter (\<lambda>(j, att). broadcast_ok_electra env j att) (enumerate i atts))"
proof (induction atts arbitrary: i failedBroadcasts effs)
  case Nil
  then show ?case by simp
next
  case (Cons a atts)
  from Cons.prems obtain failed effs1 rest effs2 where
    item: "handleAttestationsElectra_item env i a = (Next failed, effs1)" and
    tl: "handleAttestationsElectra_process env (Suc i) atts = (Inr rest, effs2)" and
    effs: "effs = effs1 @ effs2"
    by (auto split: prod.splits item_result.splits sum.splits)
  show ?case
    using item_electra_saved[OF item] Cons.IH[OF tl] effs by (simp add: saved_append)
qed

lemma process_electra_no_response:
  "handleAttestationsElectra_process env i atts = (res, effs) \<Longrightarrow> e \<in> set effs \<Longrightarrow>
     \<not> is_response e"
proof (induction atts arbitrary: i res effs)
  case Nil
  then show ?case by simp
next
  case (Cons a atts)
  obtain r1 effs1 where item: "handleAttestationsElectra_item env i a = (r1, effs1)"
    by (cases "handleAttestationsElectra_item env i a")
  obtain r2 effs2 where tl: "handleAttestationsElectra_process env (Suc i) atts = (r2, effs2)"
    by (cases "handleAttestationsElectra_process env (Suc i) atts")
  from Cons.prems item tl have "e \<in> set effs1 \<or> e \<in> set effs2"
    by (auto split: item_result.splits sum.splits)
  then show ?case
    using item_electra_no_response[OF item] Cons.IH[OF tl] by blast
qed

lemma handleAttestations_Inr:
  assumes "handleAttestations env data = (Inr (attFailures, failedBroadcasts), effs)"
  shows "\<exists>srcs. data = Raw_Array srcs \<and> srcs \<noteq> [] \<and>
           attFailures = fst (handleAttestations_validate env 0 srcs) \<and>
           handleAttestations_process env 0 (List.map_filter (phaseA env) srcs)
             = (failedBroadcasts, effs)"
proof (cases data)
  case (Raw_Array srcs)
  with assms show ?thesis
    by (auto simp: handleAttestations_def split_beta validate_snd split: if_splits)
next
  case (Raw_Other err)
  with assms show ?thesis by (simp add: handleAttestations_def)
qed

lemma handleAttestationsElectra_Inr:
  assumes "handleAttestationsElectra env data = (Inr (attFailures, failedBroadcasts), effs)"
  shows "\<exists>srcs. data = Raw_Array srcs \<and> srcs \<noteq> [] \<and>
           attFailures = fst (handleAttestationsElectra_validate env 0 srcs) \<and>
           handleAttestationsElectra_process env 0 (List.map_filter (phaseA_electra env) srcs)
             = (Inr failedBroadcasts, effs)"
proof (cases data)
  case (Raw_Array srcs)
  with assms show ?thesis
    by (auto simp: handleAttestationsElectra_def split_beta validate_electra_snd prod_eq_iff
             split: if_splits prod.splits sum.splits)
next
  case (Raw_Other err)
  with assms show ?thesis by (simp add: handleAttestationsElectra_def)
qed

lemma Itoa_digits: "Itoa 0 = ''0''" "Itoa 1 = ''1''" "Itoa 2 = ''2''"
  by (simp_all add: Itoa.simps digit_def)

lemma example_handleAttestations:
  "handleAttestations example_env (Raw_Array [0, 1, 2]) =
     (Inr ([\<lparr>Index = 0,
              Message = ''Could not convert request attestation to consensus attestation: invalid''\<rparr>],
           [''0'']),
      [Feed_Send (UnaggregatedAttReceived (Att_Phase0 (example_att 1))),
       Broadcaster_BroadcastAttestation 0 (Att_Phase0 (example_att 1)),
       Feed_Send (UnaggregatedAttReceived (Att_Phase0 (example_att 2))),
       Broadcaster_BroadcastAttestation 0 (Att_Phase0 (example_att 2)),
       AttestationsPool_SaveUnaggregatedAttestation (Att_Phase0 (example_att 2))])"
  by (simp add: handleAttestations_def handleAttestations_item_def example_env_def
        example_att_def Itoa_digits)

lemma example_handleAttestationsElectra:
  "handleAttestationsElectra example_env (Raw_Array [0, 1, 2]) =
     (Inr ([\<lparr>Index = 0,
              Message = ''Could not convert request attestation to consensus attestation: invalid''\<rparr>],
           [''0'']),
      [Feed_Send (UnaggregatedAttReceived (Att_Electra (example_att_electra 1))),
       Broadcaster_BroadcastAttestation 0 (Att_Electra (example_att_electra 1)),
       Feed_Send (UnaggregatedAttReceived (Att_Electra (example_att_electra 2))),
       Broadcaster_BroadcastAttestation 0 (Att_Electra (example_att_electra 2)),
       AttestationsPool_SaveUnaggregatedAttestation (Att_Electra (example_att_electra 2))])"
  by (simp add: handleAttestationsElectra_def handleAttestationsElectra_item_def example_env_def
        example_att_electra_def Itoa_digits)

lemma kept_Nil: "kept f i [] = []"
  by (simp add: kept_def List.map_filter_simps)

lemma kept_Cons:
  "kept f i (s # ss) = (case f s of None \<Rightarrow> kept f (Suc i) ss | Some a \<Rightarrow> (i, a) # kept f (Suc i) ss)"
  by (simp add: kept_def List.map_filter_simps split: option.splits)

lemma map_snd_kept: "map snd (kept f i srcs) = List.map_filter f srcs"
  by (induction srcs arbitrary: i) (auto simp: kept_Nil kept_Cons List.map_filter_simps split: option.splits)

lemma kept_position:
  "j < length (kept f i srcs) \<Longrightarrow> kept f i srcs ! j = (k, a) \<Longrightarrow>
     i \<le> k \<and> k - i < length srcs \<and> f (srcs ! (k - i)) = Some a \<and>
     k = i + j + length (filter (\<lambda>s. f s = None) (take (k - i) srcs))"
proof (induction srcs arbitrary: i j)
  case Nil
  then show ?case by (simp add: kept_Nil)
next
  case (Cons s ss)
  show ?case
  proof (cases "f s")
    case None
    with Cons.prems have j: "j < length (kept f (Suc i) ss)" and n: "kept f (Suc i) ss ! j = (k, a)"
      by (simp_all add: kept_Cons)
    from Cons.IH[OF j n] have ih: "Suc i \<le> k" "k - Suc i < length ss" "f (ss ! (k - Suc i)) = Some a"
      "k = Suc i + j + length (filter (\<lambda>s. f s = None) (take (k - Suc i) ss))"
      by simp_all
    from ih(1) have ki: "k - i = Suc (k - Suc i)" by simp
    show ?thesis
      using ih None unfolding ki by simp
  next
    case (Some b)
    show ?thesis
    proof (cases j)
      case 0
      with Cons.prems Some show ?thesis by (simp add: kept_Cons)
    next
      case (Suc j')
      with Cons.prems Some have j: "j' < length (kept f (Suc i) ss)"
        and n: "kept f (Suc i) ss ! j' = (k, a)"
        by (simp_all add: kept_Cons)
      from Cons.IH[OF j n] have ih: "Suc i \<le> k" "k - Suc i < length ss" "f (ss ! (k - Suc i)) = Some a"
        "k = Suc i + j' + length (filter (\<lambda>s. f s = None) (take (k - Suc i) ss))"
        by simp_all
      from ih(1) have ki: "k - i = Suc (k - Suc i)" by simp
      show ?thesis
        using ih Some Suc unfolding ki by simp
    qed
  qed
qed

lemma Itoa_not_Nil: "Itoa n \<noteq> []"
  by (subst Itoa.simps) simp

lemma digit_inj: "a < 10 \<Longrightarrow> b < 10 \<Longrightarrow> digit a = digit b \<Longrightarrow> a = b"
proof -
  have d: "distinct ''0123456789''" by simp
  assume "a < 10" "b < 10" "digit a = digit b"
  then show ?thesis
    using d nth_eq_iff_index_eq[OF d, of a b] by (simp add: digit_def)
qed

lemma Itoa_inj: "Itoa m = Itoa n \<Longrightarrow> m = n"
proof (induction m arbitrary: n rule: Itoa.induct)
  case (1 m)
  show ?case
  proof (cases "m < 10")
    case True
    note m = this
    show ?thesis
    proof (cases "n < 10")
      case True
      with m "1.prems" show ?thesis
        by (simp add: Itoa.simps[of m] Itoa.simps[of n] digit_inj)
    next
      case False
      with m "1.prems" show ?thesis
        using Itoa_not_Nil[of "n div 10"]
        by (simp add: Itoa.simps[of m] Itoa.simps[of n])
    qed
  next
    case False
    note m = this
    show ?thesis
    proof (cases "n < 10")
      case True
      with m "1.prems" show ?thesis
        using Itoa_not_Nil[of "m div 10"]
        by (simp add: Itoa.simps[of m] Itoa.simps[of n])
    next
      case False
      with m "1.prems" have e: "Itoa (m div 10) = Itoa (n div 10)" "digit (m mod 10) = digit (n mod 10)"
        by (simp_all add: Itoa.simps[of m] Itoa.simps[of n])
      from "1.IH"[OF m e(1)] have "m div 10 = n div 10" .
      moreover from e(2) have "m mod 10 = n mod 10" by (simp add: digit_inj)
      ultimately show ?thesis by (metis div_mult_mod_eq)
    qed
  qed
qed

lemma handleAttestations_effects_no_response:
  "handleAttestations env data = (res, effs) \<Longrightarrow> e \<in> set effs \<Longrightarrow> \<not> is_response e"
  using process_no_response[of e env 0]
  by (cases data) (auto simp: handleAttestations_def split_beta split: if_splits)

lemma process_electra_snd_no_response:
  "e \<in> set (snd (handleAttestationsElectra_process env i atts)) \<Longrightarrow> \<not> is_response e"
  using process_electra_no_response[of env i atts
          "fst (handleAttestationsElectra_process env i atts)"
          "snd (handleAttestationsElectra_process env i atts)" e]
  by simp

lemma handleAttestationsElectra_effects_no_response:
  "handleAttestationsElectra env data = (res, effs) \<Longrightarrow> e \<in> set effs \<Longrightarrow> \<not> is_response e"
  using process_electra_snd_no_response[of e env 0]
  by (cases data)
     (auto simp: handleAttestationsElectra_def split_beta split: if_splits prod.splits sum.splits)

lemma version_FromString_electra: "version_FromString ''electra'' = Inr 5"
  by (simp add: version_FromString_def version_names_def)

lemma kept_position_differs:
  assumes "j < length (kept f 0 srcs) \<and> kept f 0 srcs ! j = (k, a)"
  shows "k < length srcs \<and> f (srcs ! k) = Some a \<and>
         k = j + length (filter (\<lambda>s. f s = None) (take k srcs)) \<and>
         ((\<exists>s \<in> set (take k srcs). f s = None) \<longrightarrow> Itoa j \<noteq> Itoa k)"
proof -
  from assms kept_position[of j f 0 srcs k a]
  have p: "k < length srcs" "f (srcs ! k) = Some a"
    "k = j + length (filter (\<lambda>s. f s = None) (take k srcs))"
    by simp_all
  have "j < k" if "\<exists>s \<in> set (take k srcs). f s = None"
  proof -
    from that have "filter (\<lambda>s. f s = None) (take k srcs) \<noteq> []"
      by (simp add: filter_empty_conv)
    then have "0 < length (filter (\<lambda>s. f s = None) (take k srcs))" by simp
    with p(3) show ?thesis by linarith
  qed
  then have "(\<exists>s \<in> set (take k srcs). f s = None) \<longrightarrow> Itoa j \<noteq> Itoa k"
    using Itoa_inj[of j k] by auto
  with p show ?thesis by blast
qed

lemma example_kept:
  "kept (phaseA example_env) 0 [0, 1, 2] = [(1, example_att 1), (2, example_att 2)]"
  by (simp add: kept_Cons kept_Nil phaseA_def example_env_def example_att_def)

lemma example_kept_electra:
  "kept (phaseA_electra example_env) 0 [0, 1, 2] =
     [(1, example_att_electra 1), (2, example_att_electra 2)]"
  by (simp add: kept_Cons kept_Nil phaseA_electra_def example_env_def example_att_electra_def)

lemma example_phaseA_0: "phaseA example_env 0 = None" "phaseA_electra example_env 0 = None"
  by (simp_all add: phaseA_def phaseA_electra_def example_env_def)

subsection \<open>The order of side effects\<close>

lemma example_SubmitVoluntaryExit:
  "SubmitVoluntaryExit example_op_env (example_request (Body_Json 7)) =
     [VoluntaryExitsPool_InsertVoluntaryExit example_exit,
      Broadcaster_Broadcast (Msg_Exit example_exit)]"
  by (simp add: SubmitVoluntaryExit_def example_op_env_def example_request_def)

lemma example_SubmitAttesterSlashings:
  "SubmitAttesterSlashings example_op_env (example_request (Body_Json 7)) =
     [SlashingsPool_InsertAttesterSlashing example_state (AttSlashing_Phase0 example_slashing),
      Feed_Send (AttesterSlashingReceived (AttSlashing_Phase0 example_slashing)),
      Broadcaster_Broadcast (Msg_AttSlashing (AttSlashing_Phase0 example_slashing))]"
  by (simp add: SubmitAttesterSlashings_def submitAttesterSlashing_def example_op_env_def
        example_request_def)

lemma example_SubmitProposerSlashing:
  "SubmitProposerSlashing example_op_env (example_request (Body_Json 7)) =
     [SlashingsPool_InsertProposerSlashing example_state example_proposer_slashing,
      Feed_Send (ProposerSlashingReceived example_proposer_slashing),
      Broadcaster_Broadcast (Msg_ProposerSlashing example_proposer_slashing)]"
  by (simp add: SubmitProposerSlashing_def example_op_env_def example_request_def)

lemma item_order:
  "subseq (map step_of (snd (handleAttestations_item env i att))) [Notify, Broadcasts, PoolInsert]"
  by (simp add: handleAttestations_item_def Let_def split: sum.splits option.splits)

lemma item_electra_order:
  "subseq (map step_of (snd (handleAttestationsElectra_item env i att)))
     [Notify, Broadcasts, PoolInsert]"
  by (simp add: handleAttestationsElectra_item_def Let_def split: sum.splits option.splits)

lemma submitAttesterSlashing_order:
  "subseq (map step_of (submitAttesterSlashing env slashing))
     [PoolInsert, Notify, Broadcasts, Respond]"
  by (simp add: submitAttesterSlashing_def split: sum.splits option.splits)

lemma SubmitProposerSlashing_order:
  "subseq (map step_of (SubmitProposerSlashing env r)) [PoolInsert, Notify, Broadcasts, Respond]"
  by (simp add: SubmitProposerSlashing_def split: sum.splits option.splits body.splits)

lemma SubmitVoluntaryExit_order:
  "subseq (map step_of (SubmitVoluntaryExit env r)) [PoolInsert, Broadcasts, Respond]"
  by (simp add: SubmitVoluntaryExit_def split: sum.splits option.splits body.splits lookup_error.splits)

lemma SubmitAttesterSlashings_order:
  "subseq (map step_of (SubmitAttesterSlashings env r)) [PoolInsert, Notify, Broadcasts, Respond]"
  by (simp add: SubmitAttesterSlashings_def submitAttesterSlashing_order
           split: sum.splits option.splits body.splits)

lemma BLS_loop_order:
  "\<exists>n. map step_of (snd (snd (SubmitBLSToExecutionChanges_loop env st i req)))
          = concat (replicate n [Notify, PoolInsert])"
proof (induction req arbitrary: i)
  case Nil
  then show ?case by simp
next
  case (Cons a req)
  from Cons.IH[of "Suc i"] obtain n where
    n: "map step_of (snd (snd (SubmitBLSToExecutionChanges_loop env st (Suc i) req)))
          = concat (replicate n [Notify, PoolInsert])" by blast
  show ?case
  proof (cases "\<exists>sbls. SignedBLSToExecutionChange_ToConsensus env a = Inr sbls \<and>
                  ValidateBLSToExecutionChange env st sbls = None \<and>
                  VerifyBLSChangeSignature env st sbls = None")
    case True
    then have "map step_of (snd (snd (SubmitBLSToExecutionChanges_loop env st i (a # req))))
          = concat (replicate (Suc n) [Notify, PoolInsert])"
      using n by (auto simp: split_beta)
    then show ?thesis by blast
  next
    case False
    then have "map step_of (snd (snd (SubmitBLSToExecutionChanges_loop env st i (a # req))))
          = concat (replicate n [Notify, PoolInsert])"
      using n by (auto simp: split_beta split: sum.splits option.splits)
    then show ?thesis by blast
  qed
qed

subsection \<open>The BLS handler and the deferred loop\<close>

lemma loop_fst_snd:
  "fst (snd (SubmitBLSToExecutionChanges_loop env st i req)) =
     (if Version st \<ge> version_Capella then map Some (List.map_filter (bls_accept env st) req)
      else [])"
  by (induction req arbitrary: i)
     (auto simp: List.map_filter_simps bls_accept_def split_beta split: sum.splits option.splits)

lemma loop_effects:
  "snd (snd (SubmitBLSToExecutionChanges_loop env st i req)) =
     concat (map (\<lambda>c. [Feed_Send (BLSToExecutionChangeReceived c),
                        BLSChangesPool_InsertBLSToExecChange c])
               (List.map_filter (bls_accept env st) req))"
  by (induction req arbitrary: i)
     (auto simp: List.map_filter_simps bls_accept_def split_beta split: sum.splits option.splits)

lemma descends_refl: "descends c c"
  by (cases c) simp_all

lemma SubmitBLSToExecutionChanges_trace:
  assumes "HeadStateReadOnly env 0 = Inr st" and "Body r = Body_Json req" and "req \<noteq> []"
  shows "SubmitBLSToExecutionChanges env r =
     concat (map (\<lambda>c. [Feed_Send (BLSToExecutionChangeReceived c),
                        BLSChangesPool_InsertBLSToExecChange c])
               (List.map_filter (bls_accept env st) req))
     @ [go_broadcastBLSChanges (StartSpan (Context r) ''beacon.SubmitBLSToExecutionChanges'')
          (if Version st \<ge> version_Capella then map Some (List.map_filter (bls_accept env st) req)
           else [])]
     @ (if fst (SubmitBLSToExecutionChanges_loop env st 0 req) \<noteq> [] then
          [httputil_WriteError
             \<lparr>Code = 400, ErrorMessage = ''One or more BLSToExecutionChange failed validation'',
              Failures = fst (SubmitBLSToExecutionChanges_loop env st 0 req)\<rparr>]
        else [])"
  using assms
  by (simp add: SubmitBLSToExecutionChanges_def split_beta Let_def loop_fst_snd loop_effects
        StatusBadRequest_def)

lemma go_in_SubmitBLSToExecutionChanges:
  assumes "go_broadcastBLSChanges ctx changes \<in> set (SubmitBLSToExecutionChanges env r)"
  shows "ctx = StartSpan (Context r) ''beacon.SubmitBLSToExecutionChanges''"
  using assms
  by (auto simp: SubmitBLSToExecutionChanges_def split_beta Let_def loop_effects
           split: sum.splits body.splits if_splits)

lemma item_length: "length (broadcastBLSBatch_item env st ch) \<le> 1"
  by (simp add: broadcastBLSBatch_item_def split: option.splits)

lemma item_step: "e \<in> set (broadcastBLSBatch_item env st ch) \<Longrightarrow> step_of e = Broadcasts"
  by (auto simp: broadcastBLSBatch_item_def split: option.splits)

lemma concat_items_length:
  "length (concat (map (broadcastBLSBatch_item env st) xs)) \<le> length xs"
proof (induction xs)
  case Nil
  then show ?case by simp
next
  case (Cons x xs)
  then show ?case using item_length[of env st x] by simp
qed

lemma concat_items:
  "concat (map (broadcastBLSBatch_item env st) xs) =
     map (Broadcaster_Broadcast \<circ> Msg_BLSChange)
       (filter (\<lambda>c. ValidateBLSToExecutionChange env st c = None) (List.map_filter id xs))"
  by (induction xs)
     (auto simp: List.map_filter_simps broadcastBLSBatch_item_def split: option.splits)

lemma limit_eq:
  "take (if length ptr < broadcastBLSChangesRateLimit then length ptr
         else broadcastBLSChangesRateLimit) ptr = take 128 ptr"
  "drop (if length ptr < broadcastBLSChangesRateLimit then length ptr
         else broadcastBLSChangesRateLimit) ptr = drop 128 ptr"
  by (simp_all add: broadcastBLSChangesRateLimit_def)

lemma batch_Inl:
  "HeadStateReadOnly env t = Inl err \<Longrightarrow> broadcastBLSBatch env t ptr = ([], ptr)"
  by (simp add: broadcastBLSBatch_def Let_def)

lemma batch_Inr:
  "HeadStateReadOnly env t = Inr st \<Longrightarrow>
     broadcastBLSBatch env t ptr =
       (map (Broadcaster_Broadcast \<circ> Msg_BLSChange)
          (filter (\<lambda>c. ValidateBLSToExecutionChange env st c = None)
             (List.map_filter id (take 128 ptr))),
        drop 128 ptr)"
  by (simp add: broadcastBLSBatch_def Let_def limit_eq concat_items)

lemma batch_length: "length (fst (broadcastBLSBatch env t ptr)) \<le> 128"
proof (cases "HeadStateReadOnly env t")
  case (Inl err)
  then show ?thesis by (simp add: batch_Inl)
next
  case (Inr st)
  have "length (concat (map (broadcastBLSBatch_item env st) (take 128 ptr))) \<le> length (take 128 ptr)"
    by (rule concat_items_length)
  with Inr show ?thesis
    by (simp add: broadcastBLSBatch_def Let_def limit_eq)
qed

lemma batch_step: "e \<in> set (fst (broadcastBLSBatch env t ptr)) \<Longrightarrow> step_of e = Broadcasts"
  by (cases "HeadStateReadOnly env t") (auto simp: batch_Inl batch_Inr)

lemma loop_step:
  "e \<in> set (fst (broadcastBLSChanges_loop env ctx t changes sched)) \<Longrightarrow> step_of e = Broadcasts"
proof (induction sched arbitrary: t changes)
  case Nil
  then show ?case by simp
next
  case (Cons ev sched)
  show ?case
  proof (cases ev)
    case (Cancelled c)
    with Cons show ?thesis by (auto split: if_splits)
  next
    case Tick
    with Cons.prems have
      "e \<in> set (fst (broadcastBLSBatch env t changes)) \<or>
       e \<in> set (fst (broadcastBLSChanges_loop env ctx (Suc t) (snd (broadcastBLSBatch env t changes)) sched))"
      by (auto simp: split_beta split: if_splits)
    then show ?thesis using batch_step Cons.IH by blast
  qed
qed

lemma loop_bound:
  "length (fst (broadcastBLSChanges_loop env ctx t changes sched))
     \<le> 128 * length (filter (\<lambda>ev. ev = Tick) sched)"
proof (induction sched arbitrary: t changes)
  case Nil
  then show ?case by simp
next
  case (Cons ev sched)
  show ?case
  proof (cases ev)
    case (Cancelled c)
    with Cons.IH[of t changes] show ?thesis by simp
  next
    case Tick
    have a: "length (fst (broadcastBLSBatch env t changes)) \<le> 128" by (rule batch_length)
    have b: "length (fst (broadcastBLSChanges_loop env ctx (Suc t)
               (snd (broadcastBLSBatch env t changes)) sched))
              \<le> 128 * length (filter (\<lambda>ev. ev = Tick) sched)" by (rule Cons.IH)
    from Tick a b show ?thesis by (simp add: split_beta)
  qed
qed

lemma loop_returned:
  "snd (snd (broadcastBLSChanges_loop env ctx t changes sched)) = Returned \<Longrightarrow>
     fst (snd (broadcastBLSChanges_loop env ctx t changes sched)) = [] \<or>
     (\<exists>ev \<in> set sched. is_cancel_of ctx ev)"
proof (induction sched arbitrary: t changes)
  case Nil
  then show ?case by simp
next
  case (Cons ev sched)
  show ?case
  proof (cases ev)
    case (Cancelled c)
    with Cons show ?thesis by (auto simp: is_cancel_of_def split: if_splits)
  next
    case Tick
    with Cons show ?thesis by (auto simp: split_beta split: if_splits)
  qed
qed

lemma loop_cancel:
  "descends ctx c \<Longrightarrow>
     broadcastBLSChanges_loop env ctx t changes (pre @ Cancelled c # post) =
       (case broadcastBLSChanges_loop env ctx t changes pre of
          (effs, rest, status) \<Rightarrow> (effs, rest, Returned))"
proof (induction pre arbitrary: t changes)
  case Nil
  then show ?case by simp
next
  case (Cons ev pre)
  show ?case
  proof (cases ev)
    case (Cancelled c')
    with Cons show ?thesis by simp
  next
    case Tick
    with Cons show ?thesis by (simp add: split_beta)
  qed
qed

lemma loop_other_cancel:
  "\<not> descends ctx c \<Longrightarrow>
     broadcastBLSChanges_loop env ctx t changes (pre @ Cancelled c # post) =
       broadcastBLSChanges_loop env ctx t changes (pre @ post)"
proof (induction pre arbitrary: t changes)
  case Nil
  then show ?case by simp
next
  case (Cons ev pre)
  show ?case
  proof (cases ev)
    case (Cancelled c')
    with Cons show ?thesis by simp
  next
    case Tick
    with Cons show ?thesis by (simp add: split_beta)
  qed
qed

lemma loop_failures_Nil:
  "\<forall>c \<in> set req. bls_accept env st c \<noteq> None \<Longrightarrow>
     fst (SubmitBLSToExecutionChanges_loop env st i req) = []"
  by (induction req arbitrary: i)
     (auto simp: bls_accept_def split_beta split: sum.splits option.splits if_splits)

lemma map_filter_replicate:
  "f x = Some y \<Longrightarrow> List.map_filter f (replicate n x) = replicate n y"
  by (induction n) (simp_all add: List.map_filter_simps)

lemma concat_replicate_single: "concat (replicate n [x]) = replicate n x"
  by (induction n) simp_all

lemma example_bls_accept: "bls_accept (example_bls_env head) st 7 = Some (example_change 7)"
  by (simp add: bls_accept_def example_bls_env_def example_change_def)

lemma example_Submit_129:
  "SubmitBLSToExecutionChanges (example_bls_env (\<lambda>t. Inr example_capella))
       (example_request (Body_Json (replicate 129 7))) =
     concat (replicate 129
        [Feed_Send (BLSToExecutionChangeReceived (example_change 7)),
         BLSChangesPool_InsertBLSToExecChange (example_change 7)])
     @ [go_broadcastBLSChanges example_span (replicate 129 (Some (example_change 7)))]"
proof -
  let ?env = "example_bls_env (\<lambda>t. Inr example_capella)"
  let ?r = "example_request (Body_Json (replicate 129 (7::nat)))"
  have h: "HeadStateReadOnly ?env 0 = Inr example_capella" by (simp add: example_bls_env_def)
  have b: "Body ?r = Body_Json (replicate 129 7)" by (simp add: example_request_def)
  have n: "replicate 129 (7::nat) \<noteq> []" by simp
  have f: "fst (SubmitBLSToExecutionChanges_loop ?env example_capella 0 (replicate 129 7)) = []"
    by (rule loop_failures_Nil) (simp add: example_bls_accept)
  have v: "version_Capella \<le> Version example_capella"
    by (simp add: example_capella_def version_Capella_def)
  have c: "StartSpan (Context ?r) ''beacon.SubmitBLSToExecutionChanges'' = example_span"
    by (simp add: example_request_def StartSpan_def example_span_def)
  show ?thesis
    unfolding SubmitBLSToExecutionChanges_trace[OF h b n] f c
    by (simp add: map_filter_replicate[of "bls_accept ?env example_capella" 7,
                    OF example_bls_accept] v del: replicate.simps)
qed

lemma example_first_round_129:
  "broadcastBLSBatch (example_bls_env (\<lambda>t. Inr example_capella)) 1
       (replicate 129 (Some (example_change 7))) =
     (replicate 128 (Broadcaster_Broadcast (Msg_BLSChange (example_change 7))),
      [Some (example_change 7)])"
proof -
  have h: "HeadStateReadOnly (example_bls_env (\<lambda>t. Inr example_capella)) 1 = Inr example_capella"
    by (simp add: example_bls_env_def)
  have v: "ValidateBLSToExecutionChange (example_bls_env (\<lambda>t. Inr example_capella))
             example_capella (example_change 7) = None"
    by (simp add: example_bls_env_def example_change_def)
  have m: "List.map_filter id (replicate 128 (Some (example_change 7)))
             = replicate 128 (example_change 7)"
    by (rule map_filter_replicate) simp
  have d: "replicate (Suc 0) (Some (example_change 7)) = [Some (example_change 7)]" by simp
  show ?thesis
    unfolding batch_Inr[OF h] by (simp add: m v d del: replicate.simps)
qed

lemma example_second_round:
  "broadcastBLSBatch (example_bls_env (\<lambda>t. Inr example_capella)) 2 [Some (example_change 7)] =
     ([Broadcaster_Broadcast (Msg_BLSChange (example_change 7))], [])"
  by (simp add: broadcastBLSBatch_def broadcastBLSBatch_item_def example_bls_env_def
        example_change_def broadcastBLSChangesRateLimit_def)

lemma example_129_cancelled:
  "broadcastBLSChanges (example_bls_env (\<lambda>t. Inr example_capella)) example_span
       (replicate 129 (Some (example_change 7))) [Cancelled (WithCancel Background 1), Tick] =
     (replicate 128 (Broadcaster_Broadcast (Msg_BLSChange (example_change 7)))
        @ [time_NewTicker 500],
      [Some (example_change 7)], Returned)"
  using example_first_round_129
  by (simp add: broadcastBLSChanges_def example_span_def ticker_period_ms_def
        del: replicate.simps)

lemma example_129_tick:
  "broadcastBLSChanges (example_bls_env (\<lambda>t. Inr example_capella)) example_span
       (replicate 129 (Some (example_change 7))) [Tick] =
     (replicate 128 (Broadcaster_Broadcast (Msg_BLSChange (example_change 7)))
        @ [time_NewTicker 500, Broadcaster_Broadcast (Msg_BLSChange (example_change 7))],
      [], Returned)"
  using example_first_round_129 example_second_round
  by (simp add: broadcastBLSChanges_def example_span_def ticker_period_ms_def
        del: replicate.simps)

lemma example_129_blocked:
  "broadcastBLSChanges (example_bls_env (\<lambda>t. Inr example_capella)) example_span
       (replicate 129 (Some (example_change 7))) [] =
     (replicate 128 (Broadcaster_Broadcast (Msg_BLSChange (example_change 7)))
        @ [time_NewTicker 500],
      [Some (example_change 7)], Blocked)"
  using example_first_round_129
  by (simp add: broadcastBLSChanges_def example_span_def ticker_period_ms_def
        del: replicate.simps)

lemma broadcastBLSChanges_cancel:
  "descends ctx c \<Longrightarrow>
     broadcastBLSChanges env ctx changes (pre @ Cancelled c # post) =
       (case broadcastBLSChanges env ctx changes pre of
          (effs, rest, status) \<Rightarrow> (effs, rest, Returned))"
  by (simp add: broadcastBLSChanges_def loop_cancel split_beta Let_def)

lemma broadcastBLSChanges_other_cancel:
  "\<not> descends ctx c \<Longrightarrow>
     broadcastBLSChanges env ctx changes (pre @ Cancelled c # post) =
       broadcastBLSChanges env ctx changes (pre @ post)"
  by (simp add: broadcastBLSChanges_def loop_other_cancel split_beta Let_def)

lemma example_round_mixed:
  "broadcastBLSBatch (example_bls_env (\<lambda>t. Inr example_capella)) 1
       [Some (example_change 7), None, Some (example_change 13)] =
     ([Broadcaster_Broadcast (Msg_BLSChange (example_change 7))], [])"
  by (simp add: broadcastBLSBatch_def broadcastBLSBatch_item_def example_bls_env_def
        example_change_def broadcastBLSChangesRateLimit_def)

lemma example_Submit_fork:
  "SubmitBLSToExecutionChanges (example_bls_env example_head_fork)
       (example_request (Body_Json [7])) =
     [Feed_Send (BLSToExecutionChangeReceived (example_change 7)),
      BLSChangesPool_InsertBLSToExecChange (example_change 7),
      go_broadcastBLSChanges example_span []]"
  by (simp add: SubmitBLSToExecutionChanges_def example_bls_env_def example_head_fork_def
        example_request_def example_change_def example_bellatrix_def version_Capella_def
        StartSpan_def example_span_def)

lemma broadcastBLSChanges_Nil: "broadcastBLSChanges env ctx [] sched = ([], [], Returned)"
  by (cases "HeadStateReadOnly env 1")
     (simp_all add: broadcastBLSChanges_def batch_Inl batch_Inr List.map_filter_simps)

subsection \<open>The list handlers\<close>

lemma ListAttestationsV2_loop_Inr:
  "ListAttestationsV2_loop headState rawSlot slot rawCommitteeIndex committeeIndex atts = Inr filteredAtts
     \<Longrightarrow> (\<forall>d \<in> set filteredAtts. struct_variant d = fork_variant (Version headState)) \<and>
         (\<forall>att \<in> set atts. Att_variant att = fork_variant (Version headState))"
proof (induction atts arbitrary: filteredAtts)
  case Nil
  then show ?case by simp
next
  case (Cons att atts)
  then show ?case
    by (auto simp: fork_variant_def split: if_splits Att.splits sum.splits)
qed

lemma ListAttestationsV2_loop_Inl:
  "\<exists>att \<in> set atts. Att_variant att \<noteq> fork_variant (Version headState) \<Longrightarrow>
     \<exists>err. ListAttestationsV2_loop headState rawSlot slot rawCommitteeIndex committeeIndex atts
             = Inl err"
  using ListAttestationsV2_loop_Inr[of headState rawSlot slot rawCommitteeIndex committeeIndex atts]
  by (cases "ListAttestationsV2_loop headState rawSlot slot rawCommitteeIndex committeeIndex atts")
     auto

lemma GetAttesterSlashingsV2_loop_Inr:
  "GetAttesterSlashingsV2_loop headState slashings = Inr attStructs
     \<Longrightarrow> (\<forall>d \<in> set attStructs. struct_variant d = fork_variant (Version headState)) \<and>
         (\<forall>s \<in> set slashings. AttSlashing_variant s = fork_variant (Version headState))"
proof (induction slashings arbitrary: attStructs)
  case Nil
  then show ?case by simp
next
  case (Cons s slashings)
  then show ?case
    by (auto simp: fork_variant_def split: if_splits AttSlashing.splits sum.splits)
qed

lemma GetAttesterSlashingsV2_loop_Inl:
  "\<exists>s \<in> set slashings. AttSlashing_variant s \<noteq> fork_variant (Version headState) \<Longrightarrow>
     \<exists>err. GetAttesterSlashingsV2_loop headState slashings = Inl err"
  using GetAttesterSlashingsV2_loop_Inr[of headState slashings]
  by (cases "GetAttesterSlashingsV2_loop headState slashings") auto

lemma UintFromQuery_no_WriteJson:
  "UintFromQuery env r name = Inl effs \<Longrightarrow> httputil_WriteJson resp \<notin> set effs"
  by (auto simp: UintFromQuery_def Let_def split: if_splits sum.splits)

lemma ListAttestationsV2_WriteJson:
  "httputil_WriteJson resp \<in> set (ListAttestationsV2 env r) \<longrightarrow>
     (\<exists>headState. ChainInfoFetcher_HeadStateReadOnly env = Inr headState \<and>
           RespVersion resp = version_String (Version headState) \<and>
           (\<forall>d \<in> set (RespData resp). struct_variant d = fork_variant (Version headState)) \<and>
           ListAttestationsV2 env r = [httputil_WriteJson resp])"
  unfolding ListAttestationsV2_def
  by (auto split: sum.split prod.split option.split
           dest: UintFromQuery_no_WriteJson ListAttestationsV2_loop_Inr)

lemma GetAttesterSlashingsV2_WriteJson:
  "httputil_WriteJson resp \<in> set (GetAttesterSlashingsV2 env r) \<longrightarrow>
     (\<exists>headState. ChainInfoFetcher_HeadStateReadOnly env = Inr headState \<and>
           RespVersion resp = version_String (Version headState) \<and>
           (\<forall>d \<in> set (RespData resp). struct_variant d = fork_variant (Version headState)) \<and>
           GetAttesterSlashingsV2 env r =
             [Header_Set api_VersionHeader (version_String (Version headState)),
              httputil_WriteJson resp])"
  unfolding GetAttesterSlashingsV2_def
  by (auto split: sum.split prod.split option.split dest: GetAttesterSlashingsV2_loop_Inr)

lemma ListAttestationsV2_wrong_variant:
  assumes "UintFromQuery env r ''slot'' = Inr a"
    and "UintFromQuery env r ''committee_index'' = Inr b"
    and "ChainInfoFetcher_HeadStateReadOnly env = Inr headState"
    and "UnaggregatedAttestations env = Inr unaggAtts"
    and "\<exists>att \<in> set (AggregatedAttestations env @ unaggAtts).
           Att_variant att \<noteq> fork_variant (Version headState)"
  shows "\<exists>msg. ListAttestationsV2 env r = [httputil_HandleError msg 500]"
proof -
  obtain rawSlot slot rawCommitteeIndex committeeIndex where
    ab: "a = (rawSlot, slot)" "b = (rawCommitteeIndex, committeeIndex)"
    by (cases a, cases b) auto
  from ListAttestationsV2_loop_Inl[OF assms(5), of rawSlot slot rawCommitteeIndex committeeIndex]
  obtain err where "ListAttestationsV2_loop headState rawSlot slot rawCommitteeIndex
                      committeeIndex (AggregatedAttestations env @ unaggAtts) = Inl err"
    by blast
  with assms ab show ?thesis
    by (simp add: ListAttestationsV2_def StatusInternalServerError_def)
qed

lemma GetAttesterSlashingsV2_wrong_variant:
  assumes "ChainInfoFetcher_HeadStateReadOnly env = Inr headState"
    and "\<exists>s \<in> set (PendingAttesterSlashings env headState True).
           AttSlashing_variant s \<noteq> fork_variant (Version headState)"
  shows "\<exists>msg. GetAttesterSlashingsV2 env r = [httputil_HandleError msg 500]"
proof -
  from GetAttesterSlashingsV2_loop_Inl[OF assms(2)]
  obtain err where "GetAttesterSlashingsV2_loop headState
                      (PendingAttesterSlashings env headState True) = Inl err"
    by blast
  with assms show ?thesis
    by (simp add: GetAttesterSlashingsV2_def StatusInternalServerError_def)
qed

lemma example_ListAttestationsV2:
  "ListAttestationsV2
       (example_list_env [Att_Phase0 (example_att 2), Att_Phase0 (example_att 3)]
          [AttSlashing_Phase0 example_slashing])
       (example_request (Body_EOF :: nat body)) =
     [httputil_WriteJson
        \<lparr>RespVersion = ''deneb'',
         RespData = [structs_Attestation (example_att 2), structs_Attestation (example_att 3)]\<rparr>]"
  by (simp add: ListAttestationsV2_def UintFromQuery_def Get_def example_request_def
        example_list_env_def example_deneb_def version_Electra_def version_String_def
        version_names_def shouldIncludeAttestation_def)

lemma example_GetAttesterSlashingsV2:
  "GetAttesterSlashingsV2
       (example_list_env [Att_Phase0 (example_att 2), Att_Phase0 (example_att 3)]
          [AttSlashing_Phase0 example_slashing])
       (example_request (Body_EOF :: nat body)) =
     [Header_Set ''Eth-Consensus-Version'' ''deneb'',
      httputil_WriteJson
        \<lparr>RespVersion = ''deneb'', RespData = [structs_AttesterSlashing example_slashing]\<rparr>]"
  by (simp add: GetAttesterSlashingsV2_def example_list_env_def example_deneb_def
        version_Electra_def version_String_def version_names_def api_VersionHeader_def)

subsection \<open>The effects of one item and of a successful single submission\<close>

lemma item_effects:
  "\<exists>rest. snd (handleAttestations_item env i att) =
      (if IsAggregated env (Att_Phase0 att) then []
       else [Feed_Send (UnaggregatedAttReceived (Att_Phase0 att))]) @ rest \<and>
      subseq (map step_of rest) [Broadcasts, PoolInsert]"
  by (auto simp: handleAttestations_item_def Let_def split: sum.splits option.splits)

lemma item_effects_ok:
  assumes "HeadValidatorsIndices env i (ToEpoch env (Slot (Data att))) = Inr vals"
    and "BroadcastAttestation env i
           (ComputeSubnetFromCommitteeAndSlot env (of_nat (length vals))
              (CommitteeIndex (Data att)) (Slot (Data att))) (Att_Phase0 att) = None"
  shows "snd (handleAttestations_item env i att) =
      (if IsAggregated env (Att_Phase0 att) then []
       else [Feed_Send (UnaggregatedAttReceived (Att_Phase0 att))]) @
      [Broadcaster_BroadcastAttestation
         (ComputeSubnetFromCommitteeAndSlot env (of_nat (length vals))
            (CommitteeIndex (Data att)) (Slot (Data att))) (Att_Phase0 att),
       if IsAggregated env (Att_Phase0 att)
       then AttestationsPool_SaveAggregatedAttestation (Att_Phase0 att)
       else AttestationsPool_SaveUnaggregatedAttestation (Att_Phase0 att)]"
  using assms by (simp add: handleAttestations_item_def Let_def)

lemma item_electra_effects:
  "\<exists>rest. snd (handleAttestationsElectra_item env i att) =
      (if IsAggregated env (Att_Electra att) then []
       else [Feed_Send (UnaggregatedAttReceived (Att_Electra att))]) @ rest \<and>
      subseq (map step_of rest) [Broadcasts, PoolInsert]"
  by (auto simp: handleAttestationsElectra_item_def Let_def split: sum.splits option.splits)

lemma item_electra_effects_ok:
  assumes "HeadValidatorsIndices env i (ToEpoch env (Slot (Data att))) = Inr vals"
    and "GetCommitteeIndex env att = Inr committeeIndex"
    and "BroadcastAttestation env i
           (ComputeSubnetFromCommitteeAndSlot env (of_nat (length vals))
              committeeIndex (Slot (Data att))) (Att_Electra att) = None"
  shows "snd (handleAttestationsElectra_item env i att) =
      (if IsAggregated env (Att_Electra att) then []
       else [Feed_Send (UnaggregatedAttReceived (Att_Electra att))]) @
      [Broadcaster_BroadcastAttestation
         (ComputeSubnetFromCommitteeAndSlot env (of_nat (length vals))
            committeeIndex (Slot (Data att))) (Att_Electra att),
       if IsAggregated env (Att_Electra att)
       then AttestationsPool_SaveAggregatedAttestation (Att_Electra att)
       else AttestationsPool_SaveUnaggregatedAttestation (Att_Electra att)]"
  using assms by (simp add: handleAttestationsElectra_item_def Let_def)

lemma SubmitVoluntaryExit_ok:
  assumes "Body r = Body_Json req"
    and "SignedVoluntaryExit_ToConsensus env req = Inr exit"
    and "HeadState env = Inr headState"
    and "EpochStart env (Epoch (Exit exit)) = Inr epochStart"
    and "ProcessSlotsIfPossible env headState epochStart = Inr headState'"
    and "ValidatorAtIndexReadOnly env headState' (ValidatorIndex (Exit exit)) = Inr val"
    and "VerifyExitAndSignature env val headState' exit = None"
  shows "SubmitVoluntaryExit env r =
     [VoluntaryExitsPool_InsertVoluntaryExit exit, Broadcaster_Broadcast (Msg_Exit exit)]
     @ (case Broadcast env (Msg_Exit exit) of
          Some err \<Rightarrow> [httputil_HandleError (''Could not broadcast exit: '' @ err) 500]
        | None \<Rightarrow> [])"
  using assms by (simp add: SubmitVoluntaryExit_def StatusInternalServerError_def split: option.split)

lemma submitAttesterSlashing_ok:
  assumes "HeadState env = Inr headState"
    and "ProcessSlotsIfPossible env headState (Slot (IndexedData (FirstAttestation slashing)))
           = Inr headState'"
    and "VerifyAttesterSlashing env headState' slashing = None"
    and "InsertAttesterSlashing env headState' slashing = None"
  shows "submitAttesterSlashing env slashing =
     [SlashingsPool_InsertAttesterSlashing headState' slashing,
      Feed_Send (AttesterSlashingReceived slashing)]
     @ (if DisableBroadcastSlashings env then []
        else Broadcaster_Broadcast (Msg_AttSlashing slashing) #
             (case Broadcast env (Msg_AttSlashing slashing) of
                Some err \<Rightarrow>
                  [httputil_HandleError (''Could not broadcast slashing object: '' @ err) 500]
              | None \<Rightarrow> []))"
  using assms by (simp add: submitAttesterSlashing_def StatusInternalServerError_def split: option.split)

lemma SubmitProposerSlashing_ok:
  assumes "Body r = Body_Json req"
    and "ProposerSlashing_ToConsensus env req = Inr slashing"
    and "HeadState env = Inr headState"
    and "ProcessSlotsIfPossible env headState (HeaderSlot (Header (Header_1 slashing)))
           = Inr headState'"
    and "VerifyProposerSlashing env headState' slashing = None"
    and "InsertProposerSlashing env headState' slashing = None"
  shows "SubmitProposerSlashing env r =
     [SlashingsPool_InsertProposerSlashing headState' slashing,
      Feed_Send (ProposerSlashingReceived slashing)]
     @ (if DisableBroadcastSlashings env then []
        else Broadcaster_Broadcast (Msg_ProposerSlashing slashing) #
             (case Broadcast env (Msg_ProposerSlashing slashing) of
                Some err \<Rightarrow>
                  [httputil_HandleError (''Could not broadcast slashing object: '' @ err) 500]
              | None \<Rightarrow> []))"
  using assms by (simp add: SubmitProposerSlashing_def StatusInternalServerError_def split: option.split)

subsection \<open>The responses of the attestation handlers\<close>

lemma priority_response:
  assumes "Body r = Body_Json data" and "attFailures \<noteq> []"
  shows "(handleAttestations env data = (Inr (attFailures, failedBroadcasts), effs) \<longrightarrow>
            (\<forall>e \<in> set effs. \<not> is_response e) \<and>
            SubmitAttestations env r =
              effs @ [if failedBroadcasts \<noteq> [] then
                        httputil_HandleError
                          (''Attestations at index '' @ Join failedBroadcasts '', ''
                             @ '' could not be broadcasted'') 500
                      else
                        httputil_WriteError
                          \<lparr>Code = 400, ErrorMessage = ''One or more attestations failed validation'',
                           Failures = attFailures\<rparr>]) \<and>
         (Get (Headers r) api_VersionHeader \<noteq> [] \<and>
          version_FromString (Get (Headers r) api_VersionHeader) = Inr v \<and>
          (if v \<ge> version_Electra then handleAttestationsElectra env data
           else handleAttestations env data) = (Inr (attFailures, failedBroadcasts), effs) \<longrightarrow>
            (\<forall>e \<in> set effs. \<not> is_response e) \<and>
            SubmitAttestationsV2 env r =
              effs @ [if failedBroadcasts \<noteq> [] then
                        httputil_HandleError
                          (''Attestations at index '' @ Join failedBroadcasts '', ''
                             @ '' could not be broadcasted'') 500
                      else
                        httputil_WriteError
                          \<lparr>Code = 400, ErrorMessage = ''One or more attestations failed validation'',
                           Failures = attFailures\<rparr>])"
proof (intro conjI impI ballI)
  fix e
  assume "handleAttestations env data = (Inr (attFailures, failedBroadcasts), effs)" "e \<in> set effs"
  then show "\<not> is_response e" by (rule handleAttestations_effects_no_response)
next
  assume "handleAttestations env data = (Inr (attFailures, failedBroadcasts), effs)"
  with assms show "SubmitAttestations env r =
              effs @ [if failedBroadcasts \<noteq> [] then
                        httputil_HandleError
                          (''Attestations at index '' @ Join failedBroadcasts '', ''
                             @ '' could not be broadcasted'') 500
                      else
                        httputil_WriteError
                          \<lparr>Code = 400, ErrorMessage = ''One or more attestations failed validation'',
                           Failures = attFailures\<rparr>]"
    by (simp add: SubmitAttestations_def attestations_response_def StatusBadRequest_def
          StatusInternalServerError_def)
next
  fix e
  assume h: "Get (Headers r) api_VersionHeader \<noteq> [] \<and>
          version_FromString (Get (Headers r) api_VersionHeader) = Inr v \<and>
          (if v \<ge> version_Electra then handleAttestationsElectra env data
           else handleAttestations env data) = (Inr (attFailures, failedBroadcasts), effs)"
    and e: "e \<in> set effs"
  show "\<not> is_response e"
  proof (cases "v \<ge> version_Electra")
    case True
    with h have "handleAttestationsElectra env data = (Inr (attFailures, failedBroadcasts), effs)"
      by simp
    then show ?thesis using e by (rule handleAttestationsElectra_effects_no_response)
  next
    case False
    with h have "handleAttestations env data = (Inr (attFailures, failedBroadcasts), effs)"
      by simp
    then show ?thesis using e by (rule handleAttestations_effects_no_response)
  qed
next
  assume h: "Get (Headers r) api_VersionHeader \<noteq> [] \<and>
          version_FromString (Get (Headers r) api_VersionHeader) = Inr v \<and>
          (if v \<ge> version_Electra then handleAttestationsElectra env data
           else handleAttestations env data) = (Inr (attFailures, failedBroadcasts), effs)"
  with assms show "SubmitAttestationsV2 env r =
              effs @ [if failedBroadcasts \<noteq> [] then
                        httputil_HandleError
                          (''Attestations at index '' @ Join failedBroadcasts '', ''
                             @ '' could not be broadcasted'') 500
                      else
                        httputil_WriteError
                          \<lparr>Code = 400, ErrorMessage = ''One or more attestations failed validation'',
                           Failures = attFailures\<rparr>]"
    by (simp add: SubmitAttestationsV2_def attestations_response_def StatusBadRequest_def
          StatusInternalServerError_def Let_def)
qed

lemma failed_index_positions:
  assumes "Body r = Body_Json (Raw_Array srcs)"
  shows "(handleAttestations env (Raw_Array srcs) = (Inr (attFailures, failedBroadcasts), effs) \<longrightarrow>
            failedBroadcasts =
              map (Itoa \<circ> fst) (filter (\<lambda>(j, att). \<not> broadcast_ok env j att)
                (enumerate 0 (map snd (kept (phaseA env) 0 srcs)))) \<and>
            (failedBroadcasts \<noteq> [] \<longrightarrow>
               SubmitAttestations env r =
                 effs @ [httputil_HandleError
                           (''Attestations at index '' @ Join failedBroadcasts '', ''
                              @ '' could not be broadcasted'') 500])) \<and>
         (handleAttestationsElectra env (Raw_Array srcs) =
            (Inr (attFailures', failedBroadcasts'), effs') \<longrightarrow>
            failedBroadcasts' =
              map (Itoa \<circ> fst) (filter (\<lambda>(j, att). \<not> broadcast_ok_electra env j att)
                (enumerate 0 (map snd (kept (phaseA_electra env) 0 srcs))))) \<and>
         (\<forall>j k att. j < length (kept (phaseA env) 0 srcs) \<and>
                    kept (phaseA env) 0 srcs ! j = (k, att) \<longrightarrow>
            k < length srcs \<and> phaseA env (srcs ! k) = Some att \<and>
            k = j + length (filter (\<lambda>s. phaseA env s = None) (take k srcs)) \<and>
            ((\<exists>s \<in> set (take k srcs). phaseA env s = None) \<longrightarrow> Itoa j \<noteq> Itoa k)) \<and>
         (\<forall>j k att. j < length (kept (phaseA_electra env) 0 srcs) \<and>
                    kept (phaseA_electra env) 0 srcs ! j = (k, att) \<longrightarrow>
            k < length srcs \<and> phaseA_electra env (srcs ! k) = Some att \<and>
            k = j + length (filter (\<lambda>s. phaseA_electra env s = None) (take k srcs)) \<and>
            ((\<exists>s \<in> set (take k srcs). phaseA_electra env s = None) \<longrightarrow> Itoa j \<noteq> Itoa k))"
proof -
  have base: "failedBroadcasts =
              map (Itoa \<circ> fst) (filter (\<lambda>(j, att). \<not> broadcast_ok env j att)
                (enumerate 0 (map snd (kept (phaseA env) 0 srcs)))) \<and>
            (failedBroadcasts \<noteq> [] \<longrightarrow>
               SubmitAttestations env r =
                 effs @ [httputil_HandleError
                           (''Attestations at index '' @ Join failedBroadcasts '', ''
                              @ '' could not be broadcasted'') 500])"
    if h: "handleAttestations env (Raw_Array srcs) = (Inr (attFailures, failedBroadcasts), effs)"
  proof -
    from h have p: "handleAttestations_process env 0 (List.map_filter (phaseA env) srcs)
                      = (failedBroadcasts, effs)"
      using handleAttestations_Inr by blast
    then have "failedBroadcasts =
        fst (handleAttestations_process env 0 (List.map_filter (phaseA env) srcs))"
      by simp
    then have 1: "failedBroadcasts =
              map (Itoa \<circ> fst) (filter (\<lambda>(j, att). \<not> broadcast_ok env j att)
                (enumerate 0 (map snd (kept (phaseA env) 0 srcs))))"
      by (simp add: process_failed map_snd_kept)
    have 2: "SubmitAttestations env r =
                 effs @ [httputil_HandleError
                           (''Attestations at index '' @ Join failedBroadcasts '', ''
                              @ '' could not be broadcasted'') 500]"
      if "failedBroadcasts \<noteq> []"
      using that h assms
      by (simp add: SubmitAttestations_def attestations_response_def
            StatusInternalServerError_def)
    from 1 2 show ?thesis by blast
  qed
  have electra: "failedBroadcasts' =
              map (Itoa \<circ> fst) (filter (\<lambda>(j, att). \<not> broadcast_ok_electra env j att)
                (enumerate 0 (map snd (kept (phaseA_electra env) 0 srcs))))"
    if h: "handleAttestationsElectra env (Raw_Array srcs) =
            (Inr (attFailures', failedBroadcasts'), effs')"
  proof -
    from h have p: "handleAttestationsElectra_process env 0
                      (List.map_filter (phaseA_electra env) srcs) = (Inr failedBroadcasts', effs')"
      using handleAttestationsElectra_Inr by blast
    show ?thesis
      using process_electra_failed[OF p] by (simp add: map_snd_kept)
  qed
  show ?thesis
    using base electra kept_position_differs[of _ "phaseA env" srcs]
      kept_position_differs[of _ "phaseA_electra env" srcs]
    by blast
qed

lemma example_handleAttestationsElectra_abort:
  "handleAttestationsElectra example_env_committee (Raw_Array [0, 2, 9]) =
     (Inl ''failed to retrieve attestation committee index: exactly 1 committee index must be set'',
      [Feed_Send (UnaggregatedAttReceived (Att_Electra (example_att_electra 2))),
       Broadcaster_BroadcastAttestation 0 (Att_Electra (example_att_electra 2)),
       Feed_Send (UnaggregatedAttReceived (Att_Electra (example_att_electra 9)))])"
  by (simp add: handleAttestationsElectra_def handleAttestationsElectra_item_def
        example_env_committee_def example_env_def example_att_electra_def Itoa_digits)

lemma example_SubmitAttestations:
  "SubmitAttestations example_env (example_request (Body_Json (Raw_Array [0, 1, 2]))) =
     [Feed_Send (UnaggregatedAttReceived (Att_Phase0 (example_att 1))),
      Broadcaster_BroadcastAttestation 0 (Att_Phase0 (example_att 1)),
      Feed_Send (UnaggregatedAttReceived (Att_Phase0 (example_att 2))),
      Broadcaster_BroadcastAttestation 0 (Att_Phase0 (example_att 2)),
      AttestationsPool_SaveUnaggregatedAttestation (Att_Phase0 (example_att 2)),
      httputil_HandleError ''Attestations at index 0 could not be broadcasted'' 500]"
  using example_handleAttestations
  by (simp add: SubmitAttestations_def example_request_def attestations_response_def
        StatusInternalServerError_def)

lemma example_SubmitAttestationsV2_electra:
  "SubmitAttestationsV2 example_env
       (example_request_version ''electra'' (Body_Json (Raw_Array [0, 1, 2]))) =
     [Feed_Send (UnaggregatedAttReceived (Att_Electra (example_att_electra 1))),
      Broadcaster_BroadcastAttestation 0 (Att_Electra (example_att_electra 1)),
      Feed_Send (UnaggregatedAttReceived (Att_Electra (example_att_electra 2))),
      Broadcaster_BroadcastAttestation 0 (Att_Electra (example_att_electra 2)),
      AttestationsPool_SaveUnaggregatedAttestation (Att_Electra (example_att_electra 2)),
      httputil_HandleError ''Attestations at index 0 could not be broadcasted'' 500]"
  using example_handleAttestationsElectra
  by (simp add: SubmitAttestationsV2_def example_request_version_def Get_def
        version_FromString_electra version_Electra_def attestations_response_def
        StatusInternalServerError_def)

lemma example_SubmitAttestationsV2_abort:
  "SubmitAttestationsV2 example_env_committee
       (example_request_version ''electra'' (Body_Json (Raw_Array [0, 2, 9]))) =
     [Feed_Send (UnaggregatedAttReceived (Att_Electra (example_att_electra 2))),
      Broadcaster_BroadcastAttestation 0 (Att_Electra (example_att_electra 2)),
      Feed_Send (UnaggregatedAttReceived (Att_Electra (example_att_electra 9))),
      httputil_HandleError
        ''Failed to handle attestations: failed to retrieve attestation committee index: exactly 1 committee index must be set''
        400]"
  using example_handleAttestationsElectra_abort
  by (simp add: SubmitAttestationsV2_def example_request_version_def Get_def
        version_FromString_electra version_Electra_def StatusBadRequest_def)

lemma SubmitAttestationsV2_abort:
  assumes "Body r = Body_Json data"
    and "Get (Headers r) api_VersionHeader \<noteq> [] \<and>
         version_FromString (Get (Headers r) api_VersionHeader) = Inr v \<and>
         (if v \<ge> version_Electra then handleAttestationsElectra env data
          else handleAttestations env data) = (Inl err, effs)"
  shows "SubmitAttestationsV2 env r =
           effs @ [httputil_HandleError (''Failed to handle attestations: '' @ err) 400]"
  using assms by (simp add: SubmitAttestationsV2_def Let_def StatusBadRequest_def)


lemma SubmitAttestations_abort:
  assumes "Body r = Body_Json data"
    and "handleAttestations env data = (Inl err, effs)"
  shows "SubmitAttestations env r = effs @ [httputil_HandleError err 400]"
  using assms by (simp add: SubmitAttestations_def StatusBadRequest_def)

lemma example_handleAttestations_empty:
  "handleAttestations example_env (Raw_Array []) = (Inl ''no data submitted'', [])"
  by (simp add: handleAttestations_def)

lemma SubmitAttestations_500:
  assumes "Body r = Body_Json (Raw_Array srcs)"
    and "httputil_HandleError msg 500 \<in> set (SubmitAttestations env r)"
  shows "msg = ''Attestations at index '' @
               Join (map (Itoa \<circ> fst) (filter (\<lambda>(j, att). \<not> broadcast_ok env j att)
                 (enumerate 0 (map snd (kept (phaseA env) 0 srcs))))) '', ''
               @ '' could not be broadcasted''"
proof -
  obtain res effs where h: "handleAttestations env (Raw_Array srcs) = (res, effs)"
    by (cases "handleAttestations env (Raw_Array srcs)")
  have nr: "httputil_HandleError msg 500 \<notin> set effs"
    using handleAttestations_effects_no_response[OF h] by fastforce
  show ?thesis
  proof (cases res)
    case (Inl err)
    with assms h nr show ?thesis
      by (simp add: SubmitAttestations_def StatusBadRequest_def)
  next
    case (Inr lists)
    obtain attFailures failedBroadcasts where l: "lists = (attFailures, failedBroadcasts)"
      by (cases lists)
    from h Inr l have h': "handleAttestations env (Raw_Array srcs)
                             = (Inr (attFailures, failedBroadcasts), effs)" by simp
    then have "handleAttestations_process env 0 (List.map_filter (phaseA env) srcs)
                 = (failedBroadcasts, effs)"
      using handleAttestations_Inr by blast
    then have "failedBroadcasts =
        fst (handleAttestations_process env 0 (List.map_filter (phaseA env) srcs))" by simp
    then have fb: "failedBroadcasts =
        map (Itoa \<circ> fst) (filter (\<lambda>(j, att). \<not> broadcast_ok env j att)
          (enumerate 0 (map snd (kept (phaseA env) 0 srcs))))"
      by (simp add: process_failed map_snd_kept)
    from assms h' nr have "msg = ''Attestations at index '' @ Join failedBroadcasts '', ''
               @ '' could not be broadcasted''"
      by (simp add: SubmitAttestations_def attestations_response_def
            StatusInternalServerError_def StatusBadRequest_def split: if_splits)
    with fb show ?thesis by simp
  qed
qed

lemma SubmitAttestationsV2_500:
  assumes "Body r = Body_Json (Raw_Array srcs)"
    and "httputil_HandleError msg 500 \<in> set (SubmitAttestationsV2 env r)"
  shows "\<exists>v. version_FromString (Get (Headers r) api_VersionHeader) = Inr v \<and>
           msg = ''Attestations at index '' @
               Join (if v \<ge> version_Electra then
                       map (Itoa \<circ> fst) (filter (\<lambda>(j, att). \<not> broadcast_ok_electra env j att)
                         (enumerate 0 (map snd (kept (phaseA_electra env) 0 srcs))))
                     else
                       map (Itoa \<circ> fst) (filter (\<lambda>(j, att). \<not> broadcast_ok env j att)
                         (enumerate 0 (map snd (kept (phaseA env) 0 srcs))))) '', ''
               @ '' could not be broadcasted''"
proof -
  from assms(2) obtain v where v: "version_FromString (Get (Headers r) api_VersionHeader) = Inr v"
    and ne: "Get (Headers r) api_VersionHeader \<noteq> []"
    by (cases "version_FromString (Get (Headers r) api_VersionHeader)")
       (auto simp: SubmitAttestationsV2_def Let_def StatusBadRequest_def split: if_splits)
  show ?thesis
  proof (cases "v \<ge> version_Electra")
    case True
    obtain res effs where h: "handleAttestationsElectra env (Raw_Array srcs) = (res, effs)"
      by (cases "handleAttestationsElectra env (Raw_Array srcs)")
    have nr: "httputil_HandleError msg 500 \<notin> set effs"
      using handleAttestationsElectra_effects_no_response[OF h] by fastforce
    show ?thesis
    proof (cases res)
      case (Inl err)
      with assms h nr v ne True show ?thesis
        by (simp add: SubmitAttestationsV2_def Let_def StatusBadRequest_def)
    next
      case (Inr lists)
      obtain attFailures failedBroadcasts where l: "lists = (attFailures, failedBroadcasts)"
        by (cases lists)
      from h Inr l have h': "handleAttestationsElectra env (Raw_Array srcs)
                               = (Inr (attFailures, failedBroadcasts), effs)" by simp
      then have p: "handleAttestationsElectra_process env 0
                      (List.map_filter (phaseA_electra env) srcs) = (Inr failedBroadcasts, effs)"
        using handleAttestationsElectra_Inr by blast
      have fb: "failedBroadcasts =
          map (Itoa \<circ> fst) (filter (\<lambda>(j, att). \<not> broadcast_ok_electra env j att)
            (enumerate 0 (map snd (kept (phaseA_electra env) 0 srcs))))"
        using process_electra_failed[OF p] by (simp add: map_snd_kept)
      from assms h' nr v ne True
      have "msg = ''Attestations at index '' @ Join failedBroadcasts '', ''
               @ '' could not be broadcasted''"
        by (simp add: SubmitAttestationsV2_def Let_def attestations_response_def
              StatusInternalServerError_def StatusBadRequest_def split: if_splits)
      with fb v True show ?thesis by simp
    qed
  next
    case False
    obtain res effs where h: "handleAttestations env (Raw_Array srcs) = (res, effs)"
      by (cases "handleAttestations env (Raw_Array srcs)")
    have nr: "httputil_HandleError msg 500 \<notin> set effs"
      using handleAttestations_effects_no_response[OF h] by fastforce
    show ?thesis
    proof (cases res)
      case (Inl err)
      with assms h nr v ne False show ?thesis
        by (simp add: SubmitAttestationsV2_def Let_def StatusBadRequest_def)
    next
      case (Inr lists)
      obtain attFailures failedBroadcasts where l: "lists = (attFailures, failedBroadcasts)"
        by (cases lists)
      from h Inr l have h': "handleAttestations env (Raw_Array srcs)
                               = (Inr (attFailures, failedBroadcasts), effs)" by simp
      then have "handleAttestations_process env 0 (List.map_filter (phaseA env) srcs)
                   = (failedBroadcasts, effs)"
        using handleAttestations_Inr by blast
      then have "failedBroadcasts =
          fst (handleAttestations_process env 0 (List.map_filter (phaseA env) srcs))" by simp
      then have fb: "failedBroadcasts =
          map (Itoa \<circ> fst) (filter (\<lambda>(j, att). \<not> broadcast_ok env j att)
            (enumerate 0 (map snd (kept (phaseA env) 0 srcs))))"
        by (simp add: process_failed map_snd_kept)
      from assms h' nr v ne False
      have "msg = ''Attestations at index '' @ Join failedBroadcasts '', ''
               @ '' could not be broadcasted''"
        by (simp add: SubmitAttestationsV2_def Let_def attestations_response_def
              StatusInternalServerError_def StatusBadRequest_def split: if_splits)
      with fb v False show ?thesis by simp
    qed
  qed
qed

lemma handleAttestations_total:
  "srcs \<noteq> [] \<Longrightarrow>
     handleAttestations env (Raw_Array srcs) =
       (Inr (fst (handleAttestations_validate env 0 srcs),
             fst (handleAttestations_process env 0 (List.map_filter (phaseA env) srcs))),
        snd (handleAttestations_process env 0 (List.map_filter (phaseA env) srcs)))"
  by (simp add: handleAttestations_def split_beta validate_snd)

lemma item_electra_total:
  "GetCommitteeIndex env att = Inr c \<Longrightarrow>
     \<exists>failed effs. handleAttestationsElectra_item env i att = (Next failed, effs)"
  by (simp add: handleAttestationsElectra_item_def Let_def split: sum.split option.split)

lemma process_electra_total:
  "\<forall>att \<in> set atts. \<exists>c. GetCommitteeIndex env att = Inr c \<Longrightarrow>
     \<exists>failedBroadcasts effs.
       handleAttestationsElectra_process env i atts = (Inr failedBroadcasts, effs)"
proof (induction atts arbitrary: i)
  case Nil
  then show ?case by simp
next
  case (Cons a atts)
  from Cons.prems obtain c where "GetCommitteeIndex env a = Inr c" by auto
  then obtain failed effs1 where
    item: "handleAttestationsElectra_item env i a = (Next failed, effs1)"
    using item_electra_total by blast
  from Cons.prems have "\<forall>att \<in> set atts. \<exists>c. GetCommitteeIndex env att = Inr c" by simp
  from Cons.IH[OF this] obtain rest effs2 where
    "handleAttestationsElectra_process env (Suc i) atts = (Inr rest, effs2)" by blast
  with item show ?case by simp
qed

lemma handleAttestationsElectra_total:
  assumes "srcs \<noteq> []"
    and "\<forall>att \<in> set (map snd (kept (phaseA_electra env) 0 srcs)).
           \<exists>c. GetCommitteeIndex env att = Inr c"
  shows "\<exists>attFailures failedBroadcasts.
           handleAttestationsElectra env (Raw_Array srcs) =
             (Inr (attFailures, failedBroadcasts),
              snd (handleAttestationsElectra env (Raw_Array srcs)))"
proof -
  from assms(2) have "\<forall>att \<in> set (List.map_filter (phaseA_electra env) srcs).
                        \<exists>c. GetCommitteeIndex env att = Inr c"
    by (simp only: map_snd_kept)
  from process_electra_total[OF this] obtain fb effs where
    "handleAttestationsElectra_process env 0 (List.map_filter (phaseA_electra env) srcs)
       = (Inr fb, effs)" by blast
  with assms(1) show ?thesis
    by (simp add: handleAttestationsElectra_def split_beta validate_electra_snd)
qed

lemma SubmitAttestations_emits_500:
  assumes "Body r = Body_Json (Raw_Array srcs)" and "srcs \<noteq> []"
    and "map (Itoa \<circ> fst) (filter (\<lambda>(j, att). \<not> broadcast_ok env j att)
                (enumerate 0 (map snd (kept (phaseA env) 0 srcs)))) \<noteq> []"
  shows "SubmitAttestations env r =
              snd (handleAttestations env (Raw_Array srcs)) @
              [httputil_HandleError (''Attestations at index '' @ Join (map (Itoa \<circ> fst) (filter (\<lambda>(j, att). \<not> broadcast_ok env j att)
                (enumerate 0 (map snd (kept (phaseA env) 0 srcs))))) '', '' @ '' could not be broadcasted'') 500]"
  using assms
  by (simp add: SubmitAttestations_def handleAttestations_total attestations_response_def
        StatusInternalServerError_def process_failed map_snd_kept)

lemma SubmitAttestationsV2_base_emits_500:
  assumes "Body r = Body_Json (Raw_Array srcs)" and "srcs \<noteq> []"
    and "Get (Headers r) api_VersionHeader \<noteq> []" and "version_FromString (Get (Headers r) api_VersionHeader) = Inr ver"
    and "\<not> ver \<ge> version_Electra"
    and "map (Itoa \<circ> fst) (filter (\<lambda>(j, att). \<not> broadcast_ok env j att)
                (enumerate 0 (map snd (kept (phaseA env) 0 srcs)))) \<noteq> []"
  shows "SubmitAttestationsV2 env r =
              snd (handleAttestations env (Raw_Array srcs)) @
              [httputil_HandleError (''Attestations at index '' @ Join (map (Itoa \<circ> fst) (filter (\<lambda>(j, att). \<not> broadcast_ok env j att)
                (enumerate 0 (map snd (kept (phaseA env) 0 srcs))))) '', '' @ '' could not be broadcasted'') 500]"
  using assms
  by (simp add: SubmitAttestationsV2_def handleAttestations_total attestations_response_def
        StatusInternalServerError_def process_failed map_snd_kept)

lemma SubmitAttestationsV2_electra_emits_500:
  assumes "Body r = Body_Json (Raw_Array srcs)" and "srcs \<noteq> []"
    and "Get (Headers r) api_VersionHeader \<noteq> []" and "version_FromString (Get (Headers r) api_VersionHeader) = Inr ver"
    and "ver \<ge> version_Electra"
    and "\<forall>att \<in> set (map snd (kept (phaseA_electra env) 0 srcs)).
           \<exists>committeeIndex. GetCommitteeIndex env att = Inr committeeIndex"
    and "map (Itoa \<circ> fst) (filter (\<lambda>(j, att). \<not> broadcast_ok_electra env j att)
                (enumerate 0 (map snd (kept (phaseA_electra env) 0 srcs)))) \<noteq> []"
  shows "SubmitAttestationsV2 env r =
              snd (handleAttestationsElectra env (Raw_Array srcs)) @
              [httputil_HandleError (''Attestations at index '' @ Join (map (Itoa \<circ> fst) (filter (\<lambda>(j, att). \<not> broadcast_ok_electra env j att)
                (enumerate 0 (map snd (kept (phaseA_electra env) 0 srcs))))) '', '' @ '' could not be broadcasted'') 500]"
proof -
  from handleAttestationsElectra_total[OF assms(2) assms(6)] obtain attFailures failedBroadcasts
    effs where h: "handleAttestationsElectra env (Raw_Array srcs) =
                (Inr (attFailures, failedBroadcasts), effs)" by blast
  then have "handleAttestationsElectra_process env 0 (List.map_filter (phaseA_electra env) srcs)
               = (Inr failedBroadcasts, effs)"
    using handleAttestationsElectra_Inr by blast
  from process_electra_failed[OF this]
  have fb: "failedBroadcasts = map (Itoa \<circ> fst) (filter (\<lambda>(j, att). \<not> broadcast_ok_electra env j att)
                (enumerate 0 (map snd (kept (phaseA_electra env) 0 srcs))))"
    by (simp add: map_snd_kept)
  with assms(7) have ne: "failedBroadcasts \<noteq> []" by simp
  have "SubmitAttestationsV2 env r =
          snd (handleAttestationsElectra env (Raw_Array srcs)) @
          [httputil_HandleError
             (''Attestations at index '' @ Join failedBroadcasts '', ''
                @ '' could not be broadcasted'') 500]"
    using assms(1,3,4,5) ne
    by (simp add: SubmitAttestationsV2_def Let_def attestations_response_def
          StatusInternalServerError_def h)
  with fb show ?thesis by simp
qed

lemma version_FromString_deneb: "version_FromString ''deneb'' = Inr 4"
  by (simp add: version_FromString_def version_names_def)

section \<open>Properties\<close>

subsection \<open>C1: an attestation whose broadcast fails\<close>

text \<open>
  Claim C1, as stated, says that an attestation that passes the first loop and whose
  broadcast fails is recorded in \<open>failedBroadcasts\<close> and is still saved to the attestations
  pool. It fails on the code: after recording the failure the loop continues with the next
  attestation. For a single well-formed attestation and a broadcaster that fails, the only
  effects are the feed event and the broadcast; no save follows.
\<close>

theorem failed_broadcast_saved_counterexample:
  "handleAttestations example_env (Raw_Array [1]) =
     (Inr ([], [''0'']),
      [Feed_Send (UnaggregatedAttReceived (Att_Phase0 (example_att 1))),
       Broadcaster_BroadcastAttestation 0 (Att_Phase0 (example_att 1))])"
  by (simp add: handleAttestations_def handleAttestations_item_def example_env_def
        example_att_def Itoa_digits)

text \<open>
  Claim C1, amended: when \<^verbatim>\<open>handleAttestations\<close> or \<^verbatim>\<open>handleAttestationsElectra\<close> returns
  without error, \<open>failedBroadcasts\<close> holds exactly the indices (among the attestations kept
  by the first loop) of the attestations whose broadcast failed, and the pool is handed
  exactly the other kept attestations: an attestation whose broadcast fails is recorded and
  is not saved.
\<close>

theorem failed_broadcast_not_saved:
  "(handleAttestations env (Raw_Array srcs) = (Inr (attFailures, failedBroadcasts), effs) \<longrightarrow>
      failedBroadcasts =
        map (Itoa \<circ> fst) (filter (\<lambda>(i, att). \<not> broadcast_ok env i att)
          (enumerate 0 (List.map_filter (phaseA env) srcs))) \<and>
      saved effs =
        map (Att_Phase0 \<circ> snd) (filter (\<lambda>(i, att). broadcast_ok env i att)
          (enumerate 0 (List.map_filter (phaseA env) srcs)))) \<and>
   (handleAttestationsElectra env (Raw_Array srcs) = (Inr (attFailures', failedBroadcasts'), effs')
      \<longrightarrow>
      failedBroadcasts' =
        map (Itoa \<circ> fst) (filter (\<lambda>(i, att). \<not> broadcast_ok_electra env i att)
          (enumerate 0 (List.map_filter (phaseA_electra env) srcs))) \<and>
      saved effs' =
        map (Att_Electra \<circ> snd) (filter (\<lambda>(i, att). broadcast_ok_electra env i att)
          (enumerate 0 (List.map_filter (phaseA_electra env) srcs))))"
proof (intro conjI impI)
  assume "handleAttestations env (Raw_Array srcs) = (Inr (attFailures, failedBroadcasts), effs)"
  then have p: "handleAttestations_process env 0 (List.map_filter (phaseA env) srcs)
              = (failedBroadcasts, effs)"
    using handleAttestations_Inr by blast
  from p have "failedBroadcasts =
      fst (handleAttestations_process env 0 (List.map_filter (phaseA env) srcs))"
    and "effs = snd (handleAttestations_process env 0 (List.map_filter (phaseA env) srcs))"
    by simp_all
  then show "failedBroadcasts =
        map (Itoa \<circ> fst) (filter (\<lambda>(i, att). \<not> broadcast_ok env i att)
          (enumerate 0 (List.map_filter (phaseA env) srcs)))"
    and "saved effs =
        map (Att_Phase0 \<circ> snd) (filter (\<lambda>(i, att). broadcast_ok env i att)
          (enumerate 0 (List.map_filter (phaseA env) srcs)))"
    by (simp_all add: process_failed process_saved)
next
  assume "handleAttestationsElectra env (Raw_Array srcs)
            = (Inr (attFailures', failedBroadcasts'), effs')"
  then have p: "handleAttestationsElectra_process env 0
                  (List.map_filter (phaseA_electra env) srcs) = (Inr failedBroadcasts', effs')"
    using handleAttestationsElectra_Inr by blast
  show "failedBroadcasts' =
        map (Itoa \<circ> fst) (filter (\<lambda>(i, att). \<not> broadcast_ok_electra env i att)
          (enumerate 0 (List.map_filter (phaseA_electra env) srcs)))"
    by (rule process_electra_failed[OF p])
  show "saved effs' =
        map (Att_Electra \<circ> snd) (filter (\<lambda>(i, att). broadcast_ok_electra env i att)
          (enumerate 0 (List.map_filter (phaseA_electra env) srcs)))"
    by (rule process_electra_saved[OF p])
qed

text \<open>
  Witness for C1: a batch of a malformed item and two well-formed ones, the first broadcast
  failing, through both handlers.
\<close>

theorem failed_broadcast_not_saved_witness:
  "handleAttestations example_env (Raw_Array [0, 1, 2]) =
     (Inr ([\<lparr>Index = 0,
              Message = ''Could not convert request attestation to consensus attestation: invalid''\<rparr>],
           [''0'']),
      [Feed_Send (UnaggregatedAttReceived (Att_Phase0 (example_att 1))),
       Broadcaster_BroadcastAttestation 0 (Att_Phase0 (example_att 1)),
       Feed_Send (UnaggregatedAttReceived (Att_Phase0 (example_att 2))),
       Broadcaster_BroadcastAttestation 0 (Att_Phase0 (example_att 2)),
       AttestationsPool_SaveUnaggregatedAttestation (Att_Phase0 (example_att 2))]) \<and>
   handleAttestationsElectra example_env (Raw_Array [0, 1, 2]) =
     (Inr ([\<lparr>Index = 0,
              Message = ''Could not convert request attestation to consensus attestation: invalid''\<rparr>],
           [''0'']),
      [Feed_Send (UnaggregatedAttReceived (Att_Electra (example_att_electra 1))),
       Broadcaster_BroadcastAttestation 0 (Att_Electra (example_att_electra 1)),
       Feed_Send (UnaggregatedAttReceived (Att_Electra (example_att_electra 2))),
       Broadcaster_BroadcastAttestation 0 (Att_Electra (example_att_electra 2)),
       AttestationsPool_SaveUnaggregatedAttestation (Att_Electra (example_att_electra 2))]) \<and>
   [''0''] =
     map (Itoa \<circ> fst) (filter (\<lambda>(i, att). \<not> broadcast_ok example_env i att)
       (enumerate 0 (List.map_filter (phaseA example_env) [0, 1, 2]))) \<and>
   [''0''] =
     map (Itoa \<circ> fst) (filter (\<lambda>(i, att). \<not> broadcast_ok_electra example_env i att)
       (enumerate 0 (List.map_filter (phaseA_electra example_env) [0, 1, 2])))"
  using failed_broadcast_not_saved[of example_env "[0, 1, 2]", THEN conjunct1, rule_format,
          OF example_handleAttestations]
        failed_broadcast_not_saved[of example_env "[0, 1, 2]", THEN conjunct2, rule_format,
          OF example_handleAttestationsElectra]
        example_handleAttestations example_handleAttestationsElectra
  by blast

subsection \<open>C2: the order of the side effects\<close>

text \<open>
  Claim C2, as stated, says that every single-operation endpoint and every item of a batch
  performs its side effects in the order notifier publish, broadcast, pool insert. It
  fails on the code for the single-operation endpoints: a valid voluntary exit is inserted
  into the pool and then broadcast, with no notifier event; a valid attester or proposer
  slashing is inserted into the pool, then published on the feed, then broadcast.
\<close>

theorem insert_precedes_broadcast_counterexample:
  "SubmitVoluntaryExit example_op_env (example_request (Body_Json 7)) =
     [VoluntaryExitsPool_InsertVoluntaryExit example_exit,
      Broadcaster_Broadcast (Msg_Exit example_exit)] \<and>
   SubmitAttesterSlashings example_op_env (example_request (Body_Json 7)) =
     [SlashingsPool_InsertAttesterSlashing example_state (AttSlashing_Phase0 example_slashing),
      Feed_Send (AttesterSlashingReceived (AttSlashing_Phase0 example_slashing)),
      Broadcaster_Broadcast (Msg_AttSlashing (AttSlashing_Phase0 example_slashing))] \<and>
   SubmitProposerSlashing example_op_env (example_request (Body_Json 7)) =
     [SlashingsPool_InsertProposerSlashing example_state example_proposer_slashing,
      Feed_Send (ProposerSlashingReceived example_proposer_slashing),
      Broadcaster_Broadcast (Msg_ProposerSlashing example_proposer_slashing)] \<and>
   \<not> subseq (map step_of (SubmitVoluntaryExit example_op_env (example_request (Body_Json 7))))
         [Notify, Broadcasts, PoolInsert] \<and>
   \<not> subseq (map step_of (SubmitAttesterSlashings example_op_env (example_request (Body_Json 7))))
         [Notify, Broadcasts, PoolInsert] \<and>
   \<not> subseq (map step_of (SubmitProposerSlashing example_op_env (example_request (Body_Json 7))))
         [Notify, Broadcasts, PoolInsert]"
  by (simp add: example_SubmitVoluntaryExit example_SubmitAttesterSlashings
        example_SubmitProposerSlashing)

text \<open>
  Claim C2, amended. Each attestation of a batch, in both attestation loops, first
  publishes the attestation on the feed exactly when the attestation is unaggregated, then
  calls the broadcaster, then inserts into the pool; when the validator indices are read
  and the broadcast succeeds the effects of the item are exactly these, the insert being
  \<^verbatim>\<open>SaveAggregatedAttestation\<close> or \<^verbatim>\<open>SaveUnaggregatedAttestation\<close> by the same test. The
  effects of the loop of \<^verbatim>\<open>SubmitBLSToExecutionChanges\<close> are, for each accepted change in
  turn, the publication on the feed followed by the insert into the pool, the broadcast
  being left to the deferred loop. The single-operation endpoints insert into the pool
  first: a voluntary exit is inserted and then broadcast, with no notifier publish; an
  attester or proposer slashing is inserted, then published on the feed, then broadcast;
  for an operation that passes the checks the trace is exactly these steps, followed by a
  response only when the broadcast fails.
\<close>

theorem side_effect_order:
  "(\<exists>rest. snd (handleAttestations_item env i att) =
      (if IsAggregated env (Att_Phase0 att) then []
       else [Feed_Send (UnaggregatedAttReceived (Att_Phase0 att))]) @ rest \<and>
      subseq (map step_of rest) [Broadcasts, PoolInsert]) \<and>
   (HeadValidatorsIndices env i (ToEpoch env (Slot (Data att))) = Inr vals \<and>
    BroadcastAttestation env i
      (ComputeSubnetFromCommitteeAndSlot env (of_nat (length vals))
         (CommitteeIndex (Data att)) (Slot (Data att))) (Att_Phase0 att) = None \<longrightarrow>
    snd (handleAttestations_item env i att) =
      (if IsAggregated env (Att_Phase0 att) then []
       else [Feed_Send (UnaggregatedAttReceived (Att_Phase0 att))]) @
      [Broadcaster_BroadcastAttestation
         (ComputeSubnetFromCommitteeAndSlot env (of_nat (length vals))
            (CommitteeIndex (Data att)) (Slot (Data att))) (Att_Phase0 att),
       if IsAggregated env (Att_Phase0 att)
       then AttestationsPool_SaveAggregatedAttestation (Att_Phase0 att)
       else AttestationsPool_SaveUnaggregatedAttestation (Att_Phase0 att)]) \<and>
   (\<exists>rest. snd (handleAttestationsElectra_item env i att') =
      (if IsAggregated env (Att_Electra att') then []
       else [Feed_Send (UnaggregatedAttReceived (Att_Electra att'))]) @ rest \<and>
      subseq (map step_of rest) [Broadcasts, PoolInsert]) \<and>
   (HeadValidatorsIndices env i (ToEpoch env (Slot (Data att'))) = Inr vals' \<and>
    GetCommitteeIndex env att' = Inr committeeIndex \<and>
    BroadcastAttestation env i
      (ComputeSubnetFromCommitteeAndSlot env (of_nat (length vals'))
         committeeIndex (Slot (Data att'))) (Att_Electra att') = None \<longrightarrow>
    snd (handleAttestationsElectra_item env i att') =
      (if IsAggregated env (Att_Electra att') then []
       else [Feed_Send (UnaggregatedAttReceived (Att_Electra att'))]) @
      [Broadcaster_BroadcastAttestation
         (ComputeSubnetFromCommitteeAndSlot env (of_nat (length vals'))
            committeeIndex (Slot (Data att'))) (Att_Electra att'),
       if IsAggregated env (Att_Electra att')
       then AttestationsPool_SaveAggregatedAttestation (Att_Electra att')
       else AttestationsPool_SaveUnaggregatedAttestation (Att_Electra att')]) \<and>
   snd (snd (SubmitBLSToExecutionChanges_loop benv st k changes)) =
     concat (map (\<lambda>c. [Feed_Send (BLSToExecutionChangeReceived c),
                        BLSChangesPool_InsertBLSToExecChange c])
               (List.map_filter (bls_accept benv st) changes)) \<and>
   subseq (map step_of (SubmitVoluntaryExit oenv r)) [PoolInsert, Broadcasts, Respond] \<and>
   (Body r = Body_Json req \<and>
    SignedVoluntaryExit_ToConsensus oenv req = Inr exit \<and>
    HeadState oenv = Inr headState \<and>
    EpochStart oenv (Epoch (Exit exit)) = Inr epochStart \<and>
    ProcessSlotsIfPossible oenv headState epochStart = Inr exitState \<and>
    ValidatorAtIndexReadOnly oenv exitState (ValidatorIndex (Exit exit)) = Inr val \<and>
    VerifyExitAndSignature oenv val exitState exit = None \<longrightarrow>
    SubmitVoluntaryExit oenv r =
      [VoluntaryExitsPool_InsertVoluntaryExit exit, Broadcaster_Broadcast (Msg_Exit exit)]
      @ (case Broadcast oenv (Msg_Exit exit) of
           Some err \<Rightarrow> [httputil_HandleError (''Could not broadcast exit: '' @ err) 500]
         | None \<Rightarrow> [])) \<and>
   subseq (map step_of (submitAttesterSlashing oenv slashing))
     [PoolInsert, Notify, Broadcasts, Respond] \<and>
   subseq (map step_of (SubmitAttesterSlashings oenv r))
     [PoolInsert, Notify, Broadcasts, Respond] \<and>
   (HeadState oenv = Inr headState \<and>
    ProcessSlotsIfPossible oenv headState (Slot (IndexedData (FirstAttestation slashing)))
      = Inr slashingState \<and>
    VerifyAttesterSlashing oenv slashingState slashing = None \<and>
    InsertAttesterSlashing oenv slashingState slashing = None \<longrightarrow>
    submitAttesterSlashing oenv slashing =
      [SlashingsPool_InsertAttesterSlashing slashingState slashing,
       Feed_Send (AttesterSlashingReceived slashing)]
      @ (if DisableBroadcastSlashings oenv then []
         else Broadcaster_Broadcast (Msg_AttSlashing slashing) #
              (case Broadcast oenv (Msg_AttSlashing slashing) of
                 Some err \<Rightarrow>
                   [httputil_HandleError (''Could not broadcast slashing object: '' @ err) 500]
               | None \<Rightarrow> []))) \<and>
   subseq (map step_of (SubmitProposerSlashing oenv r))
     [PoolInsert, Notify, Broadcasts, Respond] \<and>
   (Body r = Body_Json req \<and>
    ProposerSlashing_ToConsensus oenv req = Inr pslashing \<and>
    HeadState oenv = Inr headState \<and>
    ProcessSlotsIfPossible oenv headState (HeaderSlot (Header (Header_1 pslashing)))
      = Inr pslashingState \<and>
    VerifyProposerSlashing oenv pslashingState pslashing = None \<and>
    InsertProposerSlashing oenv pslashingState pslashing = None \<longrightarrow>
    SubmitProposerSlashing oenv r =
      [SlashingsPool_InsertProposerSlashing pslashingState pslashing,
       Feed_Send (ProposerSlashingReceived pslashing)]
      @ (if DisableBroadcastSlashings oenv then []
         else Broadcaster_Broadcast (Msg_ProposerSlashing pslashing) #
              (case Broadcast oenv (Msg_ProposerSlashing pslashing) of
                 Some err \<Rightarrow>
                   [httputil_HandleError (''Could not broadcast slashing object: '' @ err) 500]
               | None \<Rightarrow> [])))"
proof (intro conjI impI)
  show "\<exists>rest. snd (handleAttestations_item env i att) =
      (if IsAggregated env (Att_Phase0 att) then []
       else [Feed_Send (UnaggregatedAttReceived (Att_Phase0 att))]) @ rest \<and>
      subseq (map step_of rest) [Broadcasts, PoolInsert]"
    by (rule item_effects)
  show "\<exists>rest. snd (handleAttestationsElectra_item env i att') =
      (if IsAggregated env (Att_Electra att') then []
       else [Feed_Send (UnaggregatedAttReceived (Att_Electra att'))]) @ rest \<and>
      subseq (map step_of rest) [Broadcasts, PoolInsert]"
    by (rule item_electra_effects)
  show "snd (snd (SubmitBLSToExecutionChanges_loop benv st k changes)) =
     concat (map (\<lambda>c. [Feed_Send (BLSToExecutionChangeReceived c),
                        BLSChangesPool_InsertBLSToExecChange c])
               (List.map_filter (bls_accept benv st) changes))"
    by (rule loop_effects)
  show "subseq (map step_of (SubmitVoluntaryExit oenv r)) [PoolInsert, Broadcasts, Respond]"
    by (rule SubmitVoluntaryExit_order)
  show "subseq (map step_of (submitAttesterSlashing oenv slashing))
     [PoolInsert, Notify, Broadcasts, Respond]"
    by (rule submitAttesterSlashing_order)
  show "subseq (map step_of (SubmitAttesterSlashings oenv r))
     [PoolInsert, Notify, Broadcasts, Respond]"
    by (rule SubmitAttesterSlashings_order)
  show "subseq (map step_of (SubmitProposerSlashing oenv r))
     [PoolInsert, Notify, Broadcasts, Respond]"
    by (rule SubmitProposerSlashing_order)
next
  assume "HeadValidatorsIndices env i (ToEpoch env (Slot (Data att))) = Inr vals \<and>
    BroadcastAttestation env i
      (ComputeSubnetFromCommitteeAndSlot env (of_nat (length vals))
         (CommitteeIndex (Data att)) (Slot (Data att))) (Att_Phase0 att) = None"
  then show "snd (handleAttestations_item env i att) =
      (if IsAggregated env (Att_Phase0 att) then []
       else [Feed_Send (UnaggregatedAttReceived (Att_Phase0 att))]) @
      [Broadcaster_BroadcastAttestation
         (ComputeSubnetFromCommitteeAndSlot env (of_nat (length vals))
            (CommitteeIndex (Data att)) (Slot (Data att))) (Att_Phase0 att),
       if IsAggregated env (Att_Phase0 att)
       then AttestationsPool_SaveAggregatedAttestation (Att_Phase0 att)
       else AttestationsPool_SaveUnaggregatedAttestation (Att_Phase0 att)]"
    by (elim conjE) (rule item_effects_ok, assumption+)
next
  assume "HeadValidatorsIndices env i (ToEpoch env (Slot (Data att'))) = Inr vals' \<and>
    GetCommitteeIndex env att' = Inr committeeIndex \<and>
    BroadcastAttestation env i
      (ComputeSubnetFromCommitteeAndSlot env (of_nat (length vals'))
         committeeIndex (Slot (Data att'))) (Att_Electra att') = None"
  then show "snd (handleAttestationsElectra_item env i att') =
      (if IsAggregated env (Att_Electra att') then []
       else [Feed_Send (UnaggregatedAttReceived (Att_Electra att'))]) @
      [Broadcaster_BroadcastAttestation
         (ComputeSubnetFromCommitteeAndSlot env (of_nat (length vals'))
            committeeIndex (Slot (Data att'))) (Att_Electra att'),
       if IsAggregated env (Att_Electra att')
       then AttestationsPool_SaveAggregatedAttestation (Att_Electra att')
       else AttestationsPool_SaveUnaggregatedAttestation (Att_Electra att')]"
    by (elim conjE) (rule item_electra_effects_ok, assumption+)
next
  assume "Body r = Body_Json req \<and>
    SignedVoluntaryExit_ToConsensus oenv req = Inr exit \<and>
    HeadState oenv = Inr headState \<and>
    EpochStart oenv (Epoch (Exit exit)) = Inr epochStart \<and>
    ProcessSlotsIfPossible oenv headState epochStart = Inr exitState \<and>
    ValidatorAtIndexReadOnly oenv exitState (ValidatorIndex (Exit exit)) = Inr val \<and>
    VerifyExitAndSignature oenv val exitState exit = None"
  then show "SubmitVoluntaryExit oenv r =
      [VoluntaryExitsPool_InsertVoluntaryExit exit, Broadcaster_Broadcast (Msg_Exit exit)]
      @ (case Broadcast oenv (Msg_Exit exit) of
           Some err \<Rightarrow> [httputil_HandleError (''Could not broadcast exit: '' @ err) 500]
         | None \<Rightarrow> [])"
    by (elim conjE) (rule SubmitVoluntaryExit_ok, assumption+)
next
  assume "HeadState oenv = Inr headState \<and>
    ProcessSlotsIfPossible oenv headState (Slot (IndexedData (FirstAttestation slashing)))
      = Inr slashingState \<and>
    VerifyAttesterSlashing oenv slashingState slashing = None \<and>
    InsertAttesterSlashing oenv slashingState slashing = None"
  then show "submitAttesterSlashing oenv slashing =
      [SlashingsPool_InsertAttesterSlashing slashingState slashing,
       Feed_Send (AttesterSlashingReceived slashing)]
      @ (if DisableBroadcastSlashings oenv then []
         else Broadcaster_Broadcast (Msg_AttSlashing slashing) #
              (case Broadcast oenv (Msg_AttSlashing slashing) of
                 Some err \<Rightarrow>
                   [httputil_HandleError (''Could not broadcast slashing object: '' @ err) 500]
               | None \<Rightarrow> []))"
    by (elim conjE) (rule submitAttesterSlashing_ok, assumption+)
next
  assume "Body r = Body_Json req \<and>
    ProposerSlashing_ToConsensus oenv req = Inr pslashing \<and>
    HeadState oenv = Inr headState \<and>
    ProcessSlotsIfPossible oenv headState (HeaderSlot (Header (Header_1 pslashing)))
      = Inr pslashingState \<and>
    VerifyProposerSlashing oenv pslashingState pslashing = None \<and>
    InsertProposerSlashing oenv pslashingState pslashing = None"
  then show "SubmitProposerSlashing oenv r =
      [SlashingsPool_InsertProposerSlashing pslashingState pslashing,
       Feed_Send (ProposerSlashingReceived pslashing)]
      @ (if DisableBroadcastSlashings oenv then []
         else Broadcaster_Broadcast (Msg_ProposerSlashing pslashing) #
              (case Broadcast oenv (Msg_ProposerSlashing pslashing) of
                 Some err \<Rightarrow>
                   [httputil_HandleError (''Could not broadcast slashing object: '' @ err) 500]
               | None \<Rightarrow> []))"
    by (elim conjE) (rule SubmitProposerSlashing_ok, assumption+)
qed

text \<open>
  Witness for C2: an unaggregated and an aggregated attestation through each attestation
  loop, two accepted BLS-to-execution changes, a voluntary exit, an attester slashing and
  a proposer slashing, each with all its steps.
\<close>

theorem side_effect_order_witness:
  "snd (handleAttestations_item example_env 2 (example_att 2)) =
     [Feed_Send (UnaggregatedAttReceived (Att_Phase0 (example_att 2))),
      Broadcaster_BroadcastAttestation 0 (Att_Phase0 (example_att 2)),
      AttestationsPool_SaveUnaggregatedAttestation (Att_Phase0 (example_att 2))] \<and>
   snd (handleAttestations_item (example_env\<lparr>IsAggregated := (\<lambda>a. True)\<rparr>) 2 (example_att 2)) =
     [Broadcaster_BroadcastAttestation 0 (Att_Phase0 (example_att 2)),
      AttestationsPool_SaveAggregatedAttestation (Att_Phase0 (example_att 2))] \<and>
   snd (handleAttestationsElectra_item example_env 2 (example_att_electra 2)) =
     [Feed_Send (UnaggregatedAttReceived (Att_Electra (example_att_electra 2))),
      Broadcaster_BroadcastAttestation 0 (Att_Electra (example_att_electra 2)),
      AttestationsPool_SaveUnaggregatedAttestation (Att_Electra (example_att_electra 2))] \<and>
   snd (handleAttestationsElectra_item (example_env\<lparr>IsAggregated := (\<lambda>a. True)\<rparr>) 2
          (example_att_electra 2)) =
     [Broadcaster_BroadcastAttestation 0 (Att_Electra (example_att_electra 2)),
      AttestationsPool_SaveAggregatedAttestation (Att_Electra (example_att_electra 2))] \<and>
   snd (snd (SubmitBLSToExecutionChanges_loop (example_bls_env (\<lambda>t. Inr example_capella))
               example_capella 0 [7, 9])) =
     [Feed_Send (BLSToExecutionChangeReceived (example_change 7)),
      BLSChangesPool_InsertBLSToExecChange (example_change 7),
      Feed_Send (BLSToExecutionChangeReceived (example_change 9)),
      BLSChangesPool_InsertBLSToExecChange (example_change 9)] \<and>
   SubmitVoluntaryExit example_op_env (example_request (Body_Json 7)) =
     [VoluntaryExitsPool_InsertVoluntaryExit example_exit,
      Broadcaster_Broadcast (Msg_Exit example_exit)] \<and>
   submitAttesterSlashing example_op_env (AttSlashing_Phase0 example_slashing) =
     [SlashingsPool_InsertAttesterSlashing example_state (AttSlashing_Phase0 example_slashing),
      Feed_Send (AttesterSlashingReceived (AttSlashing_Phase0 example_slashing)),
      Broadcaster_Broadcast (Msg_AttSlashing (AttSlashing_Phase0 example_slashing))] \<and>
   SubmitProposerSlashing example_op_env (example_request (Body_Json 7)) =
     [SlashingsPool_InsertProposerSlashing example_state example_proposer_slashing,
      Feed_Send (ProposerSlashingReceived example_proposer_slashing),
      Broadcaster_Broadcast (Msg_ProposerSlashing example_proposer_slashing)] \<and>
   subseq (map step_of (SubmitAttesterSlashings example_op_env (example_request (Body_Json 7))))
     [PoolInsert, Notify, Broadcasts, Respond]"
proof -
  let ?agg = "example_env\<lparr>IsAggregated := (\<lambda>a. True)\<rparr>"
  let ?benv = "example_bls_env (\<lambda>t. Inr example_capella)"
  let ?r = "example_request (Body_Json (7::nat))"
  let ?val = "\<lparr>PublicKey = [], ExitEpoch = 0\<rparr>"
  note T = side_effect_order[where env = example_env and i = 2 and att = "example_att 2"
      and vals = "[]" and att' = "example_att_electra 2" and vals' = "[]"
      and committeeIndex = 0 and benv = ?benv and st = example_capella and k = 0
      and changes = "[7, 9]" and oenv = example_op_env and r = ?r and req = 7
      and exit = example_exit and headState = example_state and epochStart = 320
      and exitState = example_state and val = ?val
      and slashing = "AttSlashing_Phase0 example_slashing" and slashingState = example_state
      and pslashing = example_proposer_slashing and pslashingState = example_state]
  note A = side_effect_order[where env = ?agg and i = 2 and att = "example_att 2"
      and vals = "[]" and att' = "example_att_electra 2" and vals' = "[]"
      and committeeIndex = 0]
  have h1: "HeadValidatorsIndices example_env 2 (ToEpoch example_env (Slot (Data (example_att 2))))
              = Inr [] \<and>
            BroadcastAttestation example_env 2
              (ComputeSubnetFromCommitteeAndSlot example_env (of_nat (length []))
                 (CommitteeIndex (Data (example_att 2))) (Slot (Data (example_att 2))))
              (Att_Phase0 (example_att 2)) = None"
    by (simp add: example_env_def)
  have h2: "HeadValidatorsIndices ?agg 2 (ToEpoch ?agg (Slot (Data (example_att 2)))) = Inr [] \<and>
            BroadcastAttestation ?agg 2
              (ComputeSubnetFromCommitteeAndSlot ?agg (of_nat (length []))
                 (CommitteeIndex (Data (example_att 2))) (Slot (Data (example_att 2))))
              (Att_Phase0 (example_att 2)) = None"
    by (simp add: example_env_def)
  have h3: "HeadValidatorsIndices example_env 2
              (ToEpoch example_env (Slot (Data (example_att_electra 2)))) = Inr [] \<and>
            GetCommitteeIndex example_env (example_att_electra 2) = Inr 0 \<and>
            BroadcastAttestation example_env 2
              (ComputeSubnetFromCommitteeAndSlot example_env (of_nat (length []))
                 0 (Slot (Data (example_att_electra 2))))
              (Att_Electra (example_att_electra 2)) = None"
    by (simp add: example_env_def)
  have h4: "HeadValidatorsIndices ?agg 2 (ToEpoch ?agg (Slot (Data (example_att_electra 2))))
              = Inr [] \<and>
            GetCommitteeIndex ?agg (example_att_electra 2) = Inr 0 \<and>
            BroadcastAttestation ?agg 2
              (ComputeSubnetFromCommitteeAndSlot ?agg (of_nat (length []))
                 0 (Slot (Data (example_att_electra 2))))
              (Att_Electra (example_att_electra 2)) = None"
    by (simp add: example_env_def)
  have h5: "Body ?r = Body_Json 7 \<and>
    SignedVoluntaryExit_ToConsensus example_op_env 7 = Inr example_exit \<and>
    HeadState example_op_env = Inr example_state \<and>
    EpochStart example_op_env (Epoch (Exit example_exit)) = Inr 320 \<and>
    ProcessSlotsIfPossible example_op_env example_state 320 = Inr example_state \<and>
    ValidatorAtIndexReadOnly example_op_env example_state (ValidatorIndex (Exit example_exit))
      = Inr ?val \<and>
    VerifyExitAndSignature example_op_env ?val example_state example_exit = None"
    by (simp add: example_request_def example_op_env_def example_exit_def)
  have h6: "HeadState example_op_env = Inr example_state \<and>
    ProcessSlotsIfPossible example_op_env example_state
      (Slot (IndexedData (FirstAttestation (AttSlashing_Phase0 example_slashing))))
      = Inr example_state \<and>
    VerifyAttesterSlashing example_op_env example_state (AttSlashing_Phase0 example_slashing)
      = None \<and>
    InsertAttesterSlashing example_op_env example_state (AttSlashing_Phase0 example_slashing)
      = None"
    by (simp add: example_op_env_def)
  have h7: "Body ?r = Body_Json 7 \<and>
    ProposerSlashing_ToConsensus example_op_env 7 = Inr example_proposer_slashing \<and>
    HeadState example_op_env = Inr example_state \<and>
    ProcessSlotsIfPossible example_op_env example_state
      (HeaderSlot (Header (Header_1 example_proposer_slashing))) = Inr example_state \<and>
    VerifyProposerSlashing example_op_env example_state example_proposer_slashing = None \<and>
    InsertProposerSlashing example_op_env example_state example_proposer_slashing = None"
    by (simp add: example_request_def example_op_env_def)
  from T[THEN conjunct2, THEN conjunct1, rule_format, OF h1] have c1: "snd (handleAttestations_item example_env 2 (example_att 2)) =
     [Feed_Send (UnaggregatedAttReceived (Att_Phase0 (example_att 2))),
      Broadcaster_BroadcastAttestation 0 (Att_Phase0 (example_att 2)),
      AttestationsPool_SaveUnaggregatedAttestation (Att_Phase0 (example_att 2))]"
    by (simp add: example_env_def)
  from A[THEN conjunct2, THEN conjunct1, rule_format, OF h2] have c2: "snd (handleAttestations_item ?agg 2 (example_att 2)) =
     [Broadcaster_BroadcastAttestation 0 (Att_Phase0 (example_att 2)),
      AttestationsPool_SaveAggregatedAttestation (Att_Phase0 (example_att 2))]"
    by (simp add: example_env_def)
  from T[THEN conjunct2, THEN conjunct2, THEN conjunct2, THEN conjunct1, rule_format, OF h3] have c3: "snd (handleAttestationsElectra_item example_env 2 (example_att_electra 2)) =
     [Feed_Send (UnaggregatedAttReceived (Att_Electra (example_att_electra 2))),
      Broadcaster_BroadcastAttestation 0 (Att_Electra (example_att_electra 2)),
      AttestationsPool_SaveUnaggregatedAttestation (Att_Electra (example_att_electra 2))]"
    by (simp add: example_env_def)
  from A[THEN conjunct2, THEN conjunct2, THEN conjunct2, THEN conjunct1, rule_format, OF h4] have c4: "snd (handleAttestationsElectra_item ?agg 2 (example_att_electra 2)) =
     [Broadcaster_BroadcastAttestation 0 (Att_Electra (example_att_electra 2)),
      AttestationsPool_SaveAggregatedAttestation (Att_Electra (example_att_electra 2))]"
    by (simp add: example_env_def)
  have acc: "List.map_filter (bls_accept ?benv example_capella) [7, 9]
               = [example_change 7, example_change 9]"
    by (simp add: List.map_filter_simps bls_accept_def example_bls_env_def example_change_def)
  from T[THEN conjunct2, THEN conjunct2, THEN conjunct2, THEN conjunct2, THEN conjunct1] have c5: "snd (snd (SubmitBLSToExecutionChanges_loop ?benv example_capella 0 [7, 9])) =
     [Feed_Send (BLSToExecutionChangeReceived (example_change 7)),
      BLSChangesPool_InsertBLSToExecChange (example_change 7),
      Feed_Send (BLSToExecutionChangeReceived (example_change 9)),
      BLSChangesPool_InsertBLSToExecChange (example_change 9)]"
    unfolding acc by simp
  from T[THEN conjunct2, THEN conjunct2, THEN conjunct2, THEN conjunct2, THEN conjunct2, THEN conjunct2, THEN conjunct1, rule_format, OF h5] have c6: "SubmitVoluntaryExit example_op_env ?r =
     [VoluntaryExitsPool_InsertVoluntaryExit example_exit,
      Broadcaster_Broadcast (Msg_Exit example_exit)]"
    by (simp add: example_op_env_def)
  from T[THEN conjunct2, THEN conjunct2, THEN conjunct2, THEN conjunct2, THEN conjunct2, THEN conjunct2, THEN conjunct2, THEN conjunct2, THEN conjunct2, THEN conjunct1, rule_format, OF h6] have c7: "submitAttesterSlashing example_op_env (AttSlashing_Phase0 example_slashing) =
     [SlashingsPool_InsertAttesterSlashing example_state (AttSlashing_Phase0 example_slashing),
      Feed_Send (AttesterSlashingReceived (AttSlashing_Phase0 example_slashing)),
      Broadcaster_Broadcast (Msg_AttSlashing (AttSlashing_Phase0 example_slashing))]"
    by (simp add: example_op_env_def)
  from T[THEN conjunct2, THEN conjunct2, THEN conjunct2, THEN conjunct2, THEN conjunct2, THEN conjunct2, THEN conjunct2, THEN conjunct2, THEN conjunct2, THEN conjunct2, THEN conjunct2, rule_format, OF h7] have c8: "SubmitProposerSlashing example_op_env ?r =
     [SlashingsPool_InsertProposerSlashing example_state example_proposer_slashing,
      Feed_Send (ProposerSlashingReceived example_proposer_slashing),
      Broadcaster_Broadcast (Msg_ProposerSlashing example_proposer_slashing)]"
    by (simp add: example_op_env_def)
  from T[THEN conjunct2, THEN conjunct2, THEN conjunct2, THEN conjunct2, THEN conjunct2, THEN conjunct2, THEN conjunct2, THEN conjunct2, THEN conjunct1] have c9: "subseq (map step_of (SubmitAttesterSlashings example_op_env ?r))
     [PoolInsert, Notify, Broadcasts, Respond]" .
  from c1 c2 c3 c4 c5 c6 c7 c8 c9 show ?thesis by blast
qed

subsection \<open>C3: a V2 submission without the version header\<close>

text \<open>
  Claim C3 says that a V2 submission without the \<^verbatim>\<open>Eth-Consensus-Version\<close> header is
  answered with the 400 for the missing header and is not processed further.
  \<^verbatim>\<open>SubmitAttestationsV2\<close> does so. \<^verbatim>\<open>SubmitAttesterSlashingsV2\<close> writes the same error but
  does not return: it goes on to parse the empty version string and writes a second
  error.
\<close>

theorem missing_version_header_no_return:
  "SubmitAttesterSlashingsV2 example_op_env (example_request (Body_Json 7)) =
     [httputil_HandleError ''Eth-Consensus-Version header is required'' 400,
      httputil_HandleError ''Invalid version: UnknownVersion'' 400] \<and>
   SubmitAttestationsV2 example_env (example_request (Body_Json (Raw_Array [1, 2]))) =
     [httputil_HandleError ''Eth-Consensus-Version header is required'' 400]"
  by (simp add: SubmitAttesterSlashingsV2_def SubmitAttestationsV2_def example_request_def
        Get_def api_VersionHeader_def version_FromString_def version_names_def
        StatusBadRequest_def)

subsection \<open>C4: cancellation and the deferred loop\<close>

text \<open>
  Claim C4 says that cancelling the context of the request that submitted the changes does
  not end the deferred loop, and the handler's documentation says that a change that passes
  validation is broadcast. The code diverges from both: \<^verbatim>\<open>SubmitBLSToExecutionChanges\<close>
  starts \<^verbatim>\<open>broadcastBLSChanges\<close> with the context of its own span, which derives from the
  context of the request, and the loop returns when that context is done. For a request
  with 129 valid changes the handler starts the loop with all of them; the first round
  broadcasts 128 and creates the ticker; when the request's context is cancelled the loop
  returns with the last change still queued, and it is never broadcast although the ticker
  fires afterwards. Had the context not been cancelled, the tick would have broadcast it.
\<close>

theorem request_cancellation_drops_change:
  "SubmitBLSToExecutionChanges (example_bls_env (\<lambda>t. Inr example_capella))
       (example_request (Body_Json (replicate 129 7))) =
     concat (replicate 129
        [Feed_Send (BLSToExecutionChangeReceived (example_change 7)),
         BLSChangesPool_InsertBLSToExecChange (example_change 7)])
     @ [go_broadcastBLSChanges example_span (replicate 129 (Some (example_change 7)))] \<and>
   Context (example_request (Body_Json (replicate 129 (7::nat)))) = WithCancel Background 1 \<and>
   broadcastBLSChanges (example_bls_env (\<lambda>t. Inr example_capella)) example_span
       (replicate 129 (Some (example_change 7))) [Cancelled (WithCancel Background 1), Tick] =
     (replicate 128 (Broadcaster_Broadcast (Msg_BLSChange (example_change 7)))
        @ [time_NewTicker 500],
      [Some (example_change 7)], Returned) \<and>
   broadcastBLSChanges (example_bls_env (\<lambda>t. Inr example_capella)) example_span
       (replicate 129 (Some (example_change 7))) [Tick] =
     (replicate 128 (Broadcaster_Broadcast (Msg_BLSChange (example_change 7)))
        @ [time_NewTicker 500, Broadcaster_Broadcast (Msg_BLSChange (example_change 7))],
      [], Returned)"
  using example_Submit_129 example_129_cancelled example_129_tick
  by (simp add: example_request_def del: replicate.simps)

subsection \<open>C5: a round of the deferred loop\<close>

text \<open>
  Claim C5, as stated, says that every round removes exactly min(128, remaining) changes
  from the batch. It fails on the code in a round that cannot read the head state:
  \<^verbatim>\<open>broadcastBLSBatch\<close> returns before it shortens the slice, so nothing is broadcast and
  nothing is removed.
\<close>

theorem round_without_head_state_counterexample:
  "broadcastBLSBatch (example_bls_env example_head_down) 1 [Some (example_change 7)] =
     ([], [Some (example_change 7)]) \<and>
   length [Some (example_change 7)] \<noteq>
     length [Some (example_change 7)] - min 128 (length [Some (example_change 7)])"
  by (simp add: broadcastBLSBatch_def example_bls_env_def example_head_down_def)

text \<open>
  Claim C5, amended: a round that cannot read the head state broadcasts nothing and leaves
  the batch as it is. A round that reads the head state looks at the first 128 changes of
  the batch, broadcasts those that are not nil and pass re-validation against that state,
  at most 128, and removes exactly min(128, remaining) changes from the batch, broadcast
  or not. The loop calls only the broadcaster and creates a ticker of 500 ms; it never
  touches the pool. After the first round, if changes remain, the loop creates the ticker
  and waits; each further round takes one tick, so the broadcasts number at most 128
  times one more than the ticks. The loop returns only with an empty batch or after a
  cancellation of its context.
\<close>

theorem rebroadcast_round:
  "(HeadStateReadOnly env t = Inl err \<longrightarrow> broadcastBLSBatch env t ptr = ([], ptr)) \<and>
   (HeadStateReadOnly env t = Inr st \<longrightarrow>
      fst (broadcastBLSBatch env t ptr) =
        map (Broadcaster_Broadcast \<circ> Msg_BLSChange)
          (filter (\<lambda>c. ValidateBLSToExecutionChange env st c = None)
             (List.map_filter id (take 128 ptr))) \<and>
      length (fst (broadcastBLSBatch env t ptr)) \<le> 128 \<and>
      snd (broadcastBLSBatch env t ptr) = drop 128 ptr \<and>
      length (snd (broadcastBLSBatch env t ptr)) = length ptr - min 128 (length ptr)) \<and>
   (\<forall>e \<in> set (fst (broadcastBLSChanges env ctx changes sched)).
      step_of e = Broadcasts \<or> e = time_NewTicker 500) \<and>
   length (filter (\<lambda>e. step_of e = Broadcasts) (fst (broadcastBLSChanges env ctx changes sched)))
     \<le> 128 * (1 + length (filter (\<lambda>ev. ev = Tick) sched)) \<and>
   (snd (broadcastBLSBatch env 1 changes) \<noteq> [] \<longrightarrow>
      broadcastBLSChanges env ctx changes [] =
        (fst (broadcastBLSBatch env 1 changes) @ [time_NewTicker 500],
         snd (broadcastBLSBatch env 1 changes), Blocked)) \<and>
   (snd (snd (broadcastBLSChanges env ctx changes sched)) = Returned \<longrightarrow>
      fst (snd (broadcastBLSChanges env ctx changes sched)) = [] \<or>
      (\<exists>ev \<in> set sched. is_cancel_of ctx ev))"
proof (intro conjI impI ballI)
  assume "HeadStateReadOnly env t = Inl err"
  then show "broadcastBLSBatch env t ptr = ([], ptr)" by (rule batch_Inl)
next
  assume h: "HeadStateReadOnly env t = Inr st"
  show "fst (broadcastBLSBatch env t ptr) =
        map (Broadcaster_Broadcast \<circ> Msg_BLSChange)
          (filter (\<lambda>c. ValidateBLSToExecutionChange env st c = None)
             (List.map_filter id (take 128 ptr)))"
    by (simp add: batch_Inr[OF h])
  show "length (fst (broadcastBLSBatch env t ptr)) \<le> 128" by (rule batch_length)
  show "snd (broadcastBLSBatch env t ptr) = drop 128 ptr" by (simp add: batch_Inr[OF h])
  show "length (snd (broadcastBLSBatch env t ptr)) = length ptr - min 128 (length ptr)"
    by (simp add: batch_Inr[OF h])
next
  fix e
  assume "e \<in> set (fst (broadcastBLSChanges env ctx changes sched))"
  then have "e \<in> set (fst (broadcastBLSBatch env 1 changes)) \<or> e = time_NewTicker 500 \<or>
             e \<in> set (fst (broadcastBLSChanges_loop env ctx 2
                              (snd (broadcastBLSBatch env 1 changes)) sched))"
    by (auto simp: broadcastBLSChanges_def split_beta Let_def ticker_period_ms_def
             split: if_splits)
  then show "step_of e = Broadcasts \<or> e = time_NewTicker 500"
    using batch_step loop_step by blast
next
  let ?b = "broadcastBLSBatch env 1 changes"
  let ?l = "broadcastBLSChanges_loop env ctx 2 (snd ?b) sched"
  have 1: "length (fst ?b) \<le> 128" by (rule batch_length)
  have 2: "length (fst ?l) \<le> 128 * length (filter (\<lambda>ev. ev = Tick) sched)" by (rule loop_bound)
  have "filter (\<lambda>e. step_of e = Broadcasts) (fst (broadcastBLSChanges env ctx changes sched)) =
          filter (\<lambda>e. step_of e = Broadcasts) (fst ?b)
            @ (if snd ?b = [] then [] else filter (\<lambda>e. step_of e = Broadcasts) (fst ?l))"
    by (simp add: broadcastBLSChanges_def split_beta Let_def)
  then have "length (filter (\<lambda>e. step_of e = Broadcasts)
               (fst (broadcastBLSChanges env ctx changes sched)))
             \<le> length (filter (\<lambda>e. step_of e = Broadcasts) (fst ?b))
               + length (filter (\<lambda>e. step_of e = Broadcasts) (fst ?l))"
    by simp
  also have "\<dots> \<le> length (fst ?b) + length (fst ?l)"
    by (intro add_mono length_filter_le)
  finally have "length (filter (\<lambda>e. step_of e = Broadcasts)
          (fst (broadcastBLSChanges env ctx changes sched))) \<le> length (fst ?b) + length (fst ?l)" .
  with 1 2 show "length (filter (\<lambda>e. step_of e = Broadcasts)
                   (fst (broadcastBLSChanges env ctx changes sched)))
                 \<le> 128 * (1 + length (filter (\<lambda>ev. ev = Tick) sched))"
    by (simp add: algebra_simps)
next
  assume "snd (broadcastBLSBatch env 1 changes) \<noteq> []"
  then show "broadcastBLSChanges env ctx changes [] =
        (fst (broadcastBLSBatch env 1 changes) @ [time_NewTicker 500],
         snd (broadcastBLSBatch env 1 changes), Blocked)"
    by (simp add: broadcastBLSChanges_def split_beta Let_def ticker_period_ms_def)
next
  assume r: "snd (snd (broadcastBLSChanges env ctx changes sched)) = Returned"
  show "fst (snd (broadcastBLSChanges env ctx changes sched)) = [] \<or>
        (\<exists>ev \<in> set sched. is_cancel_of ctx ev)"
  proof (cases "snd (broadcastBLSBatch env 1 changes) = []")
    case True
    then show ?thesis by (simp add: broadcastBLSChanges_def split_beta Let_def)
  next
    case False
    with r have "snd (snd (broadcastBLSChanges_loop env ctx 2
                   (snd (broadcastBLSBatch env 1 changes)) sched)) = Returned"
      by (simp add: broadcastBLSChanges_def split_beta Let_def)
    from loop_returned[OF this] False show ?thesis
      by (simp add: broadcastBLSChanges_def split_beta Let_def)
  qed
qed

text \<open>
  Witness for C5: a round without head state; a round over a valid change, a nil pointer
  and a change that fails re-validation; the loop over 129 changes.
\<close>

theorem rebroadcast_round_witness:
  "HeadStateReadOnly (example_bls_env example_head_down) 1 = Inl ''head state unavailable'' \<and>
   broadcastBLSBatch (example_bls_env example_head_down) 1 [Some (example_change 7)] =
     ([], [Some (example_change 7)]) \<and>
   HeadStateReadOnly (example_bls_env (\<lambda>t. Inr example_capella)) 1 = Inr example_capella \<and>
   fst (broadcastBLSBatch (example_bls_env (\<lambda>t. Inr example_capella)) 1
          [Some (example_change 7), None, Some (example_change 13)]) =
     map (Broadcaster_Broadcast \<circ> Msg_BLSChange)
       (filter (\<lambda>c. ValidateBLSToExecutionChange (example_bls_env (\<lambda>t. Inr example_capella))
                      example_capella c = None)
          (List.map_filter id (take 128 [Some (example_change 7), None, Some (example_change 13)]))) \<and>
   fst (broadcastBLSBatch (example_bls_env (\<lambda>t. Inr example_capella)) 1
          [Some (example_change 7), None, Some (example_change 13)]) =
     [Broadcaster_Broadcast (Msg_BLSChange (example_change 7))] \<and>
   snd (broadcastBLSBatch (example_bls_env (\<lambda>t. Inr example_capella)) 1
          [Some (example_change 7), None, Some (example_change 13)]) =
     drop 128 [Some (example_change 7), None, Some (example_change 13)] \<and>
   time_NewTicker 500 \<in> set (fst (broadcastBLSChanges (example_bls_env (\<lambda>t. Inr example_capella))
       example_span (replicate 129 (Some (example_change 7))) [Tick])) \<and>
   (step_of (time_NewTicker 500) = Broadcasts \<or> time_NewTicker 500 = time_NewTicker 500) \<and>
   length (filter (\<lambda>e. step_of e = Broadcasts)
     (fst (broadcastBLSChanges (example_bls_env (\<lambda>t. Inr example_capella)) example_span
            (replicate 129 (Some (example_change 7))) [Tick])))
     \<le> 128 * (1 + length (filter (\<lambda>ev. ev = Tick) [Tick])) \<and>
   snd (broadcastBLSBatch (example_bls_env (\<lambda>t. Inr example_capella)) 1
          (replicate 129 (Some (example_change 7)))) \<noteq> [] \<and>
   broadcastBLSChanges (example_bls_env (\<lambda>t. Inr example_capella)) example_span
       (replicate 129 (Some (example_change 7))) [] =
     (fst (broadcastBLSBatch (example_bls_env (\<lambda>t. Inr example_capella)) 1
             (replicate 129 (Some (example_change 7)))) @ [time_NewTicker 500],
      snd (broadcastBLSBatch (example_bls_env (\<lambda>t. Inr example_capella)) 1
             (replicate 129 (Some (example_change 7)))), Blocked) \<and>
   snd (snd (broadcastBLSChanges (example_bls_env (\<lambda>t. Inr example_capella)) example_span
       (replicate 129 (Some (example_change 7))) [Tick])) = Returned \<and>
   (fst (snd (broadcastBLSChanges (example_bls_env (\<lambda>t. Inr example_capella)) example_span
       (replicate 129 (Some (example_change 7))) [Tick])) = [] \<or>
    (\<exists>ev \<in> set [Tick]. is_cancel_of example_span ev))"
proof -
  let ?down = "example_bls_env example_head_down"
  let ?up = "example_bls_env (\<lambda>t. Inr example_capella)"
  let ?mixed = "[Some (example_change 7), None, Some (example_change 13)]"
  let ?many = "replicate 129 (Some (example_change 7))"
  have h1: "HeadStateReadOnly ?down 1 = Inl ''head state unavailable''"
    by (simp add: example_bls_env_def example_head_down_def)
  have h2: "HeadStateReadOnly ?up 1 = Inr example_capella"
    by (simp add: example_bls_env_def)
  have m: "time_NewTicker 500 \<in> set (fst (broadcastBLSChanges ?up example_span ?many [Tick]))"
    unfolding example_129_tick by simp
  have n: "snd (broadcastBLSBatch ?up 1 ?many) \<noteq> []"
    unfolding example_first_round_129 by simp
  have r: "snd (snd (broadcastBLSChanges ?up example_span ?many [Tick])) = Returned"
    unfolding example_129_tick by simp
  note D = rebroadcast_round[of ?down 1 "''head state unavailable''" "[Some (example_change 7)]"]
  note U = rebroadcast_round[of ?up 1 _ ?mixed example_capella example_span ?many "[Tick]"]
  note V = rebroadcast_round[of ?up 1 _ ?mixed example_capella example_span ?many "[]"]
  from D[THEN conjunct1, rule_format, OF h1]
  have 1: "broadcastBLSBatch ?down 1 [Some (example_change 7)] = ([], [Some (example_change 7)])" .
  from U[THEN conjunct2, THEN conjunct1, rule_format, OF h2]
  have 2: "fst (broadcastBLSBatch ?up 1 ?mixed) =
     map (Broadcaster_Broadcast \<circ> Msg_BLSChange)
       (filter (\<lambda>c. ValidateBLSToExecutionChange ?up example_capella c = None)
          (List.map_filter id (take 128 ?mixed)))"
    and 3: "snd (broadcastBLSBatch ?up 1 ?mixed) = drop 128 ?mixed"
    by blast+
  from U[THEN conjunct2, THEN conjunct2, THEN conjunct1, rule_format, OF m]
  have 4: "step_of (time_NewTicker 500) = Broadcasts \<or> time_NewTicker 500 = time_NewTicker 500" .
  from U[THEN conjunct2, THEN conjunct2, THEN conjunct2, THEN conjunct1]
  have 5: "length (filter (\<lambda>e. step_of e = Broadcasts)
     (fst (broadcastBLSChanges ?up example_span ?many [Tick])))
     \<le> 128 * (1 + length (filter (\<lambda>ev. ev = Tick) [Tick]))" .
  from V[THEN conjunct2, THEN conjunct2, THEN conjunct2, THEN conjunct2, THEN conjunct1,
         rule_format, OF n]
  have 6: "broadcastBLSChanges ?up example_span ?many [] =
     (fst (broadcastBLSBatch ?up 1 ?many) @ [time_NewTicker 500],
      snd (broadcastBLSBatch ?up 1 ?many), Blocked)" .
  from U[THEN conjunct2, THEN conjunct2, THEN conjunct2, THEN conjunct2, THEN conjunct2,
         rule_format, OF r]
  have 7: "fst (snd (broadcastBLSChanges ?up example_span ?many [Tick])) = [] \<or>
    (\<exists>ev \<in> set [Tick]. is_cancel_of example_span ev)" .
  have 8: "fst (broadcastBLSBatch ?up 1 ?mixed) =
     [Broadcaster_Broadcast (Msg_BLSChange (example_change 7))]"
    unfolding example_round_mixed by simp
  from h1 1 h2 2 8 3 m 4 5 n 6 r 7 show ?thesis by blast
qed

subsection \<open>C6: broadcast failures take priority in the response\<close>

text \<open>
  Claim C6, as stated, says that every batch with per-index validation failures and
  broadcast failures is answered with the 500 that lists the failed broadcasts. It fails
  on the code for an Electra batch: after an item was rejected by the first loop and a
  broadcast failed, \<^verbatim>\<open>GetCommitteeIndex\<close> fails for a later attestation,
  \<^verbatim>\<open>handleAttestationsElectra\<close> returns that error, and \<^verbatim>\<open>SubmitAttestationsV2\<close> answers
  400 with \<open>Failed to handle attestations\<close>; neither list is reported.
\<close>

theorem committee_index_abort_counterexample:
  "phaseA_electra example_env_committee 0 = None \<and>
   BroadcastAttestation example_env_committee 0 0 (Att_Electra (example_att_electra 2))
     = Some ''no peers'' \<and>
   SubmitAttestationsV2 example_env_committee
       (example_request_version ''electra'' (Body_Json (Raw_Array [0, 2, 9]))) =
     [Feed_Send (UnaggregatedAttReceived (Att_Electra (example_att_electra 2))),
      Broadcaster_BroadcastAttestation 0 (Att_Electra (example_att_electra 2)),
      Feed_Send (UnaggregatedAttReceived (Att_Electra (example_att_electra 9))),
      httputil_HandleError
        ''Failed to handle attestations: failed to retrieve attestation committee index: exactly 1 committee index must be set''
        400]"
  using example_SubmitAttestationsV2_abort
  by (simp add: phaseA_electra_def example_env_committee_def example_env_def)

text \<open>
  Claim C6, amended. When the handler of the batch returns its two lists and \<open>attFailures\<close>
  is not empty, \<^verbatim>\<open>SubmitAttestations\<close> and \<^verbatim>\<open>SubmitAttestationsV2\<close> answer with a 500 that
  lists \<open>failedBroadcasts\<close> if a broadcast failed, and with the 400 that lists the
  validation failures only when no broadcast failed; the response is the only write to the
  response, after all other effects. When the handler returns an error instead, as
  \<^verbatim>\<open>handleAttestationsElectra\<close> does when \<^verbatim>\<open>GetCommitteeIndex\<close> fails, the answer is a 400
  with the text of that error (prefixed by \<open>Failed to handle attestations: \<close> in
  \<^verbatim>\<open>SubmitAttestationsV2\<close>), whatever failures were recorded before.
\<close>

theorem broadcast_failures_take_priority:
  assumes "Body r = Body_Json data" and "attFailures \<noteq> []"
  shows "(handleAttestations env data = (Inr (attFailures, failedBroadcasts), effs) \<longrightarrow>
            (\<forall>e \<in> set effs. \<not> is_response e) \<and>
            SubmitAttestations env r =
              effs @ [if failedBroadcasts \<noteq> [] then
                        httputil_HandleError
                          (''Attestations at index '' @ Join failedBroadcasts '', ''
                             @ '' could not be broadcasted'') 500
                      else
                        httputil_WriteError
                          \<lparr>Code = 400, ErrorMessage = ''One or more attestations failed validation'',
                           Failures = attFailures\<rparr>]) \<and>
         (Get (Headers r) api_VersionHeader \<noteq> [] \<and>
          version_FromString (Get (Headers r) api_VersionHeader) = Inr v \<and>
          (if v \<ge> version_Electra then handleAttestationsElectra env data
           else handleAttestations env data) = (Inr (attFailures, failedBroadcasts), effs) \<longrightarrow>
            (\<forall>e \<in> set effs. \<not> is_response e) \<and>
            SubmitAttestationsV2 env r =
              effs @ [if failedBroadcasts \<noteq> [] then
                        httputil_HandleError
                          (''Attestations at index '' @ Join failedBroadcasts '', ''
                             @ '' could not be broadcasted'') 500
                      else
                        httputil_WriteError
                          \<lparr>Code = 400, ErrorMessage = ''One or more attestations failed validation'',
                           Failures = attFailures\<rparr>]) \<and>
         (Get (Headers r) api_VersionHeader \<noteq> [] \<and>
          version_FromString (Get (Headers r) api_VersionHeader) = Inr v \<and>
          (if v \<ge> version_Electra then handleAttestationsElectra env data
           else handleAttestations env data) = (Inl err, effs') \<longrightarrow>
            SubmitAttestationsV2 env r =
              effs' @ [httputil_HandleError (''Failed to handle attestations: '' @ err) 400]) \<and>
         (handleAttestations env data = (Inl err', effs'') \<longrightarrow>
            SubmitAttestations env r = effs'' @ [httputil_HandleError err' 400])"
  using priority_response[OF assms, of env failedBroadcasts effs v]
    SubmitAttestationsV2_abort[OF assms(1), of v env err effs']
    SubmitAttestations_abort[OF assms(1), of env err' effs'']
  by blast

text \<open>
  Witness for C6: a batch with a malformed item and a failed broadcast, through the V1
  handler and through the V2 handler with the version header \<open>electra\<close>; the Electra batch
  whose last attestation has no committee index; and the empty batch.
\<close>

theorem broadcast_failures_take_priority_witness:
  "SubmitAttestations example_env (example_request (Body_Json (Raw_Array [0, 1, 2]))) =
     [Feed_Send (UnaggregatedAttReceived (Att_Phase0 (example_att 1))),
      Broadcaster_BroadcastAttestation 0 (Att_Phase0 (example_att 1)),
      Feed_Send (UnaggregatedAttReceived (Att_Phase0 (example_att 2))),
      Broadcaster_BroadcastAttestation 0 (Att_Phase0 (example_att 2)),
      AttestationsPool_SaveUnaggregatedAttestation (Att_Phase0 (example_att 2)),
      httputil_HandleError ''Attestations at index 0 could not be broadcasted'' 500] \<and>
   SubmitAttestationsV2 example_env
       (example_request_version ''electra'' (Body_Json (Raw_Array [0, 1, 2]))) =
     [Feed_Send (UnaggregatedAttReceived (Att_Electra (example_att_electra 1))),
      Broadcaster_BroadcastAttestation 0 (Att_Electra (example_att_electra 1)),
      Feed_Send (UnaggregatedAttReceived (Att_Electra (example_att_electra 2))),
      Broadcaster_BroadcastAttestation 0 (Att_Electra (example_att_electra 2)),
      AttestationsPool_SaveUnaggregatedAttestation (Att_Electra (example_att_electra 2)),
      httputil_HandleError ''Attestations at index 0 could not be broadcasted'' 500] \<and>
   SubmitAttestationsV2 example_env_committee
       (example_request_version ''electra'' (Body_Json (Raw_Array [0, 2, 9]))) =
     [Feed_Send (UnaggregatedAttReceived (Att_Electra (example_att_electra 2))),
      Broadcaster_BroadcastAttestation 0 (Att_Electra (example_att_electra 2)),
      Feed_Send (UnaggregatedAttReceived (Att_Electra (example_att_electra 9)))]
     @ [httputil_HandleError
          (''Failed to handle attestations: '' @
           ''failed to retrieve attestation committee index: exactly 1 committee index must be set'')
          400] \<and>
   SubmitAttestations example_env (example_request (Body_Json (Raw_Array []))) =
     [] @ [httputil_HandleError ''no data submitted'' 400]"
proof -
  let ?failures = "[\<lparr>Index = 0,
      Message = ''Could not convert request attestation to consensus attestation: invalid''\<rparr>]"
  have b1: "Body (example_request (Body_Json (Raw_Array [0, 1, 2::nat])))
              = Body_Json (Raw_Array [0, 1, 2])"
    by (simp add: example_request_def)
  have b2: "Body (example_request_version ''electra'' (Body_Json (Raw_Array [0, 1, 2::nat])))
              = Body_Json (Raw_Array [0, 1, 2])"
    by (simp add: example_request_version_def)
  have b3: "Body (example_request_version ''electra'' (Body_Json (Raw_Array [0, 2, 9::nat])))
              = Body_Json (Raw_Array [0, 2, 9])"
    by (simp add: example_request_version_def)
  have b4: "Body (example_request (Body_Json (Raw_Array ([]::nat list))))
              = Body_Json (Raw_Array [])"
    by (simp add: example_request_def)
  have ne: "?failures \<noteq> []" by simp
  have v: "Get (Headers (example_request_version ''electra'' (Body_Json (Raw_Array [0, 1, 2::nat]))))
             api_VersionHeader \<noteq> [] \<and>
           version_FromString
             (Get (Headers (example_request_version ''electra'' (Body_Json (Raw_Array [0, 1, 2::nat]))))
                api_VersionHeader) = Inr 5 \<and>
           (if 5 \<ge> version_Electra then handleAttestationsElectra example_env (Raw_Array [0, 1, 2])
            else handleAttestations example_env (Raw_Array [0, 1, 2])) =
             (Inr (?failures, [''0'']),
              [Feed_Send (UnaggregatedAttReceived (Att_Electra (example_att_electra 1))),
               Broadcaster_BroadcastAttestation 0 (Att_Electra (example_att_electra 1)),
               Feed_Send (UnaggregatedAttReceived (Att_Electra (example_att_electra 2))),
               Broadcaster_BroadcastAttestation 0 (Att_Electra (example_att_electra 2)),
               AttestationsPool_SaveUnaggregatedAttestation (Att_Electra (example_att_electra 2))])"
    unfolding version_Electra_def using example_handleAttestationsElectra
    by (simp add: example_request_version_def Get_def version_FromString_electra)
  have a: "Get (Headers (example_request_version ''electra'' (Body_Json (Raw_Array [0, 2, 9::nat]))))
             api_VersionHeader \<noteq> [] \<and>
           version_FromString
             (Get (Headers (example_request_version ''electra'' (Body_Json (Raw_Array [0, 2, 9::nat]))))
                api_VersionHeader) = Inr 5 \<and>
           (if 5 \<ge> version_Electra
            then handleAttestationsElectra example_env_committee (Raw_Array [0, 2, 9])
            else handleAttestations example_env_committee (Raw_Array [0, 2, 9])) =
             (Inl ''failed to retrieve attestation committee index: exactly 1 committee index must be set'',
              [Feed_Send (UnaggregatedAttReceived (Att_Electra (example_att_electra 2))),
               Broadcaster_BroadcastAttestation 0 (Att_Electra (example_att_electra 2)),
               Feed_Send (UnaggregatedAttReceived (Att_Electra (example_att_electra 9)))])"
    unfolding version_Electra_def using example_handleAttestationsElectra_abort
    by (simp add: example_request_version_def Get_def version_FromString_electra)
  from broadcast_failures_take_priority[OF b1 ne, of example_env "[''0'']" _ 5, THEN conjunct1,
         rule_format, OF example_handleAttestations]
  have 1: "SubmitAttestations example_env (example_request (Body_Json (Raw_Array [0, 1, 2]))) =
     [Feed_Send (UnaggregatedAttReceived (Att_Phase0 (example_att 1))),
      Broadcaster_BroadcastAttestation 0 (Att_Phase0 (example_att 1)),
      Feed_Send (UnaggregatedAttReceived (Att_Phase0 (example_att 2))),
      Broadcaster_BroadcastAttestation 0 (Att_Phase0 (example_att 2)),
      AttestationsPool_SaveUnaggregatedAttestation (Att_Phase0 (example_att 2)),
      httputil_HandleError ''Attestations at index 0 could not be broadcasted'' 500]"
    by simp
  from broadcast_failures_take_priority[OF b2 ne, of example_env "[''0'']" _ 5, THEN conjunct2,
         THEN conjunct1, rule_format, OF v]
  have 2: "SubmitAttestationsV2 example_env
       (example_request_version ''electra'' (Body_Json (Raw_Array [0, 1, 2]))) =
     [Feed_Send (UnaggregatedAttReceived (Att_Electra (example_att_electra 1))),
      Broadcaster_BroadcastAttestation 0 (Att_Electra (example_att_electra 1)),
      Feed_Send (UnaggregatedAttReceived (Att_Electra (example_att_electra 2))),
      Broadcaster_BroadcastAttestation 0 (Att_Electra (example_att_electra 2)),
      AttestationsPool_SaveUnaggregatedAttestation (Att_Electra (example_att_electra 2)),
      httputil_HandleError ''Attestations at index 0 could not be broadcasted'' 500]"
    by simp
  from broadcast_failures_take_priority[OF b3 ne, of example_env_committee _ _ 5, THEN conjunct2,
         THEN conjunct2, THEN conjunct1, rule_format, OF a]
  have 3: "SubmitAttestationsV2 example_env_committee
       (example_request_version ''electra'' (Body_Json (Raw_Array [0, 2, 9]))) =
     [Feed_Send (UnaggregatedAttReceived (Att_Electra (example_att_electra 2))),
      Broadcaster_BroadcastAttestation 0 (Att_Electra (example_att_electra 2)),
      Feed_Send (UnaggregatedAttReceived (Att_Electra (example_att_electra 9)))]
     @ [httputil_HandleError
          (''Failed to handle attestations: '' @
           ''failed to retrieve attestation committee index: exactly 1 committee index must be set'')
          400]" .
  from broadcast_failures_take_priority[OF b4 ne, where env = example_env
         and err' = "''no data submitted''" and effs'' = "[]",
         THEN conjunct2, THEN conjunct2, THEN conjunct2, rule_format,
         OF example_handleAttestations_empty]
  have 4: "SubmitAttestations example_env (example_request (Body_Json (Raw_Array []))) =
     [] @ [httputil_HandleError ''no data submitted'' 400]" .
  from 1 2 3 4 show ?thesis by blast
qed

subsection \<open>C7: the fork gate of BLS-to-execution changes\<close>

text \<open>
  Claim C7, as stated, says that a submitted change is broadcast if and only if the head
  state is at Capella or later at the moment of broadcast. It fails on the code: the gate
  is applied by the handler, to the head state it read before validating. A valid change
  submitted while the head is at Bellatrix is left out of the batch; when the loop runs,
  the head is at Capella and the change is still valid, and it is not broadcast.
\<close>

theorem fork_gate_counterexample:
  "SubmitBLSToExecutionChanges (example_bls_env example_head_fork)
       (example_request (Body_Json [7])) =
     [Feed_Send (BLSToExecutionChangeReceived (example_change 7)),
      BLSChangesPool_InsertBLSToExecChange (example_change 7),
      go_broadcastBLSChanges example_span []] \<and>
   HeadStateReadOnly (example_bls_env example_head_fork) 1 = Inr example_capella \<and>
   version_Capella \<le> Version example_capella \<and>
   ValidateBLSToExecutionChange (example_bls_env example_head_fork) example_capella
     (example_change 7) = None \<and>
   broadcastBLSChanges (example_bls_env example_head_fork) example_span [] [Tick, Tick] =
     ([], [], Returned)"
  using example_Submit_fork
  by (simp add: broadcastBLSChanges_Nil example_bls_env_def example_head_fork_def
        example_capella_def version_Capella_def example_change_def)

text \<open>
  Claim C7, amended: the fork gate is applied at submission. The handler publishes and
  inserts every accepted change, and hands to the deferred loop all the accepted changes
  when the head state it read is at Capella or later, and none otherwise; so a valid
  change submitted below Capella is never handed to the broadcaster. In a round of the
  loop the fork of the head state is not consulted: a change of the batch is broadcast
  when it is among the first 128, is not nil and passes re-validation against the head
  state of that round.
\<close>

theorem fork_gate_at_submission:
  assumes "HeadStateReadOnly env 0 = Inr st" and "Body r = Body_Json req" and "req \<noteq> []"
  shows "(\<exists>resp. SubmitBLSToExecutionChanges env r =
            concat (map (\<lambda>c. [Feed_Send (BLSToExecutionChangeReceived c),
                               BLSChangesPool_InsertBLSToExecChange c])
                      (List.map_filter (bls_accept env st) req))
            @ [go_broadcastBLSChanges
                 (StartSpan (Context r) ''beacon.SubmitBLSToExecutionChanges'')
                 (if Version st \<ge> version_Capella
                  then map Some (List.map_filter (bls_accept env st) req) else [])]
            @ resp \<and> (\<forall>e \<in> set resp. step_of e = Respond)) \<and>
         (Version st < version_Capella \<longrightarrow>
            (\<forall>ctx changes.
               go_broadcastBLSChanges ctx changes \<in> set (SubmitBLSToExecutionChanges env r) \<longrightarrow>
               changes = [] \<and> broadcastBLSChanges env ctx changes sched = ([], [], Returned))) \<and>
         (HeadStateReadOnly env t = Inr st' \<longrightarrow>
            fst (broadcastBLSBatch env t ptr) =
              map (Broadcaster_Broadcast \<circ> Msg_BLSChange)
                (filter (\<lambda>c. ValidateBLSToExecutionChange env st' c = None)
                   (List.map_filter id (take 128 ptr))))"
proof (intro conjI impI allI)
  let ?resp = "if fst (SubmitBLSToExecutionChanges_loop env st 0 req) \<noteq> [] then
          [httputil_WriteError
             \<lparr>Code = 400, ErrorMessage = ''One or more BLSToExecutionChange failed validation'',
              Failures = fst (SubmitBLSToExecutionChanges_loop env st 0 req)\<rparr>]
        else []"
  have "\<forall>e \<in> set ?resp. step_of e = Respond" by simp
  with SubmitBLSToExecutionChanges_trace[OF assms]
  show "\<exists>resp. SubmitBLSToExecutionChanges env r =
            concat (map (\<lambda>c. [Feed_Send (BLSToExecutionChangeReceived c),
                               BLSChangesPool_InsertBLSToExecChange c])
                      (List.map_filter (bls_accept env st) req))
            @ [go_broadcastBLSChanges
                 (StartSpan (Context r) ''beacon.SubmitBLSToExecutionChanges'')
                 (if Version st \<ge> version_Capella
                  then map Some (List.map_filter (bls_accept env st) req) else [])]
            @ resp \<and> (\<forall>e \<in> set resp. step_of e = Respond)"
    by blast
next
  fix ctx changes
  assume v: "Version st < version_Capella"
    and g: "go_broadcastBLSChanges ctx changes \<in> set (SubmitBLSToExecutionChanges env r)"
  from g v show "changes = []"
    unfolding SubmitBLSToExecutionChanges_trace[OF assms] by (auto split: if_splits)
  then show "broadcastBLSChanges env ctx changes sched = ([], [], Returned)"
    by (simp add: broadcastBLSChanges_Nil)
next
  assume "HeadStateReadOnly env t = Inr st'"
  then show "fst (broadcastBLSBatch env t ptr) =
              map (Broadcaster_Broadcast \<circ> Msg_BLSChange)
                (filter (\<lambda>c. ValidateBLSToExecutionChange env st' c = None)
                   (List.map_filter id (take 128 ptr)))"
    by (simp add: batch_Inr)
qed

text \<open>
  Witness for C7: a valid change submitted while the head is at Bellatrix, and a round of
  the loop at Capella.
\<close>

theorem fork_gate_at_submission_witness:
  "HeadStateReadOnly (example_bls_env example_head_fork) 0 = Inr example_bellatrix \<and>
   Body (example_request (Body_Json [7::nat])) = Body_Json [7] \<and>
   Version example_bellatrix < version_Capella \<and>
   go_broadcastBLSChanges example_span []
     \<in> set (SubmitBLSToExecutionChanges (example_bls_env example_head_fork)
              (example_request (Body_Json [7]))) \<and>
   broadcastBLSChanges (example_bls_env example_head_fork) example_span [] [Tick] =
     ([], [], Returned) \<and>
   HeadStateReadOnly (example_bls_env example_head_fork) 1 = Inr example_capella \<and>
   fst (broadcastBLSBatch (example_bls_env example_head_fork) 1 [Some (example_change 7)]) =
     map (Broadcaster_Broadcast \<circ> Msg_BLSChange)
       (filter (\<lambda>c. ValidateBLSToExecutionChange (example_bls_env example_head_fork)
                      example_capella c = None)
          (List.map_filter id (take 128 [Some (example_change 7)])))"
proof -
  let ?env = "example_bls_env example_head_fork"
  let ?r = "example_request (Body_Json [7::nat])"
  have h0: "HeadStateReadOnly ?env 0 = Inr example_bellatrix"
    by (simp add: example_bls_env_def example_head_fork_def)
  have b: "Body ?r = Body_Json [7]" by (simp add: example_request_def)
  have n: "[7::nat] \<noteq> []" by simp
  have v: "Version example_bellatrix < version_Capella"
    by (simp add: example_bellatrix_def version_Capella_def)
  have g: "go_broadcastBLSChanges example_span [] \<in> set (SubmitBLSToExecutionChanges ?env ?r)"
    unfolding example_Submit_fork by simp
  have h1: "HeadStateReadOnly ?env 1 = Inr example_capella"
    by (simp add: example_bls_env_def example_head_fork_def)
  note T = fork_gate_at_submission[OF h0 b n, of "[Tick]" 1 example_capella
             "[Some (example_change 7)]"]
  from T[THEN conjunct2, THEN conjunct1, rule_format, OF v g]
  have 1: "broadcastBLSChanges ?env example_span [] [Tick] = ([], [], Returned)" by blast
  from T[THEN conjunct2, THEN conjunct2, rule_format, OF h1]
  have 2: "fst (broadcastBLSBatch ?env 1 [Some (example_change 7)]) =
     map (Broadcaster_Broadcast \<circ> Msg_BLSChange)
       (filter (\<lambda>c. ValidateBLSToExecutionChange ?env example_capella c = None)
          (List.map_filter id (take 128 [Some (example_change 7)])))" .
  from h0 b v g 1 h1 2 show ?thesis by blast
qed

subsection \<open>C8: one variant per V2 list response\<close>

text \<open>
  Claim C8: when \<^verbatim>\<open>ListAttestationsV2\<close> or \<^verbatim>\<open>GetAttesterSlashingsV2\<close> writes a JSON response,
  that response is its only write of a body, its version field names the fork of the head
  state, and every entry of its data is of the variant of that fork: the Electra variant
  from Electra on, the base variant before. When the pool holds an entry of the other
  variant, the handler answers with a 500 and nothing else.
\<close>

theorem v2_list_single_variant:
  "(httputil_WriteJson resp \<in> set (ListAttestationsV2 env r) \<longrightarrow>
      (\<exists>headState. ChainInfoFetcher_HeadStateReadOnly env = Inr headState \<and>
         RespVersion resp = version_String (Version headState) \<and>
         (\<forall>d \<in> set (RespData resp). struct_variant d = fork_variant (Version headState)) \<and>
         ListAttestationsV2 env r = [httputil_WriteJson resp])) \<and>
   (httputil_WriteJson resp' \<in> set (GetAttesterSlashingsV2 env r') \<longrightarrow>
      (\<exists>headState. ChainInfoFetcher_HeadStateReadOnly env = Inr headState \<and>
         RespVersion resp' = version_String (Version headState) \<and>
         (\<forall>d \<in> set (RespData resp'). struct_variant d = fork_variant (Version headState)) \<and>
         GetAttesterSlashingsV2 env r' =
           [Header_Set api_VersionHeader (version_String (Version headState)),
            httputil_WriteJson resp'])) \<and>
   (UintFromQuery env r ''slot'' = Inr a \<and> UintFromQuery env r ''committee_index'' = Inr b \<and>
    ChainInfoFetcher_HeadStateReadOnly env = Inr st \<and> UnaggregatedAttestations env = Inr unaggAtts \<and>
    (\<exists>att \<in> set (AggregatedAttestations env @ unaggAtts).
       Att_variant att \<noteq> fork_variant (Version st)) \<longrightarrow>
      (\<exists>msg. ListAttestationsV2 env r = [httputil_HandleError msg 500])) \<and>
   (ChainInfoFetcher_HeadStateReadOnly env = Inr st \<and>
    (\<exists>s \<in> set (PendingAttesterSlashings env st True).
       AttSlashing_variant s \<noteq> fork_variant (Version st)) \<longrightarrow>
      (\<exists>msg. GetAttesterSlashingsV2 env r' = [httputil_HandleError msg 500]))"
  using ListAttestationsV2_WriteJson[of resp env r]
    GetAttesterSlashingsV2_WriteJson[of resp' env r']
    ListAttestationsV2_wrong_variant[of env r a b st unaggAtts]
    GetAttesterSlashingsV2_wrong_variant[of env st r']
  by blast

text \<open>
  Witness for C8: with the head at Deneb, a pool of base attestations and slashings is
  listed under the version \<open>deneb\<close>; a pool that holds an Electra entry gives a 500.
\<close>

theorem v2_list_single_variant_witness:
  "httputil_WriteJson
     \<lparr>RespVersion = ''deneb'',
      RespData = [structs_Attestation (example_att 2), structs_Attestation (example_att 3)]\<rparr>
     \<in> set (ListAttestationsV2
              (example_list_env [Att_Phase0 (example_att 2), Att_Phase0 (example_att 3)]
                 [AttSlashing_Phase0 example_slashing])
              (example_request (Body_EOF :: nat body))) \<and>
   struct_variant (structs_Attestation (example_att 2)) = fork_variant (Version example_deneb) \<and>
   struct_variant (structs_Attestation (example_att 3)) = fork_variant (Version example_deneb) \<and>
   httputil_WriteJson
     \<lparr>RespVersion = ''deneb'', RespData = [structs_AttesterSlashing example_slashing]\<rparr>
     \<in> set (GetAttesterSlashingsV2
              (example_list_env [Att_Phase0 (example_att 2), Att_Phase0 (example_att 3)]
                 [AttSlashing_Phase0 example_slashing])
              (example_request (Body_EOF :: nat body))) \<and>
   struct_variant (structs_AttesterSlashing example_slashing)
     = fork_variant (Version example_deneb) \<and>
   Att_variant (Att_Electra (example_att_electra 3)) \<noteq> fork_variant (Version example_deneb) \<and>
   (\<exists>msg. ListAttestationsV2
            (example_list_env [Att_Phase0 (example_att 2), Att_Electra (example_att_electra 3)]
               [AttSlashing_Electra example_slashing_electra])
            (example_request (Body_EOF :: nat body)) = [httputil_HandleError msg 500]) \<and>
   AttSlashing_variant (AttSlashing_Electra example_slashing_electra)
     \<noteq> fork_variant (Version example_deneb) \<and>
   (\<exists>msg. GetAttesterSlashingsV2
            (example_list_env [Att_Phase0 (example_att 2), Att_Electra (example_att_electra 3)]
               [AttSlashing_Electra example_slashing_electra])
            (example_request (Body_EOF :: nat body)) = [httputil_HandleError msg 500])"
proof -
  let ?good = "example_list_env [Att_Phase0 (example_att 2), Att_Phase0 (example_att 3)]
                 [AttSlashing_Phase0 example_slashing]"
  let ?bad = "example_list_env [Att_Phase0 (example_att 2), Att_Electra (example_att_electra 3)]
                [AttSlashing_Electra example_slashing_electra]"
  let ?r = "example_request (Body_EOF :: nat body)"
  let ?resp = "\<lparr>RespVersion = ''deneb'',
      RespData = [structs_Attestation (example_att 2), structs_Attestation (example_att 3)]\<rparr>"
  let ?resp' = "\<lparr>RespVersion = ''deneb'', RespData = [structs_AttesterSlashing example_slashing]\<rparr>"
  have m: "httputil_WriteJson ?resp \<in> set (ListAttestationsV2 ?good ?r)"
    unfolding example_ListAttestationsV2 by simp
  have m': "httputil_WriteJson ?resp' \<in> set (GetAttesterSlashingsV2 ?good ?r)"
    unfolding example_GetAttesterSlashingsV2 by simp
  have hg: "ChainInfoFetcher_HeadStateReadOnly ?good = Inr example_deneb"
    by (simp add: example_list_env_def)
  have a: "Att_variant (Att_Electra (example_att_electra 3)) \<noteq> fork_variant (Version example_deneb)"
    by (simp add: fork_variant_def example_deneb_def version_Electra_def)
  have a': "AttSlashing_variant (AttSlashing_Electra example_slashing_electra)
              \<noteq> fork_variant (Version example_deneb)"
    by (simp add: fork_variant_def example_deneb_def version_Electra_def)
  have q: "UintFromQuery ?bad ?r ''slot'' = Inr ([], 0) \<and>
           UintFromQuery ?bad ?r ''committee_index'' = Inr ([], 0) \<and>
           ChainInfoFetcher_HeadStateReadOnly ?bad = Inr example_deneb \<and>
           UnaggregatedAttestations ?bad
             = Inr [Att_Phase0 (example_att 2), Att_Electra (example_att_electra 3)] \<and>
           (\<exists>att \<in> set (AggregatedAttestations ?bad
                           @ [Att_Phase0 (example_att 2), Att_Electra (example_att_electra 3)]).
              Att_variant att \<noteq> fork_variant (Version example_deneb))"
    using a by (simp add: UintFromQuery_def Get_def example_request_def example_list_env_def)
  have q': "ChainInfoFetcher_HeadStateReadOnly ?bad = Inr example_deneb \<and>
            (\<exists>s \<in> set (PendingAttesterSlashings ?bad example_deneb True).
               AttSlashing_variant s \<noteq> fork_variant (Version example_deneb))"
    using a' by (simp add: example_list_env_def)
  from v2_list_single_variant[of ?resp ?good ?r, THEN conjunct1, rule_format, OF m] hg
  have 1: "struct_variant (structs_Attestation (example_att 2))
             = fork_variant (Version example_deneb)"
    "struct_variant (structs_Attestation (example_att 3)) = fork_variant (Version example_deneb)"
    by auto
  from v2_list_single_variant[of _ ?good _ ?resp' ?r, THEN conjunct2, THEN conjunct1,
         rule_format, OF m'] hg
  have 2: "struct_variant (structs_AttesterSlashing example_slashing)
             = fork_variant (Version example_deneb)"
    by auto
  from v2_list_single_variant[of _ ?bad ?r _ ?r, THEN conjunct2, THEN conjunct2,
         THEN conjunct1, rule_format, OF q]
  have 3: "\<exists>msg. ListAttestationsV2 ?bad ?r = [httputil_HandleError msg 500]" .
  from v2_list_single_variant[of _ ?bad ?r _ ?r, THEN conjunct2, THEN conjunct2,
         THEN conjunct2, rule_format, OF q']
  have 4: "\<exists>msg. GetAttesterSlashingsV2 ?bad ?r = [httputil_HandleError msg 500]" .
  from m 1 m' 2 a 3 a' 4 show ?thesis by blast
qed

subsection \<open>C9: the empty batch\<close>

text \<open>
  Claim C9, as stated, says that the body \<^verbatim>\<open>[]\<close> is answered with a 400 whose message is
  \<^verbatim>\<open>No data submitted\<close>. It fails on the code: the body decodes, \<^verbatim>\<open>handleAttestations\<close>
  returns the error \<^verbatim>\<open>no data submitted\<close>, and the handler writes that text.
\<close>

theorem empty_batch_message_counterexample:
  "SubmitAttestations example_env (example_request (Body_Json (Raw_Array []))) =
     [httputil_HandleError ''no data submitted'' 400] \<and>
   SubmitAttestations example_env (example_request (Body_Json (Raw_Array []))) \<noteq>
     [httputil_HandleError ''No data submitted'' 400]"
  by (simp add: SubmitAttestations_def handleAttestations_def example_request_def
        StatusBadRequest_def)

text \<open>
  Claim C9, amended: a submission to \<^verbatim>\<open>SubmitAttestations\<close> whose body is the empty array
  has one effect only, a 400 with the message \<^verbatim>\<open>no data submitted\<close>: nothing reaches the
  pool, the feed or the broadcaster.
\<close>

theorem empty_batch_rejected:
  assumes "Body r = Body_Json (Raw_Array [])"
  shows "SubmitAttestations env r = [httputil_HandleError ''no data submitted'' 400]"
  using assms by (simp add: SubmitAttestations_def handleAttestations_def StatusBadRequest_def)

text \<open>Witness for C9.\<close>

theorem empty_batch_rejected_witness:
  "Body (example_request (Body_Json (Raw_Array []))) = Body_Json (Raw_Array []) \<and>
   SubmitAttestations example_env (example_request (Body_Json (Raw_Array []))) =
     [httputil_HandleError ''no data submitted'' 400]"
proof -
  have h: "Body (example_request (Body_Json (Raw_Array []))) = Body_Json (Raw_Array [])"
    by (simp add: example_request_def)
  show ?thesis
    using h empty_batch_rejected[OF h, of example_env] by simp
qed

subsection \<open>C10: the indices of the failed broadcasts\<close>

text \<open>
  Claim C10: the indices in \<open>failedBroadcasts\<close>, which the 500 message lists, are positions
  in the list of attestations kept by the first loop. The attestation at position \<open>j\<close> of
  that list comes from position \<open>k\<close> of the submitted batch, where \<open>k\<close> is \<open>j\<close> plus the
  number of items before \<open>k\<close> that the first loop rejected; so the reported index differs
  from the position in the submitted batch whenever a rejected item comes first. Whenever
  \<^verbatim>\<open>SubmitAttestations\<close> or \<^verbatim>\<open>SubmitAttestationsV2\<close> writes a 500, its message is
  \<open>Attestations at index \<close>, the positions among the kept attestations of those whose
  broadcast failed, joined by commas, and \<open> could not be broadcasted\<close>; for
  \<^verbatim>\<open>SubmitAttestationsV2\<close> the kept attestations and the failed broadcasts are those of the
  Electra loop when the version of the header is at least Electra. This 500 is written
  for every non-empty batch with a failed broadcast, provided, in the Electra loop, that
  \<^verbatim>\<open>GetCommitteeIndex\<close> succeeds for the kept attestations.
\<close>

theorem failed_index_is_position_among_kept:
  assumes "Body r = Body_Json (Raw_Array srcs)"
  shows "(handleAttestations env (Raw_Array srcs) = (Inr (attFailures, failedBroadcasts), effs) \<longrightarrow>
            failedBroadcasts =
              map (Itoa \<circ> fst) (filter (\<lambda>(j, att). \<not> broadcast_ok env j att)
                (enumerate 0 (map snd (kept (phaseA env) 0 srcs)))) \<and>
            (failedBroadcasts \<noteq> [] \<longrightarrow>
               SubmitAttestations env r =
                 effs @ [httputil_HandleError
                           (''Attestations at index '' @ Join failedBroadcasts '', ''
                              @ '' could not be broadcasted'') 500])) \<and>
         (handleAttestationsElectra env (Raw_Array srcs) =
            (Inr (attFailures', failedBroadcasts'), effs') \<longrightarrow>
            failedBroadcasts' =
              map (Itoa \<circ> fst) (filter (\<lambda>(j, att). \<not> broadcast_ok_electra env j att)
                (enumerate 0 (map snd (kept (phaseA_electra env) 0 srcs))))) \<and>
         (\<forall>j k att. j < length (kept (phaseA env) 0 srcs) \<and>
                    kept (phaseA env) 0 srcs ! j = (k, att) \<longrightarrow>
            k < length srcs \<and> phaseA env (srcs ! k) = Some att \<and>
            k = j + length (filter (\<lambda>s. phaseA env s = None) (take k srcs)) \<and>
            ((\<exists>s \<in> set (take k srcs). phaseA env s = None) \<longrightarrow> Itoa j \<noteq> Itoa k)) \<and>
         (\<forall>j k att. j < length (kept (phaseA_electra env) 0 srcs) \<and>
                    kept (phaseA_electra env) 0 srcs ! j = (k, att) \<longrightarrow>
            k < length srcs \<and> phaseA_electra env (srcs ! k) = Some att \<and>
            k = j + length (filter (\<lambda>s. phaseA_electra env s = None) (take k srcs)) \<and>
            ((\<exists>s \<in> set (take k srcs). phaseA_electra env s = None) \<longrightarrow> Itoa j \<noteq> Itoa k)) \<and>
         (httputil_HandleError msg 500 \<in> set (SubmitAttestations env r) \<longrightarrow>
            msg = ''Attestations at index '' @ Join (map (Itoa \<circ> fst) (filter (\<lambda>(j, att). \<not> broadcast_ok env j att)
                (enumerate 0 (map snd (kept (phaseA env) 0 srcs))))) '', '' @ '' could not be broadcasted'') \<and>
         (httputil_HandleError msg' 500 \<in> set (SubmitAttestationsV2 env r) \<longrightarrow>
            (\<exists>v. version_FromString (Get (Headers r) api_VersionHeader) = Inr v \<and>
               msg' = (if v \<ge> version_Electra
                       then ''Attestations at index '' @ Join (map (Itoa \<circ> fst) (filter (\<lambda>(j, att). \<not> broadcast_ok_electra env j att)
                (enumerate 0 (map snd (kept (phaseA_electra env) 0 srcs))))) '', '' @ '' could not be broadcasted''
                       else ''Attestations at index '' @ Join (map (Itoa \<circ> fst) (filter (\<lambda>(j, att). \<not> broadcast_ok env j att)
                (enumerate 0 (map snd (kept (phaseA env) 0 srcs))))) '', '' @ '' could not be broadcasted''))) \<and>
         (srcs \<noteq> [] \<and> map (Itoa \<circ> fst) (filter (\<lambda>(j, att). \<not> broadcast_ok env j att)
                (enumerate 0 (map snd (kept (phaseA env) 0 srcs)))) \<noteq> [] \<longrightarrow>
            SubmitAttestations env r =
              snd (handleAttestations env (Raw_Array srcs)) @
              [httputil_HandleError (''Attestations at index '' @ Join (map (Itoa \<circ> fst) (filter (\<lambda>(j, att). \<not> broadcast_ok env j att)
                (enumerate 0 (map snd (kept (phaseA env) 0 srcs))))) '', '' @ '' could not be broadcasted'') 500]) \<and>
         (Get (Headers r) api_VersionHeader \<noteq> [] \<and> version_FromString (Get (Headers r) api_VersionHeader) = Inr ver \<and>
          ver \<ge> version_Electra \<and> srcs \<noteq> [] \<and>
          (\<forall>att \<in> set (map snd (kept (phaseA_electra env) 0 srcs)).
             \<exists>committeeIndex. GetCommitteeIndex env att = Inr committeeIndex) \<and>
          map (Itoa \<circ> fst) (filter (\<lambda>(j, att). \<not> broadcast_ok_electra env j att)
                (enumerate 0 (map snd (kept (phaseA_electra env) 0 srcs)))) \<noteq> [] \<longrightarrow>
            SubmitAttestationsV2 env r =
              snd (handleAttestationsElectra env (Raw_Array srcs)) @
              [httputil_HandleError (''Attestations at index '' @ Join (map (Itoa \<circ> fst) (filter (\<lambda>(j, att). \<not> broadcast_ok_electra env j att)
                (enumerate 0 (map snd (kept (phaseA_electra env) 0 srcs))))) '', '' @ '' could not be broadcasted'') 500]) \<and>
         (Get (Headers r) api_VersionHeader \<noteq> [] \<and> version_FromString (Get (Headers r) api_VersionHeader) = Inr ver \<and>
          \<not> ver \<ge> version_Electra \<and> srcs \<noteq> [] \<and>
          map (Itoa \<circ> fst) (filter (\<lambda>(j, att). \<not> broadcast_ok env j att)
                (enumerate 0 (map snd (kept (phaseA env) 0 srcs)))) \<noteq> [] \<longrightarrow>
            SubmitAttestationsV2 env r =
              snd (handleAttestations env (Raw_Array srcs)) @
              [httputil_HandleError (''Attestations at index '' @ Join (map (Itoa \<circ> fst) (filter (\<lambda>(j, att). \<not> broadcast_ok env j att)
                (enumerate 0 (map snd (kept (phaseA env) 0 srcs))))) '', '' @ '' could not be broadcasted'') 500])"
proof -
  note old = failed_index_positions[OF assms, of env attFailures failedBroadcasts effs
               attFailures' failedBroadcasts' effs']
  have n1: "httputil_HandleError msg 500 \<in> set (SubmitAttestations env r) \<longrightarrow>
            msg = ''Attestations at index '' @ Join (map (Itoa \<circ> fst) (filter (\<lambda>(j, att). \<not> broadcast_ok env j att)
                (enumerate 0 (map snd (kept (phaseA env) 0 srcs))))) '', '' @ '' could not be broadcasted''"
    using SubmitAttestations_500[OF assms] by blast
  have n2: "httputil_HandleError msg' 500 \<in> set (SubmitAttestationsV2 env r) \<longrightarrow>
            (\<exists>v. version_FromString (Get (Headers r) api_VersionHeader) = Inr v \<and>
               msg' = (if v \<ge> version_Electra
                       then ''Attestations at index '' @ Join (map (Itoa \<circ> fst) (filter (\<lambda>(j, att). \<not> broadcast_ok_electra env j att)
                (enumerate 0 (map snd (kept (phaseA_electra env) 0 srcs))))) '', '' @ '' could not be broadcasted''
                       else ''Attestations at index '' @ Join (map (Itoa \<circ> fst) (filter (\<lambda>(j, att). \<not> broadcast_ok env j att)
                (enumerate 0 (map snd (kept (phaseA env) 0 srcs))))) '', '' @ '' could not be broadcasted''))"
  proof
    assume "httputil_HandleError msg' 500 \<in> set (SubmitAttestationsV2 env r)"
    from SubmitAttestationsV2_500[OF assms this] obtain v where
      v: "version_FromString (Get (Headers r) api_VersionHeader) = Inr v" and
      m: "msg' = ''Attestations at index '' @
               Join (if v \<ge> version_Electra then
                       map (Itoa \<circ> fst) (filter (\<lambda>(j, att). \<not> broadcast_ok_electra env j att)
                         (enumerate 0 (map snd (kept (phaseA_electra env) 0 srcs))))
                     else
                       map (Itoa \<circ> fst) (filter (\<lambda>(j, att). \<not> broadcast_ok env j att)
                         (enumerate 0 (map snd (kept (phaseA env) 0 srcs))))) '', ''
               @ '' could not be broadcasted''" by blast
    from m have "msg' = (if v \<ge> version_Electra
                       then ''Attestations at index '' @ Join (map (Itoa \<circ> fst) (filter (\<lambda>(j, att). \<not> broadcast_ok_electra env j att)
                (enumerate 0 (map snd (kept (phaseA_electra env) 0 srcs))))) '', '' @ '' could not be broadcasted''
                       else ''Attestations at index '' @ Join (map (Itoa \<circ> fst) (filter (\<lambda>(j, att). \<not> broadcast_ok env j att)
                (enumerate 0 (map snd (kept (phaseA env) 0 srcs))))) '', '' @ '' could not be broadcasted'')"
      by (cases "v \<ge> version_Electra") simp_all
    with v show "\<exists>v. version_FromString (Get (Headers r) api_VersionHeader) = Inr v \<and>
               msg' = (if v \<ge> version_Electra
                       then ''Attestations at index '' @ Join (map (Itoa \<circ> fst) (filter (\<lambda>(j, att). \<not> broadcast_ok_electra env j att)
                (enumerate 0 (map snd (kept (phaseA_electra env) 0 srcs))))) '', '' @ '' could not be broadcasted''
                       else ''Attestations at index '' @ Join (map (Itoa \<circ> fst) (filter (\<lambda>(j, att). \<not> broadcast_ok env j att)
                (enumerate 0 (map snd (kept (phaseA env) 0 srcs))))) '', '' @ '' could not be broadcasted'')" by blast
  qed
  have n3: "srcs \<noteq> [] \<and> map (Itoa \<circ> fst) (filter (\<lambda>(j, att). \<not> broadcast_ok env j att)
                (enumerate 0 (map snd (kept (phaseA env) 0 srcs)))) \<noteq> [] \<longrightarrow>
            SubmitAttestations env r =
              snd (handleAttestations env (Raw_Array srcs)) @
              [httputil_HandleError (''Attestations at index '' @ Join (map (Itoa \<circ> fst) (filter (\<lambda>(j, att). \<not> broadcast_ok env j att)
                (enumerate 0 (map snd (kept (phaseA env) 0 srcs))))) '', '' @ '' could not be broadcasted'') 500]"
    using SubmitAttestations_emits_500[OF assms] by blast
  have n4: "Get (Headers r) api_VersionHeader \<noteq> [] \<and> version_FromString (Get (Headers r) api_VersionHeader) = Inr ver \<and>
          ver \<ge> version_Electra \<and> srcs \<noteq> [] \<and>
          (\<forall>att \<in> set (map snd (kept (phaseA_electra env) 0 srcs)).
             \<exists>committeeIndex. GetCommitteeIndex env att = Inr committeeIndex) \<and>
          map (Itoa \<circ> fst) (filter (\<lambda>(j, att). \<not> broadcast_ok_electra env j att)
                (enumerate 0 (map snd (kept (phaseA_electra env) 0 srcs)))) \<noteq> [] \<longrightarrow>
            SubmitAttestationsV2 env r =
              snd (handleAttestationsElectra env (Raw_Array srcs)) @
              [httputil_HandleError (''Attestations at index '' @ Join (map (Itoa \<circ> fst) (filter (\<lambda>(j, att). \<not> broadcast_ok_electra env j att)
                (enumerate 0 (map snd (kept (phaseA_electra env) 0 srcs))))) '', '' @ '' could not be broadcasted'') 500]"
    using SubmitAttestationsV2_electra_emits_500[OF assms] by blast
  have n5: "Get (Headers r) api_VersionHeader \<noteq> [] \<and> version_FromString (Get (Headers r) api_VersionHeader) = Inr ver \<and>
          \<not> ver \<ge> version_Electra \<and> srcs \<noteq> [] \<and>
          map (Itoa \<circ> fst) (filter (\<lambda>(j, att). \<not> broadcast_ok env j att)
                (enumerate 0 (map snd (kept (phaseA env) 0 srcs)))) \<noteq> [] \<longrightarrow>
            SubmitAttestationsV2 env r =
              snd (handleAttestations env (Raw_Array srcs)) @
              [httputil_HandleError (''Attestations at index '' @ Join (map (Itoa \<circ> fst) (filter (\<lambda>(j, att). \<not> broadcast_ok env j att)
                (enumerate 0 (map snd (kept (phaseA env) 0 srcs))))) '', '' @ '' could not be broadcasted'') 500]"
    using SubmitAttestationsV2_base_emits_500[OF assms] by blast
  from old n1 n2 n3 n4 n5 show ?thesis by (intro conjI) (elim conjE, assumption)+
qed

text \<open>
  Witness for C10: the batch of a malformed item and two well-formed ones, through
  \<^verbatim>\<open>SubmitAttestations\<close> and through \<^verbatim>\<open>SubmitAttestationsV2\<close> with the headers \<open>electra\<close>
  and \<open>deneb\<close>. The first broadcast fails; it is reported as index 0, and its item was
  submitted at position 1.
\<close>

theorem failed_index_is_position_among_kept_witness:
  "handleAttestations example_env (Raw_Array [0, 1, 2]) =
     (Inr ([\<lparr>Index = 0,
              Message = ''Could not convert request attestation to consensus attestation: invalid''\<rparr>],
           [''0'']),
      [Feed_Send (UnaggregatedAttReceived (Att_Phase0 (example_att 1))),
      Broadcaster_BroadcastAttestation 0 (Att_Phase0 (example_att 1)),
      Feed_Send (UnaggregatedAttReceived (Att_Phase0 (example_att 2))),
      Broadcaster_BroadcastAttestation 0 (Att_Phase0 (example_att 2)),
      AttestationsPool_SaveUnaggregatedAttestation (Att_Phase0 (example_att 2))]) \<and>
   SubmitAttestations example_env (example_request (Body_Json (Raw_Array [0, 1, 2::nat]))) =
     [Feed_Send (UnaggregatedAttReceived (Att_Phase0 (example_att 1))),
      Broadcaster_BroadcastAttestation 0 (Att_Phase0 (example_att 1)),
      Feed_Send (UnaggregatedAttReceived (Att_Phase0 (example_att 2))),
      Broadcaster_BroadcastAttestation 0 (Att_Phase0 (example_att 2)),
      AttestationsPool_SaveUnaggregatedAttestation (Att_Phase0 (example_att 2)),
      httputil_HandleError ''Attestations at index 0 could not be broadcasted'' 500] \<and>
   handleAttestationsElectra example_env (Raw_Array [0, 1, 2]) =
     (Inr ([\<lparr>Index = 0,
              Message = ''Could not convert request attestation to consensus attestation: invalid''\<rparr>],
           [''0'']),
      [Feed_Send (UnaggregatedAttReceived (Att_Electra (example_att_electra 1))),
      Broadcaster_BroadcastAttestation 0 (Att_Electra (example_att_electra 1)),
      Feed_Send (UnaggregatedAttReceived (Att_Electra (example_att_electra 2))),
      Broadcaster_BroadcastAttestation 0 (Att_Electra (example_att_electra 2)),
      AttestationsPool_SaveUnaggregatedAttestation (Att_Electra (example_att_electra 2))]) \<and>
   SubmitAttestationsV2 example_env (example_request_version ''electra'' (Body_Json (Raw_Array [0, 1, 2::nat]))) =
     [Feed_Send (UnaggregatedAttReceived (Att_Electra (example_att_electra 1))),
      Broadcaster_BroadcastAttestation 0 (Att_Electra (example_att_electra 1)),
      Feed_Send (UnaggregatedAttReceived (Att_Electra (example_att_electra 2))),
      Broadcaster_BroadcastAttestation 0 (Att_Electra (example_att_electra 2)),
      AttestationsPool_SaveUnaggregatedAttestation (Att_Electra (example_att_electra 2)),
      httputil_HandleError ''Attestations at index 0 could not be broadcasted'' 500] \<and>
   SubmitAttestationsV2 example_env (example_request_version ''deneb'' (Body_Json (Raw_Array [0, 1, 2::nat]))) =
     [Feed_Send (UnaggregatedAttReceived (Att_Phase0 (example_att 1))),
      Broadcaster_BroadcastAttestation 0 (Att_Phase0 (example_att 1)),
      Feed_Send (UnaggregatedAttReceived (Att_Phase0 (example_att 2))),
      Broadcaster_BroadcastAttestation 0 (Att_Phase0 (example_att 2)),
      AttestationsPool_SaveUnaggregatedAttestation (Att_Phase0 (example_att 2)),
      httputil_HandleError ''Attestations at index 0 could not be broadcasted'' 500] \<and>
   ''Attestations at index 0 could not be broadcasted'' =
     ''Attestations at index '' @ Join (map (Itoa \<circ> fst) (filter (\<lambda>(j, att). \<not> broadcast_ok example_env j att)
          (enumerate 0 (map snd (kept (phaseA example_env) 0 [0, 1, 2]))))) '', '' @ '' could not be broadcasted'' \<and>
   (\<exists>v. version_FromString (Get (Headers (example_request_version ''electra'' (Body_Json (Raw_Array [0, 1, 2::nat])))) api_VersionHeader) = Inr v \<and>
      ''Attestations at index 0 could not be broadcasted'' =
        (if v \<ge> version_Electra
         then ''Attestations at index '' @ Join (map (Itoa \<circ> fst) (filter (\<lambda>(j, att). \<not> broadcast_ok_electra example_env j att)
          (enumerate 0 (map snd (kept (phaseA_electra example_env) 0 [0, 1, 2]))))) '', '' @ '' could not be broadcasted''
         else ''Attestations at index '' @ Join (map (Itoa \<circ> fst) (filter (\<lambda>(j, att). \<not> broadcast_ok example_env j att)
          (enumerate 0 (map snd (kept (phaseA example_env) 0 [0, 1, 2]))))) '', '' @ '' could not be broadcasted'')) \<and>
   [''0''] =
     map (Itoa \<circ> fst) (filter (\<lambda>(j, att). \<not> broadcast_ok_electra example_env j att)
          (enumerate 0 (map snd (kept (phaseA_electra example_env) 0 [0, 1, 2])))) \<and>
   kept (phaseA example_env) 0 [0, 1, 2] ! 0 = (1, example_att 1) \<and>
   kept (phaseA_electra example_env) 0 [0, 1, 2] ! 0 = (1, example_att_electra 1) \<and>
   phaseA example_env ([0, 1, 2] ! 1) = Some (example_att 1) \<and>
   phaseA_electra example_env ([0, 1, 2] ! 1) = Some (example_att_electra 1) \<and>
   Itoa 0 \<noteq> Itoa 1"
proof -
  let ?failures = "[\<lparr>Index = 0,
      Message = ''Could not convert request attestation to consensus attestation: invalid''\<rparr>]"
  have b1: "Body (example_request (Body_Json (Raw_Array [0, 1, 2::nat]))) = Body_Json (Raw_Array [0, 1, 2::nat])"
    by (simp add: example_request_def)
  have b2: "Body (example_request_version ''electra'' (Body_Json (Raw_Array [0, 1, 2::nat]))) = Body_Json (Raw_Array [0, 1, 2::nat])"
    by (simp add: example_request_version_def)
  have b3: "Body (example_request_version ''deneb'' (Body_Json (Raw_Array [0, 1, 2::nat]))) = Body_Json (Raw_Array [0, 1, 2::nat])"
    by (simp add: example_request_version_def)
  note T1 = failed_index_is_position_among_kept[OF b1, where env = example_env
              and attFailures = ?failures and failedBroadcasts = "[''0'']"
              and attFailures' = ?failures and failedBroadcasts' = "[''0'']"
              and msg = "''Attestations at index 0 could not be broadcasted''"]
  note T2 = failed_index_is_position_among_kept[OF b2, where env = example_env
              and msg' = "''Attestations at index 0 could not be broadcasted''" and ver = 5]
  note T3 = failed_index_is_position_among_kept[OF b3, where env = example_env and ver = 4]
  from T1[THEN conjunct1, rule_format, OF example_handleAttestations]
  have l1: "[''0''] =
     map (Itoa \<circ> fst) (filter (\<lambda>(j, att). \<not> broadcast_ok example_env j att)
          (enumerate 0 (map snd (kept (phaseA example_env) 0 [0, 1, 2]))))"
    and s1': "[''0''] \<noteq> [] \<longrightarrow> SubmitAttestations example_env (example_request (Body_Json (Raw_Array [0, 1, 2::nat]))) =
     [Feed_Send (UnaggregatedAttReceived (Att_Phase0 (example_att 1))),
      Broadcaster_BroadcastAttestation 0 (Att_Phase0 (example_att 1)),
      Feed_Send (UnaggregatedAttReceived (Att_Phase0 (example_att 2))),
      Broadcaster_BroadcastAttestation 0 (Att_Phase0 (example_att 2)),
      AttestationsPool_SaveUnaggregatedAttestation (Att_Phase0 (example_att 2))] @
      [httputil_HandleError
         (''Attestations at index '' @ Join [''0''] '', '' @ '' could not be broadcasted'') 500]"
    by blast+
  from s1' have s1: "SubmitAttestations example_env (example_request (Body_Json (Raw_Array [0, 1, 2::nat]))) =
     [Feed_Send (UnaggregatedAttReceived (Att_Phase0 (example_att 1))),
      Broadcaster_BroadcastAttestation 0 (Att_Phase0 (example_att 1)),
      Feed_Send (UnaggregatedAttReceived (Att_Phase0 (example_att 2))),
      Broadcaster_BroadcastAttestation 0 (Att_Phase0 (example_att 2)),
      AttestationsPool_SaveUnaggregatedAttestation (Att_Phase0 (example_att 2)),
      httputil_HandleError ''Attestations at index 0 could not be broadcasted'' 500]"
    by simp
  from T1[THEN conjunct2, THEN conjunct1, rule_format, OF example_handleAttestationsElectra]
  have e: "[''0''] =
     map (Itoa \<circ> fst) (filter (\<lambda>(j, att). \<not> broadcast_ok_electra example_env j att)
          (enumerate 0 (map snd (kept (phaseA_electra example_env) 0 [0, 1, 2]))))" .
  have k: "0 < length (kept (phaseA example_env) 0 [0, 1, 2]) \<and>
           kept (phaseA example_env) 0 [0, 1, 2] ! 0 = (1, example_att 1)"
    using example_kept by simp
  have k': "0 < length (kept (phaseA_electra example_env) 0 [0, 1, 2]) \<and>
           kept (phaseA_electra example_env) 0 [0, 1, 2] ! 0 = (1, example_att_electra 1)"
    using example_kept_electra by simp
  from T1[THEN conjunct2, THEN conjunct2, THEN conjunct1, rule_format, OF k]
  have p: "phaseA example_env ([0, 1, 2] ! 1) = Some (example_att 1)"
    and d: "(\<exists>s \<in> set (take 1 [0, 1, 2]). phaseA example_env s = None) \<longrightarrow> Itoa 0 \<noteq> Itoa 1"
    by blast+
  from T1[THEN conjunct2, THEN conjunct2, THEN conjunct2, THEN conjunct1, rule_format, OF k']
  have p': "phaseA_electra example_env ([0, 1, 2] ! 1) = Some (example_att_electra 1)"
    by blast
  from d have d': "Itoa 0 \<noteq> Itoa 1"
    using example_phaseA_0(1) by simp
  have mem1: "httputil_HandleError ''Attestations at index 0 could not be broadcasted'' 500
                \<in> set (SubmitAttestations example_env (example_request (Body_Json (Raw_Array [0, 1, 2::nat]))))"
    unfolding s1 by simp
  from T1[THEN conjunct2, THEN conjunct2, THEN conjunct2, THEN conjunct2, THEN conjunct1,
          rule_format, OF mem1]
  have m1: "''Attestations at index 0 could not be broadcasted'' =
     ''Attestations at index '' @ Join (map (Itoa \<circ> fst) (filter (\<lambda>(j, att). \<not> broadcast_ok example_env j att)
          (enumerate 0 (map snd (kept (phaseA example_env) 0 [0, 1, 2]))))) '', '' @ '' could not be broadcasted''" .
  have hyp4: "Get (Headers (example_request_version ''electra'' (Body_Json (Raw_Array [0, 1, 2::nat])))) api_VersionHeader \<noteq> [] \<and>
      version_FromString (Get (Headers (example_request_version ''electra'' (Body_Json (Raw_Array [0, 1, 2::nat])))) api_VersionHeader) = Inr 5 \<and>
      5 \<ge> version_Electra \<and> [0, 1, 2::nat] \<noteq> [] \<and>
      (\<forall>att \<in> set (map snd (kept (phaseA_electra example_env) 0 [0, 1, 2])).
         \<exists>committeeIndex. GetCommitteeIndex example_env att = Inr committeeIndex) \<and>
      map (Itoa \<circ> fst) (filter (\<lambda>(j, att). \<not> broadcast_ok_electra example_env j att)
          (enumerate 0 (map snd (kept (phaseA_electra example_env) 0 [0, 1, 2])))) \<noteq> []"
    using e[symmetric] unfolding example_kept_electra
    by (simp add: example_request_version_def Get_def version_FromString_electra
          version_Electra_def example_env_def)
  from T2[THEN conjunct2, THEN conjunct2, THEN conjunct2, THEN conjunct2, THEN conjunct2,
          THEN conjunct2, THEN conjunct2, THEN conjunct1, rule_format, OF hyp4]
  have "SubmitAttestationsV2 example_env (example_request_version ''electra'' (Body_Json (Raw_Array [0, 1, 2::nat]))) =
          snd (handleAttestationsElectra example_env (Raw_Array [0, 1, 2])) @
          [httputil_HandleError (''Attestations at index '' @ Join (map (Itoa \<circ> fst) (filter (\<lambda>(j, att). \<not> broadcast_ok_electra example_env j att)
          (enumerate 0 (map snd (kept (phaseA_electra example_env) 0 [0, 1, 2]))))) '', '' @ '' could not be broadcasted'') 500]" .
  then have "SubmitAttestationsV2 example_env (example_request_version ''electra'' (Body_Json (Raw_Array [0, 1, 2::nat]))) =
          snd (handleAttestationsElectra example_env (Raw_Array [0, 1, 2])) @
          [httputil_HandleError
             (''Attestations at index '' @ Join [''0''] '', '' @ '' could not be broadcasted'') 500]"
    by (simp only: e[symmetric])
  then have s2: "SubmitAttestationsV2 example_env (example_request_version ''electra'' (Body_Json (Raw_Array [0, 1, 2::nat]))) =
     [Feed_Send (UnaggregatedAttReceived (Att_Electra (example_att_electra 1))),
      Broadcaster_BroadcastAttestation 0 (Att_Electra (example_att_electra 1)),
      Feed_Send (UnaggregatedAttReceived (Att_Electra (example_att_electra 2))),
      Broadcaster_BroadcastAttestation 0 (Att_Electra (example_att_electra 2)),
      AttestationsPool_SaveUnaggregatedAttestation (Att_Electra (example_att_electra 2)),
      httputil_HandleError ''Attestations at index 0 could not be broadcasted'' 500]"
    unfolding example_handleAttestationsElectra by simp
  have mem2: "httputil_HandleError ''Attestations at index 0 could not be broadcasted'' 500
                \<in> set (SubmitAttestationsV2 example_env (example_request_version ''electra'' (Body_Json (Raw_Array [0, 1, 2::nat]))))"
    unfolding s2 by simp
  from T2[THEN conjunct2, THEN conjunct2, THEN conjunct2, THEN conjunct2, THEN conjunct2,
          THEN conjunct1, rule_format, OF mem2]
  have m2: "\<exists>v. version_FromString (Get (Headers (example_request_version ''electra'' (Body_Json (Raw_Array [0, 1, 2::nat])))) api_VersionHeader) = Inr v \<and>
      ''Attestations at index 0 could not be broadcasted'' =
        (if v \<ge> version_Electra
         then ''Attestations at index '' @ Join (map (Itoa \<circ> fst) (filter (\<lambda>(j, att). \<not> broadcast_ok_electra example_env j att)
          (enumerate 0 (map snd (kept (phaseA_electra example_env) 0 [0, 1, 2]))))) '', '' @ '' could not be broadcasted''
         else ''Attestations at index '' @ Join (map (Itoa \<circ> fst) (filter (\<lambda>(j, att). \<not> broadcast_ok example_env j att)
          (enumerate 0 (map snd (kept (phaseA example_env) 0 [0, 1, 2]))))) '', '' @ '' could not be broadcasted'')" .
  have hyp5: "Get (Headers (example_request_version ''deneb'' (Body_Json (Raw_Array [0, 1, 2::nat])))) api_VersionHeader \<noteq> [] \<and>
      version_FromString (Get (Headers (example_request_version ''deneb'' (Body_Json (Raw_Array [0, 1, 2::nat])))) api_VersionHeader) = Inr 4 \<and>
      \<not> 4 \<ge> version_Electra \<and> [0, 1, 2::nat] \<noteq> [] \<and>
      map (Itoa \<circ> fst) (filter (\<lambda>(j, att). \<not> broadcast_ok example_env j att)
          (enumerate 0 (map snd (kept (phaseA example_env) 0 [0, 1, 2])))) \<noteq> []"
    using l1[symmetric]
    by (simp add: example_request_version_def Get_def version_FromString_deneb
          version_Electra_def)
  from T3[THEN conjunct2, THEN conjunct2, THEN conjunct2, THEN conjunct2, THEN conjunct2,
          THEN conjunct2, THEN conjunct2, THEN conjunct2, rule_format, OF hyp5]
  have "SubmitAttestationsV2 example_env (example_request_version ''deneb'' (Body_Json (Raw_Array [0, 1, 2::nat]))) =
          snd (handleAttestations example_env (Raw_Array [0, 1, 2])) @
          [httputil_HandleError (''Attestations at index '' @ Join (map (Itoa \<circ> fst) (filter (\<lambda>(j, att). \<not> broadcast_ok example_env j att)
          (enumerate 0 (map snd (kept (phaseA example_env) 0 [0, 1, 2]))))) '', '' @ '' could not be broadcasted'') 500]" .
  then have "SubmitAttestationsV2 example_env (example_request_version ''deneb'' (Body_Json (Raw_Array [0, 1, 2::nat]))) =
          snd (handleAttestations example_env (Raw_Array [0, 1, 2])) @
          [httputil_HandleError
             (''Attestations at index '' @ Join [''0''] '', '' @ '' could not be broadcasted'') 500]"
    by (simp only: l1[symmetric])
  then have s3: "SubmitAttestationsV2 example_env (example_request_version ''deneb'' (Body_Json (Raw_Array [0, 1, 2::nat]))) =
     [Feed_Send (UnaggregatedAttReceived (Att_Phase0 (example_att 1))),
      Broadcaster_BroadcastAttestation 0 (Att_Phase0 (example_att 1)),
      Feed_Send (UnaggregatedAttReceived (Att_Phase0 (example_att 2))),
      Broadcaster_BroadcastAttestation 0 (Att_Phase0 (example_att 2)),
      AttestationsPool_SaveUnaggregatedAttestation (Att_Phase0 (example_att 2)),
      httputil_HandleError ''Attestations at index 0 could not be broadcasted'' 500]"
    unfolding example_handleAttestations by simp
  have n3: "[0, 1, 2::nat] \<noteq> [] \<and>
      map (Itoa \<circ> fst) (filter (\<lambda>(j, att). \<not> broadcast_ok example_env j att)
          (enumerate 0 (map snd (kept (phaseA example_env) 0 [0, 1, 2])))) \<noteq> []"
    using l1[symmetric] by simp
  from T1[THEN conjunct2, THEN conjunct2, THEN conjunct2, THEN conjunct2, THEN conjunct2,
          THEN conjunct2, THEN conjunct1, rule_format, OF n3]
  have "SubmitAttestations example_env (example_request (Body_Json (Raw_Array [0, 1, 2::nat]))) =
          snd (handleAttestations example_env (Raw_Array [0, 1, 2])) @
          [httputil_HandleError (''Attestations at index '' @ Join (map (Itoa \<circ> fst) (filter (\<lambda>(j, att). \<not> broadcast_ok example_env j att)
          (enumerate 0 (map snd (kept (phaseA example_env) 0 [0, 1, 2]))))) '', '' @ '' could not be broadcasted'') 500]" .
  note example_handleAttestations example_handleAttestationsElectra
  from this s1 s2 s3 m1 m2 e k k' p p' d' show ?thesis
    by (intro conjI) (elim conjE, assumption)+
qed

end
